theory Spec2Isabelle
  imports Main "HOL-Library.Word" "HOL-Library.Signed_Division"
begin

unbundle bit_operations_syntax

section \<open>Machine model\<close>

text \<open>
  The viewer works on one heap buffer holding the object file. A C pointer into that
  buffer is modelled by its distance from \<open>object->data\<close>, an integer that may be negative
  or lie past the end, as the unchecked pointer arithmetic of the source allows. A read
  through such a pointer outside the allocated bytes is undefined behaviour in C; the model
  makes it the result \<open>Wild_read\<close>.

  C's \<open>int\<close> is 32 bits wide (the source asserts it); \<open>size_t\<close> and \<open>ptrdiff_t\<close> are taken
  to be 64 bits wide. Conversions between them are written out with \<open>to_int\<close> and
  \<open>to_size_t\<close>.
\<close>

type_synonym byte = "8 word"

text \<open>
  Every call of \<open>bail\<close> is an error value, named after the diagnostic printed before it
  (with the numbers the diagnostic shows), and so is every failure of
  \<open>read_object_file_data\<close>. The last two are no diagnostics of the viewer: \<open>Wild_read p\<close>
  stands for a read at distance \<open>p\<close> from \<open>object->data\<close> that leaves the buffer, and
  \<open>Null_buffer\<close> for the use of the null pointer that a failed \<open>malloc\<close> returns.
\<close>

datatype error =
    Too_small
  | Expect_data int int
  | Offset_outside int
  | Expect_chunk_data int int
  | Chunk_offset_outside int
  | Not_nul_terminated int
  | Expect_pcode_data int int
  | Seek_end_failed
  | Tell_failed
  | Seek_set_failed
  | Too_big int
  | Read_failed
  | Wild_read int
  | Null_buffer

text \<open>
  The conversions of an integer to \<open>int\<close>, \<open>size_t\<close> and \<open>short\<close>: the value modulo the
  width of the type, read as two's complement for the signed types.
\<close>

definition to_int :: "int \<Rightarrow> int" where
  "to_int x = (x + 2 ^ 31) mod 2 ^ 32 - 2 ^ 31"

definition to_size_t :: "int \<Rightarrow> int" where
  "to_size_t x = x mod 2 ^ 64"

definition to_short :: "int \<Rightarrow> int" where
  "to_short x = (x + 2 ^ 15) mod 2 ^ 16 - 2 ^ 15"

text \<open>The bytes of a string literal, without its terminating NUL.\<close>

definition cstr :: "string \<Rightarrow> byte list" where
  "cstr s = map of_char s"

text \<open>
  \<open>memcpy mem p n\<close> is a read of \<open>n\<close> bytes at distance \<open>p\<close> from the start of the buffer
  \<open>mem\<close>: by \<open>memcpy\<close>, \<open>memcmp\<close> or a plain dereference in the source. Multi-byte
  integers are little-endian.
\<close>

definition memcpy :: "byte list \<Rightarrow> int \<Rightarrow> nat \<Rightarrow> error + byte list" where
  "memcpy mem p n =
     (if 0 \<le> p \<and> p + int n \<le> int (length mem)
      then Inr (take n (drop (nat p) mem))
      else Inl (Wild_read p))"

fun le_uint :: "byte list \<Rightarrow> int" where
  "le_uint [] = 0"
| "le_uint (b # bs) = uint b + 256 * le_uint bs"

definition int_of_bytes :: "byte list \<Rightarrow> int" where
  "int_of_bytes bs = to_int (le_uint bs)"

definition short_of_bytes :: "byte list \<Rightarrow> int" where
  "short_of_bytes bs = to_short (le_uint bs)"

definition read_int :: "byte list \<Rightarrow> int \<Rightarrow> error + int" where
  "read_int mem p =
     (case memcpy mem p 4 of Inl e \<Rightarrow> Inl e | Inr bs \<Rightarrow> Inr (int_of_bytes bs))"

section \<open>The object and the bounds discipline\<close>

text \<open>
  The fields \<open>data\<close> and \<open>size\<close> of \<open>struct object\<close> are \<open>obj_data\<close> (the whole buffer, with
  the byte the loader adds after the file) and \<open>obj_size\<close> (the size of the file).
\<close>

datatype format = FORMAT_UNKNOWN | FORMAT_ZERO | FORMAT_BIG_E | FORMAT_LITTLE_E

record object =
  obj_data :: "byte list"
  obj_size :: int
  format :: format
  directory_offset :: int
  string_offset :: int
  real_header_offset :: int
  chunk_offset :: int
  indirect_format :: bool
  small_code :: bool

record header =
  header_id :: "byte list"
  header_offset :: int

definition init_object :: "byte list \<Rightarrow> int \<Rightarrow> object" where
  "init_object d sz =
     \<lparr> obj_data = d, obj_size = sz, format = FORMAT_UNKNOWN, directory_offset = 0,
       string_offset = 0, real_header_offset = 0, chunk_offset = 0,
       indirect_format = False, small_code = False \<rparr>"

text \<open>
  In \<open>data_left\<close>, \<open>offset_in_range\<close> and \<open>expect_data\<close> the pointers \<open>data\<close>, \<open>start\<close> and
  \<open>end\<close> are distances from \<open>object->data\<close>.
\<close>

definition data_left :: "object \<Rightarrow> int \<Rightarrow> int" where
  "data_left object p = to_int (obj_size object - p)"

definition offset_in_range :: "object \<Rightarrow> int \<Rightarrow> int \<Rightarrow> int \<Rightarrow> bool" where
  "offset_in_range object start end offset = (offset \<ge> start \<and> offset < end)"

definition offset_in_object_file :: "object \<Rightarrow> int \<Rightarrow> bool" where
  "offset_in_object_file object offset =
     offset_in_range object 0 (obj_size object) offset"

definition expect_data :: "object \<Rightarrow> int \<Rightarrow> int \<Rightarrow> error + unit" where
  "expect_data object start sz =
     (let left = data_left object start
      in if left < sz then Inl (Expect_data sz (if left < 0 then 0 else left))
         else Inr ())"

definition expect_offset_in_object_file :: "object \<Rightarrow> int \<Rightarrow> error + unit" where
  "expect_offset_in_object_file object offset =
     (if \<not> offset_in_object_file object offset then Inl (Offset_outside offset)
      else Inr ())"

section \<open>Format resolver\<close>

definition script_directory_present :: "object \<Rightarrow> bool" where
  "script_directory_present object =
     (case format object of
        FORMAT_BIG_E \<Rightarrow> indirect_format object = True
      | FORMAT_LITTLE_E \<Rightarrow> indirect_format object = True
      | FORMAT_ZERO \<Rightarrow> True
      | FORMAT_UNKNOWN \<Rightarrow> False)"

text \<open>
  \<open>header->offset - sizeof( header->id )\<close> is computed in \<open>size_t\<close> and stored in an
  \<open>int\<close>.
\<close>

definition peek_real_id :: "object \<Rightarrow> header \<Rightarrow> error + bool" where
  "peek_real_id object hdr =
     (let offset = to_int (to_size_t (header_offset hdr) - 4)
      in if offset_in_object_file object offset
         then (case memcpy (obj_data object) offset 4 of
                 Inl e \<Rightarrow> Inl e
               | Inr d \<Rightarrow> Inr (d = cstr ''ACSE'' \<or> d = cstr ''ACSe''))
         else Inr False)"

definition determine_format_indirect :: "object \<Rightarrow> header \<Rightarrow> error + object" where
  "determine_format_indirect object hdr =
     (let offset = to_int (to_size_t (header_offset hdr) - 4)
      in case memcpy (obj_data object) (offset + 3) 1 of
           Inl e \<Rightarrow> Inl e
         | Inr e_byte \<Rightarrow>
             let object = object\<lparr> format :=
                   (if e_byte = cstr ''E'' then FORMAT_BIG_E else FORMAT_LITTLE_E) \<rparr>;
                 offset = to_int (to_size_t offset - 4)
             in (case expect_offset_in_object_file object offset of
                   Inl e \<Rightarrow> Inl e
                 | Inr _ \<Rightarrow>
                     (case read_int (obj_data object) offset of
                        Inl e \<Rightarrow> Inl e
                      | Inr chunk_offset_value \<Rightarrow>
                          Inr (object\<lparr> real_header_offset := offset,
                                       chunk_offset := chunk_offset_value,
                                       indirect_format := True \<rparr>))))"

text \<open>
  \<open>determine_format\<close> is written in four pieces: \<open>determine_format_indirect\<close> (above) is
  the block it runs when \<open>peek_real_id\<close> finds the hidden format name,
  \<open>classify_header\<close> is its \<open>if\<close> / \<open>else if\<close> chain on the format name, and
  \<open>set_small_code\<close> is its last statement.
\<close>

definition classify_header :: "object \<Rightarrow> header \<Rightarrow> error + object" where
  "classify_header object hdr =
     (if header_id hdr = cstr ''ACSE'' \<or> header_id hdr = cstr ''ACSe''
      then Inr (object\<lparr> format :=
                  (if header_id hdr ! 3 = of_char CHR ''E''
                   then FORMAT_BIG_E else FORMAT_LITTLE_E),
                chunk_offset := directory_offset object \<rparr>)
      else if header_id hdr = [of_char CHR ''A'', of_char CHR ''C'', of_char CHR ''S'', 0]
      then (case peek_real_id object hdr of
              Inl e \<Rightarrow> Inl e
            | Inr True \<Rightarrow> determine_format_indirect object hdr
            | Inr False \<Rightarrow> Inr (object\<lparr> format := FORMAT_ZERO \<rparr>))
      else Inr object)"

definition set_small_code :: "object \<Rightarrow> object" where
  "set_small_code object =
     (if format object = FORMAT_LITTLE_E then object\<lparr> small_code := True \<rparr> else object)"

definition determine_format :: "object \<Rightarrow> error + object" where
  "determine_format object =
     (if to_size_t (data_left object 0) < 8 then Inl Too_small
      else case memcpy (obj_data object) 0 8 of
        Inl e \<Rightarrow> Inl e
      | Inr raw \<Rightarrow>
          let hdr = \<lparr> header_id = take 4 raw, header_offset = int_of_bytes (drop 4 raw) \<rparr>
          in (case expect_offset_in_object_file object (header_offset hdr) of
                Inl e \<Rightarrow> Inl e
              | Inr _ \<Rightarrow>
                  (case classify_header (object\<lparr> directory_offset := header_offset hdr \<rparr>) hdr of
                     Inl e \<Rightarrow> Inl e
                   | Inr object \<Rightarrow> Inr (set_small_code object))))"

definition determine_object_offsets :: "object \<Rightarrow> error + object" where
  "determine_object_offsets object =
     (if script_directory_present object
      then (let d = directory_offset object
            in (case expect_data object d 4 of
                 Inl e \<Rightarrow> Inl e
               | Inr _ \<Rightarrow>
                   (case read_int (obj_data object) d of
                      Inl e \<Rightarrow> Inl e
                    | Inr total_scripts \<Rightarrow>
                        let string_offset_value =
                              to_int (to_size_t (directory_offset object) + 4 +
                                      to_size_t total_scripts * 12)
                        in (case expect_offset_in_object_file object string_offset_value of
                             Inl e \<Rightarrow> Inl e
                           | Inr _ \<Rightarrow>
                               Inr (object\<lparr> string_offset := string_offset_value \<rparr>)))))
      else Inr object)"

text \<open>
  The first two calls of \<open>perform_operation\<close>: the format resolver on a fresh object.
\<close>

definition resolve_format :: "byte list \<Rightarrow> int \<Rightarrow> error + object" where
  "resolve_format d sz =
     (case determine_format (init_object d sz) of
        Inl e \<Rightarrow> Inl e
      | Inr object \<Rightarrow> determine_object_offsets object)"

section \<open>Output\<close>

text \<open>
  What the viewer prints, one value for each \<open>printf\<close> (or each conversion of one, where
  the viewer can bail out in the middle of a line). The text of the mnemonics and the
  layout of the lines are left out. A function that prints takes the output so far and
  returns it extended, also when it bails out.

  \<open>Chunk_line\<close> is the line of \<open>show_chunk\<close> (name, offset, size); \<open>Script_number_out\<close>,
  \<open>Type_name_out\<close> or \<open>Type_unknown_out\<close>, and \<open>Params_offset_out\<close> make the line of a script;
  \<open>Func_line\<close> is the line of a function (index, parameters, size, has-return, offset);
  \<open>Warning_offset_outside\<close> is the warning for an offset outside the object file.
  \<open>Pos_out\<close> to \<open>Newline_out\<close> are the pieces of a disassembled instruction, and the
  rest the pieces of the two directories.
\<close>

datatype out =
    Chunk_line "byte list" int int
  | Script_number_out int
  | Type_name_out string
  | Type_unknown_out int
  | Params_offset_out int int
  | Func_line int int int int int
  | Imported_out
  | Warning_offset_outside int
  | Pos_out int
  | Name_out int
  | Unknown_pcode_out int
  | Int_out int
  | Byte_out int
  | Count_out int
  | Num_cases_out int
  | Case_out int int
  | Target_out int
  | Newline_out
  | Script_directory_out int
  | Total_scripts_out int
  | String_directory_out int
  | Total_strings_out int
  | String_index_out int int
  | Char_out byte
  | String_end_out

section \<open>Chunk walker\<close>

datatype chunk_type =
    CHUNK_UNKNOWN | CHUNK_ARAY | CHUNK_AINI | CHUNK_AIMP | CHUNK_ASTR | CHUNK_MSTR
  | CHUNK_ATAG | CHUNK_LOAD | CHUNK_FUNC | CHUNK_FNAM | CHUNK_MINI | CHUNK_MIMP
  | CHUNK_MEXP | CHUNK_SPTR | CHUNK_SFLG | CHUNK_SVCT | CHUNK_SNAM | CHUNK_STRL
  | CHUNK_STRE | CHUNK_SARY | CHUNK_FARY | CHUNK_ALIB

record chunk =
  chunk_name :: "byte list"
  chunk_data :: int
  chunk_size :: int
  chunk_type :: chunk_type

text \<open>A \<open>chunk_reader\<close> also points to its object; the model passes the object along.\<close>

record chunk_reader =
  end_pos :: int
  pos :: int

definition chunk_data_left :: "chunk \<Rightarrow> int \<Rightarrow> int" where
  "chunk_data_left chunk p = to_int ((chunk_data chunk + chunk_size chunk) - p)"

definition expect_chunk_data :: "chunk \<Rightarrow> int \<Rightarrow> int \<Rightarrow> error + unit" where
  "expect_chunk_data chunk start sz =
     (let left = chunk_data_left chunk start
      in if left < sz then Inl (Expect_chunk_data sz (if left < 0 then 0 else left))
         else Inr ())"

definition chunk_offset_in_range :: "chunk \<Rightarrow> int \<Rightarrow> int \<Rightarrow> int \<Rightarrow> bool" where
  "chunk_offset_in_range chunk start end offset =
     (offset \<ge> start - chunk_data chunk \<and> offset < end - chunk_data chunk)"

definition chunk_offset_in_chunk :: "chunk \<Rightarrow> int \<Rightarrow> bool" where
  "chunk_offset_in_chunk chunk offset =
     chunk_offset_in_range chunk (chunk_data chunk) (chunk_data chunk + chunk_size chunk)
       offset"

definition expect_chunk_offset_in_chunk :: "chunk \<Rightarrow> int \<Rightarrow> error + unit" where
  "expect_chunk_offset_in_chunk chunk offset =
     (if \<not> chunk_offset_in_chunk chunk offset then Inl (Chunk_offset_outside offset)
      else Inr ())"

text \<open>\<open>toupper\<close> in the C locale.\<close>

definition toupper :: "byte \<Rightarrow> byte" where
  "toupper c = (if of_char CHR ''a'' \<le> c \<and> c \<le> of_char CHR ''z'' then c - 32 else c)"

definition supported :: "(string \<times> chunk_type) list" where
  "supported =
     [ (''ARAY'', CHUNK_ARAY), (''AINI'', CHUNK_AINI), (''AIMP'', CHUNK_AIMP),
       (''ASTR'', CHUNK_ASTR), (''MSTR'', CHUNK_MSTR), (''ATAG'', CHUNK_ATAG),
       (''LOAD'', CHUNK_LOAD), (''FUNC'', CHUNK_FUNC), (''FNAM'', CHUNK_FNAM),
       (''MINI'', CHUNK_MINI), (''MIMP'', CHUNK_MIMP), (''MEXP'', CHUNK_MEXP),
       (''SPTR'', CHUNK_SPTR), (''SFLG'', CHUNK_SFLG), (''SVCT'', CHUNK_SVCT),
       (''SNAM'', CHUNK_SNAM), (''STRL'', CHUNK_STRL), (''STRE'', CHUNK_STRE),
       (''SARY'', CHUNK_SARY), (''FARY'', CHUNK_FARY), (''ALIB'', CHUNK_ALIB) ]"

text \<open>
  A C string is the bytes before the first NUL; \<open>strcmp\<close> returning 0 is equality of
  these. The search of \<open>get_chunk_type\<close> through the table ends at the first match or at
  the table's last entry, the one of type \<open>CHUNK_UNKNOWN\<close>, which is the empty case of
  \<open>lookup_supported\<close>.
\<close>

definition c_string :: "byte list \<Rightarrow> byte list" where
  "c_string bs = takeWhile (\<lambda>b. b \<noteq> 0) bs"

fun lookup_supported :: "(string \<times> chunk_type) list \<Rightarrow> byte list \<Rightarrow> chunk_type" where
  "lookup_supported [] buff = CHUNK_UNKNOWN"
| "lookup_supported ((n, t) # rest) buff =
     (if c_string buff = c_string (cstr n) then t else lookup_supported rest buff)"

definition get_chunk_type :: "byte list \<Rightarrow> chunk_type" where
  "get_chunk_type name =
     (let buff = map toupper (take 4 name) @ [0]
      in lookup_supported supported buff)"

text \<open>
  \<open>init_chunk\<close> reads the header \<open>{char name[4]; int size}\<close> at \<open>offset\<close>. The two calls of
  \<open>expect_data\<close> are all its checks: that 8 bytes are left for the header, and that no
  fewer bytes than \<open>size\<close> are left after it.
\<close>

definition init_chunk :: "object \<Rightarrow> int \<Rightarrow> error + chunk" where
  "init_chunk object offset =
     (case expect_data object offset 8 of
        Inl e \<Rightarrow> Inl e
      | Inr _ \<Rightarrow>
          (case memcpy (obj_data object) offset 8 of
             Inl e \<Rightarrow> Inl e
           | Inr raw \<Rightarrow>
               let chunk = \<lparr> chunk_name = take 4 raw @ [0],
                             chunk_data = offset + 8,
                             chunk_size = int_of_bytes (drop 4 raw),
                             chunk_type = get_chunk_type (take 4 raw @ [0]) \<rparr>
               in (case expect_data object (chunk_data chunk) (chunk_size chunk) of
                     Inl e \<Rightarrow> Inl e
                   | Inr _ \<Rightarrow> Inr chunk)))"

definition init_chunk_reader :: "object \<Rightarrow> chunk_reader" where
  "init_chunk_reader object =
     \<lparr> end_pos = (if indirect_format object then real_header_offset object
                  else obj_size object),
       pos = chunk_offset object \<rparr>"

text \<open>
  In \<open>read_chunk\<close> the difference of the two \<open>int\<close> positions is compared with a
  \<open>size_t\<close>, so it is converted to \<open>size_t\<close> first; the new position is computed in
  \<open>size_t\<close> and converted back to \<open>int\<close>.
\<close>

definition read_chunk :: "object \<Rightarrow> chunk_reader \<Rightarrow> error + (chunk \<times> chunk_reader) option"
  where
  "read_chunk object reader =
     (if to_size_t (to_int (end_pos reader - pos reader)) \<ge> 8
      then (case init_chunk object (pos reader) of
              Inl e \<Rightarrow> Inl e
            | Inr chunk \<Rightarrow>
                Inr (Some (chunk,
                  reader\<lparr> pos := to_int (to_size_t (to_size_t (pos reader) +
                                     to_size_t (8 + to_size_t (chunk_size chunk)))) \<rparr>)))
      else Inr None)"

text \<open>
  The loops over \<open>read_chunk\<close> need not end, so they are partial functions: \<open>None\<close> is
  a walk that never returns.
\<close>

partial_function (option) find_chunk_loop ::
  "object \<Rightarrow> byte list \<Rightarrow> chunk_reader \<Rightarrow> (error + chunk option) option" where
  "find_chunk_loop object name reader =
     (case read_chunk object reader of
        Inl e \<Rightarrow> Some (Inl e)
      | Inr None \<Rightarrow> Some (Inr None)
      | Inr (Some (chunk, reader')) \<Rightarrow>
          if c_string name = c_string (chunk_name chunk) then Some (Inr (Some chunk))
          else find_chunk_loop object name reader')"

declare find_chunk_loop.simps [code]

definition find_chunk :: "object \<Rightarrow> byte list \<Rightarrow> (error + chunk option) option" where
  "find_chunk object name = find_chunk_loop object name (init_chunk_reader object)"

text \<open>\<open>show_chunk\<close> with \<open>show_contents = false\<close> prints the chunk's line only.\<close>

definition show_chunk_line :: "object \<Rightarrow> chunk \<Rightarrow> out" where
  "show_chunk_line object chunk =
     Chunk_line (c_string (chunk_name chunk)) (to_int (chunk_data chunk - 8))
       (chunk_size chunk)"

partial_function (option) list_chunks_loop ::
  "object \<Rightarrow> chunk_reader \<Rightarrow> out list \<Rightarrow> (out list \<times> (error + unit)) option" where
  "list_chunks_loop object reader outs =
     (case read_chunk object reader of
        Inl e \<Rightarrow> Some (outs, Inl e)
      | Inr None \<Rightarrow> Some (outs, Inr ())
      | Inr (Some (chunk, reader')) \<Rightarrow>
          list_chunks_loop object reader' (outs @ [show_chunk_line object chunk]))"

declare list_chunks_loop.simps [code]

definition list_chunks :: "object \<Rightarrow> (out list \<times> (error + unit)) option" where
  "list_chunks object = list_chunks_loop object (init_chunk_reader object) []"

section \<open>Extent inference\<close>

record common_acse_script_entry =
  entry_number :: int
  entry_type :: int
  entry_num_param :: int
  entry_offset :: int
  real_entry_size :: int

text \<open>
  The entry of an indirect file is \<open>{short number; unsigned char type; unsigned char
  num_param; int offset}\<close>, that of a direct file \<open>{short number; short type; int offset;
  int num_param}\<close>. \<open>data\<close> is the pointer to the entry.
\<close>

definition read_acse_script_entry ::
  "object \<Rightarrow> chunk \<Rightarrow> int \<Rightarrow> error + common_acse_script_entry" where
  "read_acse_script_entry object chunk data =
     (if indirect_format object
      then (case expect_chunk_data chunk data 8 of
              Inl e \<Rightarrow> Inl e
            | Inr _ \<Rightarrow>
                (case memcpy (obj_data object) data 8 of
                   Inl e \<Rightarrow> Inl e
                 | Inr raw \<Rightarrow>
                     Inr \<lparr> entry_number = short_of_bytes (take 2 raw),
                           entry_type = le_uint (take 1 (drop 2 raw)),
                           entry_num_param = le_uint (take 1 (drop 3 raw)),
                           entry_offset = int_of_bytes (take 4 (drop 4 raw)),
                           real_entry_size = 8 \<rparr>))
      else (case expect_chunk_data chunk data 12 of
              Inl e \<Rightarrow> Inl e
            | Inr _ \<Rightarrow>
                (case memcpy (obj_data object) data 12 of
                   Inl e \<Rightarrow> Inl e
                 | Inr raw \<Rightarrow>
                     Inr \<lparr> entry_number = short_of_bytes (take 2 raw),
                           entry_type = short_of_bytes (take 2 (drop 2 raw)),
                           entry_num_param = int_of_bytes (take 4 (drop 8 raw)),
                           entry_offset = int_of_bytes (take 4 (drop 4 raw)),
                           real_entry_size = 12 \<rparr>)))"

lemma read_acse_script_entry_size:
  "read_acse_script_entry object chunk data = Inr entry \<Longrightarrow>
     real_entry_size entry = (if indirect_format object then 8 else 12)"
  unfolding read_acse_script_entry_def by (auto split: if_splits sum.splits)

text \<open>
  The test every candidate in the tables of \<open>calc_code_size\<close> goes through:
  \<open>if ( x > offset && x < end_offset ) { end_offset = x; }\<close>.
\<close>

definition later_and_lower :: "int \<Rightarrow> int \<Rightarrow> int \<Rightarrow> int" where
  "later_and_lower x offset end_offset =
     (if x > offset \<and> x < end_offset then x else end_offset)"

text \<open>The \<open>while\<close> loop of \<open>calc_code_size\<close> over the SPTR chunk.\<close>

function sptr_end_offset :: "object \<Rightarrow> chunk \<Rightarrow> int \<Rightarrow> int \<Rightarrow> int \<Rightarrow> error + int" where
  "sptr_end_offset object chunk sz offset end_offset =
     (if sz < chunk_size chunk
      then (case read_acse_script_entry object chunk (chunk_data chunk + sz) of
              Inl e \<Rightarrow> Inl e
            | Inr entry \<Rightarrow>
                sptr_end_offset object chunk (sz + real_entry_size entry) offset
                  (later_and_lower (entry_offset entry) offset end_offset))
      else Inr end_offset)"
  by pat_completeness auto
termination
  by (relation "measure (\<lambda>(object, chunk, sz, offset, end_offset). nat (chunk_size chunk - sz))")
     (auto dest: read_acse_script_entry_size split: if_splits)

declare sptr_end_offset.simps [simp del]

text \<open>
  The three \<open>for\<close> loops of \<open>calc_code_size\<close> (FUNC entries, script-directory entries,
  string-directory entries) read \<open>count\<close> records of \<open>entry_size\<close> bytes from \<open>data\<close> on,
  without a bounds check, and test the \<open>int\<close> found \<open>field\<close> bytes into each.
\<close>

function table_end_offset ::
  "byte list \<Rightarrow> int \<Rightarrow> nat \<Rightarrow> nat \<Rightarrow> int \<Rightarrow> int \<Rightarrow> int \<Rightarrow> int \<Rightarrow> error + int" where
  "table_end_offset mem data entry_size field i count offset end_offset =
     (if i < count
      then (case memcpy mem data entry_size of
              Inl e \<Rightarrow> Inl e
            | Inr raw \<Rightarrow>
                table_end_offset mem (data + int entry_size) entry_size field (i + 1) count
                  offset
                  (later_and_lower (int_of_bytes (take 4 (drop field raw))) offset end_offset))
      else Inr end_offset)"
  by pat_completeness auto
termination
  by (relation "measure (\<lambda>(mem, data, entry_size, field, i, count, offset, end_offset).
        nat (count - i))") auto

declare table_end_offset.simps [simp del]

definition chunks_end_offset :: "object \<Rightarrow> int \<Rightarrow> int \<Rightarrow> (error + int) option" where
  "chunks_end_offset object offset end_offset =
     (if format object = FORMAT_BIG_E \<or> format object = FORMAT_LITTLE_E
      then (case find_chunk object (cstr ''SPTR'') of
              None \<Rightarrow> None
            | Some (Inl e) \<Rightarrow> Some (Inl e)
            | Some (Inr sptr) \<Rightarrow>
                (case (case sptr of
                         None \<Rightarrow> Inr end_offset
                       | Some chunk \<Rightarrow> sptr_end_offset object chunk 0 offset end_offset) of
                   Inl e \<Rightarrow> Some (Inl e)
                 | Inr end_offset \<Rightarrow>
                     (case find_chunk object (cstr ''FUNC'') of
                        None \<Rightarrow> None
                      | Some (Inl e) \<Rightarrow> Some (Inl e)
                      | Some (Inr None) \<Rightarrow> Some (Inr end_offset)
                      | Some (Inr (Some chunk)) \<Rightarrow>
                          Some (table_end_offset (obj_data object) (chunk_data chunk) 8 4 0
                                  (to_int (to_size_t (chunk_size chunk) div 8))
                                  offset end_offset))))
      else Some (Inr end_offset))"

definition directories_end_offset :: "object \<Rightarrow> int \<Rightarrow> int \<Rightarrow> error + int" where
  "directories_end_offset object offset end_offset =
     (if script_directory_present object
      then (case read_int (obj_data object) (directory_offset object) of
              Inl e \<Rightarrow> Inl e
            | Inr count \<Rightarrow>
                (case table_end_offset (obj_data object) (directory_offset object + 4) 12 4
                        0 count offset end_offset of
                   Inl e \<Rightarrow> Inl e
                 | Inr end_offset \<Rightarrow>
                     (case read_int (obj_data object) (string_offset object) of
                        Inl e \<Rightarrow> Inl e
                      | Inr count \<Rightarrow>
                          table_end_offset (obj_data object) (string_offset object + 4) 4 0
                            0 count offset end_offset)))
      else Inr end_offset)"

text \<open>
  \<open>calc_code_size\<close>: the two blocks above, then the chunk-section offset and the
  script-directory offset as candidates for the last script.
\<close>

definition calc_code_size :: "object \<Rightarrow> int \<Rightarrow> (error + int) option" where
  "calc_code_size object offset =
     (case chunks_end_offset object offset (obj_size object) of
        None \<Rightarrow> None
      | Some (Inl e) \<Rightarrow> Some (Inl e)
      | Some (Inr end_offset) \<Rightarrow>
          (case directories_end_offset object offset end_offset of
             Inl e \<Rightarrow> Some (Inl e)
           | Inr end_offset \<Rightarrow>
               let end_offset =
                     (if (format object = FORMAT_BIG_E \<or> format object = FORMAT_LITTLE_E)
                         \<and> chunk_offset object < end_offset
                      then chunk_offset object else end_offset);
                   end_offset =
                     (if script_directory_present object
                         \<and> directory_offset object < end_offset
                      then directory_offset object else end_offset)
               in Some (Inr (to_int (end_offset - offset)))))"

section \<open>Bytecode disassembler\<close>

subsection \<open>Opcodes\<close>

text \<open>
  The values of the \<open>PCD_\<close> enumerators that \<open>show_opcode\<close> and \<open>show_args\<close> name,
  by their position in the enumeration.
\<close>

definition PCD_NOP :: int where "PCD_NOP = 0"
definition PCD_LSPEC1 :: int where "PCD_LSPEC1 = 4"
definition PCD_LSPEC2 :: int where "PCD_LSPEC2 = 5"
definition PCD_LSPEC3 :: int where "PCD_LSPEC3 = 6"
definition PCD_LSPEC4 :: int where "PCD_LSPEC4 = 7"
definition PCD_LSPEC5 :: int where "PCD_LSPEC5 = 8"
definition PCD_LSPEC1DIRECT :: int where "PCD_LSPEC1DIRECT = 9"
definition PCD_LSPEC2DIRECT :: int where "PCD_LSPEC2DIRECT = 10"
definition PCD_LSPEC3DIRECT :: int where "PCD_LSPEC3DIRECT = 11"
definition PCD_LSPEC4DIRECT :: int where "PCD_LSPEC4DIRECT = 12"
definition PCD_LSPEC5DIRECT :: int where "PCD_LSPEC5DIRECT = 13"
definition PCD_ASSIGNSCRIPTVAR :: int where "PCD_ASSIGNSCRIPTVAR = 25"
definition PCD_ASSIGNMAPVAR :: int where "PCD_ASSIGNMAPVAR = 26"
definition PCD_ASSIGNWORLDVAR :: int where "PCD_ASSIGNWORLDVAR = 27"
definition PCD_PUSHSCRIPTVAR :: int where "PCD_PUSHSCRIPTVAR = 28"
definition PCD_PUSHMAPVAR :: int where "PCD_PUSHMAPVAR = 29"
definition PCD_PUSHWORLDVAR :: int where "PCD_PUSHWORLDVAR = 30"
definition PCD_ADDSCRIPTVAR :: int where "PCD_ADDSCRIPTVAR = 31"
definition PCD_ADDMAPVAR :: int where "PCD_ADDMAPVAR = 32"
definition PCD_ADDWORLDVAR :: int where "PCD_ADDWORLDVAR = 33"
definition PCD_SUBSCRIPTVAR :: int where "PCD_SUBSCRIPTVAR = 34"
definition PCD_SUBMAPVAR :: int where "PCD_SUBMAPVAR = 35"
definition PCD_SUBWORLDVAR :: int where "PCD_SUBWORLDVAR = 36"
definition PCD_MULSCRIPTVAR :: int where "PCD_MULSCRIPTVAR = 37"
definition PCD_MULMAPVAR :: int where "PCD_MULMAPVAR = 38"
definition PCD_MULWORLDVAR :: int where "PCD_MULWORLDVAR = 39"
definition PCD_DIVSCRIPTVAR :: int where "PCD_DIVSCRIPTVAR = 40"
definition PCD_DIVMAPVAR :: int where "PCD_DIVMAPVAR = 41"
definition PCD_DIVWORLDVAR :: int where "PCD_DIVWORLDVAR = 42"
definition PCD_MODSCRIPTVAR :: int where "PCD_MODSCRIPTVAR = 43"
definition PCD_MODMAPVAR :: int where "PCD_MODMAPVAR = 44"
definition PCD_MODWORLDVAR :: int where "PCD_MODWORLDVAR = 45"
definition PCD_INCSCRIPTVAR :: int where "PCD_INCSCRIPTVAR = 46"
definition PCD_INCMAPVAR :: int where "PCD_INCMAPVAR = 47"
definition PCD_INCWORLDVAR :: int where "PCD_INCWORLDVAR = 48"
definition PCD_DECSCRIPTVAR :: int where "PCD_DECSCRIPTVAR = 49"
definition PCD_DECMAPVAR :: int where "PCD_DECMAPVAR = 50"
definition PCD_DECWORLDVAR :: int where "PCD_DECWORLDVAR = 51"
definition PCD_PUSHBYTE :: int where "PCD_PUSHBYTE = 167"
definition PCD_LSPEC1DIRECTB :: int where "PCD_LSPEC1DIRECTB = 168"
definition PCD_LSPEC2DIRECTB :: int where "PCD_LSPEC2DIRECTB = 169"
definition PCD_LSPEC3DIRECTB :: int where "PCD_LSPEC3DIRECTB = 170"
definition PCD_LSPEC4DIRECTB :: int where "PCD_LSPEC4DIRECTB = 171"
definition PCD_LSPEC5DIRECTB :: int where "PCD_LSPEC5DIRECTB = 172"
definition PCD_DELAYDIRECTB :: int where "PCD_DELAYDIRECTB = 173"
definition PCD_RANDOMDIRECTB :: int where "PCD_RANDOMDIRECTB = 174"
definition PCD_PUSHBYTES :: int where "PCD_PUSHBYTES = 175"
definition PCD_PUSH2BYTES :: int where "PCD_PUSH2BYTES = 176"
definition PCD_PUSH3BYTES :: int where "PCD_PUSH3BYTES = 177"
definition PCD_PUSH4BYTES :: int where "PCD_PUSH4BYTES = 178"
definition PCD_PUSH5BYTES :: int where "PCD_PUSH5BYTES = 179"
definition PCD_ASSIGNGLOBALVAR :: int where "PCD_ASSIGNGLOBALVAR = 181"
definition PCD_PUSHGLOBALVAR :: int where "PCD_PUSHGLOBALVAR = 182"
definition PCD_ADDGLOBALVAR :: int where "PCD_ADDGLOBALVAR = 183"
definition PCD_SUBGLOBALVAR :: int where "PCD_SUBGLOBALVAR = 184"
definition PCD_MULGLOBALVAR :: int where "PCD_MULGLOBALVAR = 185"
definition PCD_DIVGLOBALVAR :: int where "PCD_DIVGLOBALVAR = 186"
definition PCD_MODGLOBALVAR :: int where "PCD_MODGLOBALVAR = 187"
definition PCD_INCGLOBALVAR :: int where "PCD_INCGLOBALVAR = 188"
definition PCD_DECGLOBALVAR :: int where "PCD_DECGLOBALVAR = 189"
definition PCD_CALL :: int where "PCD_CALL = 203"
definition PCD_CALLDISCARD :: int where "PCD_CALLDISCARD = 204"
definition PCD_PUSHMAPARRAY :: int where "PCD_PUSHMAPARRAY = 207"
definition PCD_ASSIGNMAPARRAY :: int where "PCD_ASSIGNMAPARRAY = 208"
definition PCD_ADDMAPARRAY :: int where "PCD_ADDMAPARRAY = 209"
definition PCD_SUBMAPARRAY :: int where "PCD_SUBMAPARRAY = 210"
definition PCD_MULMAPARRAY :: int where "PCD_MULMAPARRAY = 211"
definition PCD_DIVMAPARRAY :: int where "PCD_DIVMAPARRAY = 212"
definition PCD_MODMAPARRAY :: int where "PCD_MODMAPARRAY = 213"
definition PCD_INCMAPARRAY :: int where "PCD_INCMAPARRAY = 214"
definition PCD_DECMAPARRAY :: int where "PCD_DECMAPARRAY = 215"
definition PCD_PUSHWORLDARRAY :: int where "PCD_PUSHWORLDARRAY = 226"
definition PCD_ASSIGNWORLDARRAY :: int where "PCD_ASSIGNWORLDARRAY = 227"
definition PCD_ADDWORLDARRAY :: int where "PCD_ADDWORLDARRAY = 228"
definition PCD_SUBWORLDARRAY :: int where "PCD_SUBWORLDARRAY = 229"
definition PCD_MULWORLDARRAY :: int where "PCD_MULWORLDARRAY = 230"
definition PCD_DIVWORLDARRAY :: int where "PCD_DIVWORLDARRAY = 231"
definition PCD_MODWORLDARRAY :: int where "PCD_MODWORLDARRAY = 232"
definition PCD_INCWORLDARRAY :: int where "PCD_INCWORLDARRAY = 233"
definition PCD_DECWORLDARRAY :: int where "PCD_DECWORLDARRAY = 234"
definition PCD_PUSHGLOBALARRAY :: int where "PCD_PUSHGLOBALARRAY = 235"
definition PCD_ASSIGNGLOBALARRAY :: int where "PCD_ASSIGNGLOBALARRAY = 236"
definition PCD_ADDGLOBALARRAY :: int where "PCD_ADDGLOBALARRAY = 237"
definition PCD_SUBGLOBALARRAY :: int where "PCD_SUBGLOBALARRAY = 238"
definition PCD_MULGLOBALARRAY :: int where "PCD_MULGLOBALARRAY = 239"
definition PCD_DIVGLOBALARRAY :: int where "PCD_DIVGLOBALARRAY = 240"
definition PCD_MODGLOBALARRAY :: int where "PCD_MODGLOBALARRAY = 241"
definition PCD_INCGLOBALARRAY :: int where "PCD_INCGLOBALARRAY = 242"
definition PCD_DECGLOBALARRAY :: int where "PCD_DECGLOBALARRAY = 243"
definition PCD_CASEGOTOSORTED :: int where "PCD_CASEGOTOSORTED = 256"
definition PCD_LSPEC5RESULT :: int where "PCD_LSPEC5RESULT = 263"
definition PCD_ANDSCRIPTVAR :: int where "PCD_ANDSCRIPTVAR = 291"
definition PCD_ANDMAPVAR :: int where "PCD_ANDMAPVAR = 292"
definition PCD_ANDGLOBALVAR :: int where "PCD_ANDGLOBALVAR = 294"
definition PCD_ANDMAPARRAY :: int where "PCD_ANDMAPARRAY = 295"
definition PCD_ANDWORLDARRAY :: int where "PCD_ANDWORLDARRAY = 296"
definition PCD_ANDGLOBALARRAY :: int where "PCD_ANDGLOBALARRAY = 297"
definition PCD_EORSCRIPTVAR :: int where "PCD_EORSCRIPTVAR = 298"
definition PCD_EORMAPVAR :: int where "PCD_EORMAPVAR = 299"
definition PCD_EORWORLDVAR :: int where "PCD_EORWORLDVAR = 300"
definition PCD_EORGLOBALVAR :: int where "PCD_EORGLOBALVAR = 301"
definition PCD_EORMAPARRAY :: int where "PCD_EORMAPARRAY = 302"
definition PCD_EORWORLDARRAY :: int where "PCD_EORWORLDARRAY = 303"
definition PCD_EORGLOBALARRAY :: int where "PCD_EORGLOBALARRAY = 304"
definition PCD_ORSCRIPTVAR :: int where "PCD_ORSCRIPTVAR = 305"
definition PCD_ORMAPVAR :: int where "PCD_ORMAPVAR = 306"
definition PCD_ORWORLDVAR :: int where "PCD_ORWORLDVAR = 307"
definition PCD_ORGLOBALVAR :: int where "PCD_ORGLOBALVAR = 308"
definition PCD_ORMAPARRAY :: int where "PCD_ORMAPARRAY = 309"
definition PCD_ORWORLDARRAY :: int where "PCD_ORWORLDARRAY = 310"
definition PCD_ORGLOBALARRAY :: int where "PCD_ORGLOBALARRAY = 311"
definition PCD_LSSCRIPTVAR :: int where "PCD_LSSCRIPTVAR = 312"
definition PCD_LSMAPVAR :: int where "PCD_LSMAPVAR = 313"
definition PCD_LSWORLDVAR :: int where "PCD_LSWORLDVAR = 314"
definition PCD_LSGLOBALVAR :: int where "PCD_LSGLOBALVAR = 315"
definition PCD_LSMAPARRAY :: int where "PCD_LSMAPARRAY = 316"
definition PCD_LSWORLDARRAY :: int where "PCD_LSWORLDARRAY = 317"
definition PCD_LSGLOBALARRAY :: int where "PCD_LSGLOBALARRAY = 318"
definition PCD_RSSCRIPTVAR :: int where "PCD_RSSCRIPTVAR = 319"
definition PCD_RSMAPVAR :: int where "PCD_RSMAPVAR = 320"
definition PCD_RSWORLDVAR :: int where "PCD_RSWORLDVAR = 321"
definition PCD_RSGLOBALVAR :: int where "PCD_RSGLOBALVAR = 322"
definition PCD_RSMAPARRAY :: int where "PCD_RSMAPARRAY = 323"
definition PCD_RSWORLDARRAY :: int where "PCD_RSWORLDARRAY = 324"
definition PCD_RSGLOBALARRAY :: int where "PCD_RSGLOBALARRAY = 325"
definition PCD_CALLFUNC :: int where "PCD_CALLFUNC = 351"
definition PCD_PUSHFUNCTION :: int where "PCD_PUSHFUNCTION = 359"
definition PCD_ASSIGNSCRIPTARRAY :: int where "PCD_ASSIGNSCRIPTARRAY = 364"
definition PCD_PUSHSCRIPTARRAY :: int where "PCD_PUSHSCRIPTARRAY = 365"
definition PCD_ADDSCRIPTARRAY :: int where "PCD_ADDSCRIPTARRAY = 366"
definition PCD_SUBSCRIPTARRAY :: int where "PCD_SUBSCRIPTARRAY = 367"
definition PCD_MULSCRIPTARRAY :: int where "PCD_MULSCRIPTARRAY = 368"
definition PCD_DIVSCRIPTARRAY :: int where "PCD_DIVSCRIPTARRAY = 369"
definition PCD_MODSCRIPTARRAY :: int where "PCD_MODSCRIPTARRAY = 370"
definition PCD_INCSCRIPTARRAY :: int where "PCD_INCSCRIPTARRAY = 371"
definition PCD_DECSCRIPTARRAY :: int where "PCD_DECSCRIPTARRAY = 372"
definition PCD_ANDSCRIPTARRAY :: int where "PCD_ANDSCRIPTARRAY = 373"
definition PCD_EORSCRIPTARRAY :: int where "PCD_EORSCRIPTARRAY = 374"
definition PCD_ORSCRIPTARRAY :: int where "PCD_ORSCRIPTARRAY = 375"
definition PCD_LSSCRIPTARRAY :: int where "PCD_LSSCRIPTARRAY = 376"
definition PCD_RSSCRIPTARRAY :: int where "PCD_RSSCRIPTARRAY = 377"
definition PCD_TOTAL :: int where "PCD_TOTAL = 385"

lemmas pcd_defs =
  PCD_NOP_def PCD_LSPEC1_def PCD_LSPEC2_def PCD_LSPEC3_def PCD_LSPEC4_def PCD_LSPEC5_def
  PCD_LSPEC1DIRECT_def PCD_LSPEC2DIRECT_def PCD_LSPEC3DIRECT_def PCD_LSPEC4DIRECT_def
  PCD_LSPEC5DIRECT_def PCD_ASSIGNSCRIPTVAR_def PCD_ASSIGNMAPVAR_def
  PCD_ASSIGNWORLDVAR_def PCD_PUSHSCRIPTVAR_def PCD_PUSHMAPVAR_def PCD_PUSHWORLDVAR_def
  PCD_ADDSCRIPTVAR_def PCD_ADDMAPVAR_def PCD_ADDWORLDVAR_def PCD_SUBSCRIPTVAR_def
  PCD_SUBMAPVAR_def PCD_SUBWORLDVAR_def PCD_MULSCRIPTVAR_def PCD_MULMAPVAR_def
  PCD_MULWORLDVAR_def PCD_DIVSCRIPTVAR_def PCD_DIVMAPVAR_def PCD_DIVWORLDVAR_def
  PCD_MODSCRIPTVAR_def PCD_MODMAPVAR_def PCD_MODWORLDVAR_def PCD_INCSCRIPTVAR_def
  PCD_INCMAPVAR_def PCD_INCWORLDVAR_def PCD_DECSCRIPTVAR_def PCD_DECMAPVAR_def
  PCD_DECWORLDVAR_def PCD_PUSHBYTE_def PCD_LSPEC1DIRECTB_def PCD_LSPEC2DIRECTB_def
  PCD_LSPEC3DIRECTB_def PCD_LSPEC4DIRECTB_def PCD_LSPEC5DIRECTB_def PCD_DELAYDIRECTB_def
  PCD_RANDOMDIRECTB_def PCD_PUSHBYTES_def PCD_PUSH2BYTES_def PCD_PUSH3BYTES_def
  PCD_PUSH4BYTES_def PCD_PUSH5BYTES_def PCD_ASSIGNGLOBALVAR_def PCD_PUSHGLOBALVAR_def
  PCD_ADDGLOBALVAR_def PCD_SUBGLOBALVAR_def PCD_MULGLOBALVAR_def PCD_DIVGLOBALVAR_def
  PCD_MODGLOBALVAR_def PCD_INCGLOBALVAR_def PCD_DECGLOBALVAR_def PCD_CALL_def
  PCD_CALLDISCARD_def PCD_PUSHMAPARRAY_def PCD_ASSIGNMAPARRAY_def PCD_ADDMAPARRAY_def
  PCD_SUBMAPARRAY_def PCD_MULMAPARRAY_def PCD_DIVMAPARRAY_def PCD_MODMAPARRAY_def
  PCD_INCMAPARRAY_def PCD_DECMAPARRAY_def PCD_PUSHWORLDARRAY_def PCD_ASSIGNWORLDARRAY_def
  PCD_ADDWORLDARRAY_def PCD_SUBWORLDARRAY_def PCD_MULWORLDARRAY_def PCD_DIVWORLDARRAY_def
  PCD_MODWORLDARRAY_def PCD_INCWORLDARRAY_def PCD_DECWORLDARRAY_def
  PCD_PUSHGLOBALARRAY_def PCD_ASSIGNGLOBALARRAY_def PCD_ADDGLOBALARRAY_def
  PCD_SUBGLOBALARRAY_def PCD_MULGLOBALARRAY_def PCD_DIVGLOBALARRAY_def
  PCD_MODGLOBALARRAY_def PCD_INCGLOBALARRAY_def PCD_DECGLOBALARRAY_def
  PCD_CASEGOTOSORTED_def PCD_LSPEC5RESULT_def PCD_ANDSCRIPTVAR_def PCD_ANDMAPVAR_def
  PCD_ANDGLOBALVAR_def PCD_ANDMAPARRAY_def PCD_ANDWORLDARRAY_def PCD_ANDGLOBALARRAY_def
  PCD_EORSCRIPTVAR_def PCD_EORMAPVAR_def PCD_EORWORLDVAR_def PCD_EORGLOBALVAR_def
  PCD_EORMAPARRAY_def PCD_EORWORLDARRAY_def PCD_EORGLOBALARRAY_def PCD_ORSCRIPTVAR_def
  PCD_ORMAPVAR_def PCD_ORWORLDVAR_def PCD_ORGLOBALVAR_def PCD_ORMAPARRAY_def
  PCD_ORWORLDARRAY_def PCD_ORGLOBALARRAY_def PCD_LSSCRIPTVAR_def PCD_LSMAPVAR_def
  PCD_LSWORLDVAR_def PCD_LSGLOBALVAR_def PCD_LSMAPARRAY_def PCD_LSWORLDARRAY_def
  PCD_LSGLOBALARRAY_def PCD_RSSCRIPTVAR_def PCD_RSMAPVAR_def PCD_RSWORLDVAR_def
  PCD_RSGLOBALVAR_def PCD_RSMAPARRAY_def PCD_RSWORLDARRAY_def PCD_RSGLOBALARRAY_def
  PCD_CALLFUNC_def PCD_PUSHFUNCTION_def PCD_ASSIGNSCRIPTARRAY_def PCD_PUSHSCRIPTARRAY_def
  PCD_ADDSCRIPTARRAY_def PCD_SUBSCRIPTARRAY_def PCD_MULSCRIPTARRAY_def
  PCD_DIVSCRIPTARRAY_def PCD_MODSCRIPTARRAY_def PCD_INCSCRIPTARRAY_def
  PCD_DECSCRIPTARRAY_def PCD_ANDSCRIPTARRAY_def PCD_EORSCRIPTARRAY_def
  PCD_ORSCRIPTARRAY_def PCD_LSSCRIPTARRAY_def PCD_RSSCRIPTARRAY_def PCD_TOTAL_def

text \<open>The case labels of the one-argument branch of \<open>show_args\<close>.\<close>

definition one_arg_opcodes :: "int list" where
  "one_arg_opcodes =
     [ PCD_LSPEC1, PCD_LSPEC2, PCD_LSPEC3, PCD_LSPEC4, PCD_LSPEC5, PCD_ASSIGNSCRIPTVAR,
       PCD_ASSIGNMAPVAR, PCD_ASSIGNWORLDVAR, PCD_PUSHSCRIPTVAR, PCD_PUSHMAPVAR,
       PCD_PUSHWORLDVAR, PCD_ADDSCRIPTVAR, PCD_ADDMAPVAR, PCD_ADDWORLDVAR,
       PCD_SUBSCRIPTVAR, PCD_SUBMAPVAR, PCD_SUBWORLDVAR, PCD_MULSCRIPTVAR, PCD_MULMAPVAR,
       PCD_MULWORLDVAR, PCD_DIVSCRIPTVAR, PCD_DIVMAPVAR, PCD_DIVWORLDVAR,
       PCD_MODSCRIPTVAR, PCD_MODMAPVAR, PCD_MODWORLDVAR, PCD_INCSCRIPTVAR, PCD_INCMAPVAR,
       PCD_INCWORLDVAR, PCD_DECSCRIPTVAR, PCD_DECMAPVAR, PCD_DECWORLDVAR,
       PCD_ASSIGNGLOBALVAR, PCD_PUSHGLOBALVAR, PCD_ADDGLOBALVAR, PCD_SUBGLOBALVAR,
       PCD_MULGLOBALVAR, PCD_DIVGLOBALVAR, PCD_MODGLOBALVAR, PCD_INCGLOBALVAR,
       PCD_DECGLOBALVAR, PCD_CALL, PCD_CALLDISCARD, PCD_PUSHMAPARRAY, PCD_ASSIGNMAPARRAY,
       PCD_ADDMAPARRAY, PCD_SUBMAPARRAY, PCD_MULMAPARRAY, PCD_DIVMAPARRAY,
       PCD_MODMAPARRAY, PCD_INCMAPARRAY, PCD_DECMAPARRAY, PCD_PUSHWORLDARRAY,
       PCD_ASSIGNWORLDARRAY, PCD_ADDWORLDARRAY, PCD_SUBWORLDARRAY, PCD_MULWORLDARRAY,
       PCD_DIVWORLDARRAY, PCD_MODWORLDARRAY, PCD_INCWORLDARRAY, PCD_DECWORLDARRAY,
       PCD_PUSHGLOBALARRAY, PCD_ASSIGNGLOBALARRAY, PCD_ADDGLOBALARRAY,
       PCD_SUBGLOBALARRAY, PCD_MULGLOBALARRAY, PCD_DIVGLOBALARRAY, PCD_MODGLOBALARRAY,
       PCD_INCGLOBALARRAY, PCD_DECGLOBALARRAY, PCD_LSPEC5RESULT, PCD_ANDSCRIPTVAR,
       PCD_ANDMAPVAR, PCD_ANDGLOBALVAR, PCD_ANDMAPARRAY, PCD_ANDWORLDARRAY,
       PCD_ANDGLOBALARRAY, PCD_EORSCRIPTVAR, PCD_EORMAPVAR, PCD_EORWORLDVAR,
       PCD_EORGLOBALVAR, PCD_EORMAPARRAY, PCD_EORWORLDARRAY, PCD_EORGLOBALARRAY,
       PCD_ORSCRIPTVAR, PCD_ORMAPVAR, PCD_ORWORLDVAR, PCD_ORGLOBALVAR, PCD_ORMAPARRAY,
       PCD_ORWORLDARRAY, PCD_ORGLOBALARRAY, PCD_LSSCRIPTVAR, PCD_LSMAPVAR,
       PCD_LSWORLDVAR, PCD_LSGLOBALVAR, PCD_LSMAPARRAY, PCD_LSWORLDARRAY,
       PCD_LSGLOBALARRAY, PCD_RSSCRIPTVAR, PCD_RSMAPVAR, PCD_RSWORLDVAR, PCD_RSGLOBALVAR,
       PCD_RSMAPARRAY, PCD_RSWORLDARRAY, PCD_RSGLOBALARRAY, PCD_PUSHFUNCTION,
       PCD_ASSIGNSCRIPTARRAY, PCD_PUSHSCRIPTARRAY, PCD_ADDSCRIPTARRAY,
       PCD_SUBSCRIPTARRAY, PCD_MULSCRIPTARRAY, PCD_DIVSCRIPTARRAY, PCD_MODSCRIPTARRAY,
       PCD_INCSCRIPTARRAY, PCD_DECSCRIPTARRAY, PCD_ANDSCRIPTARRAY, PCD_EORSCRIPTARRAY,
       PCD_ORSCRIPTARRAY, PCD_LSSCRIPTARRAY, PCD_RSSCRIPTARRAY ]"

text \<open>The table \<open>g_pcodes\<close>: mnemonic and number of arguments, indexed by opcode.\<close>

definition g_pcodes :: "(string \<times> int) list" where
  "g_pcodes =
     [ (''nop'', 0), (''terminate'', 0), (''suspend'', 0), (''pushnumber'', 1),
       (''lspec1'', 1), (''lspec2'', 1), (''lspec3'', 1), (''lspec4'', 1),
       (''lspec5'', 1), (''lspec1direct'', 2), (''lspec2direct'', 3),
       (''lspec3direct'', 4), (''lspec4direct'', 5), (''lspec5direct'', 6), (''add'', 0),
       (''subtract'', 0), (''multiply'', 0), (''divide'', 0), (''modulus'', 0),
       (''eq'', 0), (''ne'', 0), (''lt'', 0), (''gt'', 0), (''le'', 0), (''ge'', 0),
       (''assignscriptvar'', 1), (''assignmapvar'', 1), (''assignworldvar'', 1),
       (''pushscriptvar'', 1), (''pushmapvar'', 1), (''pushworldvar'', 1),
       (''addscriptvar'', 1), (''addmapvar'', 1), (''addworldvar'', 1),
       (''subscriptvar'', 1), (''submapvar'', 1), (''subworldvar'', 1),
       (''mulscriptvar'', 1), (''mulmapvar'', 1), (''mulworldvar'', 1),
       (''divscriptvar'', 1), (''divmapvar'', 1), (''divworldvar'', 1),
       (''modscriptvar'', 1), (''modmapvar'', 1), (''modworldvar'', 1),
       (''incscriptvar'', 1), (''incmapvar'', 1), (''incworldvar'', 1),
       (''decscriptvar'', 1), (''decmapvar'', 1), (''decworldvar'', 1), (''goto'', 1),
       (''ifgoto'', 1), (''drop'', 0), (''delay'', 0), (''delaydirect'', 1),
       (''random'', 0), (''randomdirect'', 2), (''thingcount'', 0),
       (''thingcountdirect'', 2), (''tagwait'', 0), (''tagwaitdirect'', 1),
       (''polywait'', 0), (''polywaitdirect'', 1), (''changefloor'', 0),
       (''changefloordirect'', 2), (''changeceiling'', 0), (''changeceilingdirect'', 2),
       (''restart'', 0), (''andlogical'', 0), (''orlogical'', 0), (''andbitwise'', 0),
       (''orbitwise'', 0), (''eorbitwise'', 0), (''negatelogical'', 0), (''lshift'', 0),
       (''rshift'', 0), (''unaryminus'', 0), (''ifnotgoto'', 1), (''lineside'', 0),
       (''scriptwait'', 0), (''scriptwaitdirect'', 1), (''clearlinespecial'', 0),
       (''casegoto'', 2), (''beginprint'', 0), (''endprint'', 0), (''printstring'', 0),
       (''printnumber'', 0), (''printcharacter'', 0), (''playercount'', 0),
       (''gametype'', 0), (''gameskill'', 0), (''timer'', 0), (''sectorsound'', 0),
       (''ambientsound'', 0), (''soundsequence'', 0), (''setlinetexture'', 0),
       (''setlineblocking'', 0), (''setlinespecial'', 0), (''thingsound'', 0),
       (''endprintbold'', 0), (''activatorsound'', 0), (''ambientsound'', 0),
       (''setlinemonsterblocking'', 0), (''playerblueskull'', 0),
       (''playerredskull'', 0), (''playeryellowskull'', 0), (''playermasterskull'', 0),
       (''playerbluecard'', 0), (''playerredcard'', 0), (''playeryellowcard'', 0),
       (''playermastercard'', 0), (''playerblackskull'', 0), (''playersilverskull'', 0),
       (''playergoldskull'', 0), (''playerblackcard'', 0), (''playersilvercard'', 0),
       (''ismultiplayer'', 0), (''playerteam'', 0), (''playerhealth'', 0),
       (''playerarmorpoints'', 0), (''playerfrags'', 0), (''playerexpert'', 0),
       (''blueteamcount'', 0), (''redteamcount'', 0), (''blueteamscore'', 0),
       (''redteamscore'', 0), (''isoneflagctf'', 0), (''getinvasionwave'', 0),
       (''getinvastionstate'', 0), (''printname'', 0), (''musicchange'', 0),
       (''consolecommanddirect'', 3), (''consolecommand'', 0), (''singleplayer'', 0),
       (''fixedmul'', 0), (''fixeddiv'', 0), (''setgravity'', 0),
       (''setgravitydirect'', 1), (''setaircontrol'', 0), (''setaircontroldirect'', 1),
       (''clearinventory'', 0), (''giveinventory'', 0), (''giveinventorydirect'', 2),
       (''takeinventory'', 0), (''takeinventorydirect'', 2), (''checkinventory'', 0),
       (''checkinventorydirect'', 1), (''spawn'', 0), (''spawndirect'', 6),
       (''spawnspot'', 0), (''spawnspotdirect'', 4), (''setmusic'', 0),
       (''setmusicdirect'', 3), (''localsetmusic'', 0), (''localsetmusicdirect'', 3),
       (''printfixed'', 0), (''printlocalized'', 0), (''morehudmessage'', 0),
       (''opthudmessage'', 0), (''endhudmessage'', 0), (''endhudmessagebold'', 0),
       (''setstyle'', 0), (''setstyledirect'', 0), (''setfont'', 0),
       (''setfontdirect'', 1), (''pushbyte'', 1), (''lspec1directb'', 2),
       (''lspec2directb'', 3), (''lspec3directb'', 4), (''lspec4directb'', 5),
       (''lspec5directb'', 6), (''delaydirectb'', 1), (''randomdirectb'', 2),
       (''pushbytes'', -1), (''push2bytes'', 2), (''push3bytes'', 3),
       (''push4bytes'', 4), (''push5bytes'', 5), (''setthingspecial'', 0),
       (''assignglobalvar'', 1), (''pushglobalvar'', 1), (''addglobalvar'', 1),
       (''subglobalvar'', 1), (''mulglobalvar'', 1), (''divglobalvar'', 1),
       (''modglobalvar'', 1), (''incglobalvar'', 1), (''decglobalvar'', 1),
       (''fadeto'', 0), (''faderange'', 0), (''cancelfade'', 0), (''playmovie'', 0),
       (''setfloortrigger'', 0), (''setceilingtrigger'', 0), (''getactorx'', 0),
       (''getactory'', 0), (''getactorz'', 0), (''starttranslation'', 0),
       (''translationrange1'', 0), (''translationrange2'', 0), (''endtranslation'', 0),
       (''call'', 1), (''calldiscard'', 1), (''returnvoid'', 0), (''returnval'', 0),
       (''pushmaparray'', 1), (''assignmaparray'', 1), (''addmaparray'', 1),
       (''submaparray'', 1), (''mulmaparray'', 1), (''divmaparray'', 1),
       (''modmaparray'', 1), (''incmaparray'', 1), (''decmaparray'', 1), (''dup'', 0),
       (''swap'', 0), (''writetoini'', 0), (''getfromini'', 0), (''sin'', 0),
       (''cos'', 0), (''vectorangle'', 0), (''checkweapon'', 0), (''setweapon'', 0),
       (''tagstring'', 0), (''pushworldarray'', 1), (''assignworldarray'', 1),
       (''addworldarray'', 1), (''subworldarray'', 1), (''mulworldarray'', 1),
       (''divworldarray'', 1), (''modworldarray'', 1), (''incworldarray'', 1),
       (''decworldarray'', 1), (''pushglobalarray'', 1), (''assignglobalarray'', 1),
       (''addglobalarray'', 1), (''subglobalarray'', 1), (''mulglobalarray'', 1),
       (''divglobalarray'', 1), (''modglobalarray'', 1), (''incglobalarray'', 1),
       (''decglobalarray'', 1), (''setmarineweapon'', 0), (''setactorproperty'', 0),
       (''getactorproperty'', 0), (''playernumber'', 0), (''activatortid'', 0),
       (''setmarinesprite'', 0), (''getscreenwidth'', 0), (''getscreenheight'', 0),
       (''thingprojectile2'', 0), (''strlen'', 0), (''gethudsize'', 0), (''getcvar'', 0),
       (''casegotosorted'', -1), (''setresultvalue'', 0), (''getlinerowoffset'', 0),
       (''getactorfloorz'', 0), (''getactorangle'', 0), (''getsectorfloorz'', 0),
       (''getsectorceilingz'', 0), (''lspec5result'', 1), (''getsigilpieces'', 0),
       (''getlevelinfo'', 0), (''changesky'', 0), (''playeringame'', 0),
       (''playerisbot'', 0), (''setcameratotexture'', 0), (''endlog'', 0),
       (''getammocapacity'', 0), (''setammocapacity'', 0), (''printmapchararray'', 0),
       (''printworldchararray'', 0), (''printglobalchararray'', 0),
       (''setactorangle'', 0), (''grabinput'', 0), (''setmousepointer'', 0),
       (''movemousepointer'', 0), (''spawnprojectile'', 0), (''getsectorlightlevel'', 0),
       (''getactorceilingz'', 0), (''setactorposition'', 0),
       (''clearactorinventory'', 0), (''giveactorinventory'', 0),
       (''takeactorinventory'', 0), (''checkactorinventory'', 0),
       (''thingcountname'', 0), (''spawnspotfacing'', 0), (''playerclass'', 0),
       (''andscriptvar'', 1), (''andmapvar'', 1), (''andworldvar'', 1),
       (''andglobalvar'', 1), (''andmaparray'', 1), (''andworldarray'', 1),
       (''andglobalarray'', 1), (''eorscriptvar'', 1), (''eormapvar'', 1),
       (''eorworldvar'', 1), (''eorglobalvar'', 1), (''eormaparray'', 1),
       (''eorworldarray'', 1), (''eorglobalarray'', 1), (''orscriptvar'', 1),
       (''ormapvar'', 1), (''orworldvar'', 1), (''orglobalvar'', 1), (''ormaparray'', 1),
       (''orworldarray'', 1), (''orglobalarray'', 1), (''lsscriptvar'', 1),
       (''lsmapvar'', 1), (''lsworldvar'', 1), (''lsglobalvar'', 1), (''lsmaparray'', 1),
       (''lsworldarray'', 1), (''lsglobalarray'', 1), (''rsscriptvar'', 1),
       (''rsmapvar'', 1), (''rsworldvar'', 1), (''rsglobalvar'', 1), (''rsmaparray'', 1),
       (''rsworldarray'', 1), (''rsglobalarray'', 1), (''getplayerinfo'', 0),
       (''changelevel'', 0), (''sectordamage'', 0), (''replacetextures'', 0),
       (''negatebinary'', 0), (''getactorpitch'', 0), (''setactorpitch'', 0),
       (''printbind'', 0), (''setactorstate'', 0), (''thingdamage2'', 0),
       (''useinventory'', 0), (''useactorinventory'', 0),
       (''checkactorceilingtexture'', 0), (''checkactorfloortexture'', 0),
       (''getactorlightlevel'', 0), (''setmugshotstate'', 0), (''thingcountsector'', 0),
       (''thingcountnamesector'', 0), (''checkplayercamera'', 0), (''morphactor'', 0),
       (''unmorphactor'', 0), (''getplayerinput'', 0), (''classifyactor'', 0),
       (''printbinary'', 0), (''printhex'', 0), (''callfunc'', 2), (''savestring'', 0),
       (''printmapchrange'', 0), (''printworldchrange'', 0), (''printglobalchrange'', 0),
       (''strcpytomapchrange'', 0), (''strcpytoworldchrange'', 0),
       (''strcpytoglobalchrange'', 0), (''pushfunction'', 1), (''callstack'', 0),
       (''scriptwaitnamed'', 0), (''translationrange3'', 0), (''gotostack'', 0),
       (''assignscriptarray'', 1), (''pushscriptarray'', 1), (''addscriptarray'', 1),
       (''subscriptarray'', 1), (''mulscriptarray'', 1), (''divscriptarray'', 1),
       (''modscriptarray'', 1), (''incscriptarray'', 1), (''decscriptarray'', 1),
       (''andscriptarray'', 1), (''eorscriptarray'', 1), (''orscriptarray'', 1),
       (''lsscriptarray'', 1), (''rsscriptarray'', 1), (''printscriptchararray'', 0),
       (''printscriptchrange'', 0), (''strcpytoscriptchrange'', 0), (''lspec5ex'', 1),
       (''lspec5exresult'', 1), (''translationrange4'', 0), (''translationrange5'', 0) ]"

subsection \<open>Pcode segments\<close>

record pcode_segment =
  data_start :: int
  seg_data :: int
  seg_offset :: int
  code_size :: int
  opcode :: int
  invalid_opcode :: bool

definition init_pcode_segment :: "object \<Rightarrow> int \<Rightarrow> int \<Rightarrow> pcode_segment" where
  "init_pcode_segment object offset sz =
     \<lparr> data_start = offset, seg_data = offset, seg_offset = offset, code_size = sz,
       opcode = PCD_NOP, invalid_opcode = False \<rparr>"

definition pcode_segment_end :: "pcode_segment \<Rightarrow> bool" where
  "pcode_segment_end segment =
     (seg_data segment - data_start segment \<ge> code_size segment \<or> invalid_opcode segment)"

definition expect_pcode_data :: "pcode_segment \<Rightarrow> int \<Rightarrow> error + unit" where
  "expect_pcode_data segment sz =
     (let left = to_int (code_size segment - (seg_data segment - data_start segment))
      in if left < sz then Inl (Expect_pcode_data sz (if left < 0 then 0 else left))
         else Inr ())"

text \<open>
  The step the disassembler repeats for every field: \<open>expect_pcode_data\<close> for \<open>n\<close>
  bytes, read them at the cursor, advance the cursor by \<open>n\<close>.
\<close>

definition fetch :: "byte list \<Rightarrow> pcode_segment \<Rightarrow> nat \<Rightarrow> error + byte list \<times> pcode_segment"
  where
  "fetch mem segment n =
     (case expect_pcode_data segment (int n) of
        Inl e \<Rightarrow> Inl e
      | Inr _ \<Rightarrow>
          (case memcpy mem (seg_data segment) n of
             Inl e \<Rightarrow> Inl e
           | Inr bs \<Rightarrow> Inr (bs, segment\<lparr> seg_data := seg_data segment + int n \<rparr>)))"

text \<open>An integer argument that takes one byte in small code and four otherwise.\<close>

definition fetch_scaled :: "object \<Rightarrow> pcode_segment \<Rightarrow> error + int \<times> pcode_segment" where
  "fetch_scaled object segment =
     (if small_code object
      then (case fetch (obj_data object) segment 1 of
              Inl e \<Rightarrow> Inl e
            | Inr (temp, segment) \<Rightarrow> Inr (le_uint temp, segment))
      else (case fetch (obj_data object) segment 4 of
              Inl e \<Rightarrow> Inl e
            | Inr (raw, segment) \<Rightarrow> Inr (int_of_bytes raw, segment)))"

fun ints_of_bytes :: "nat \<Rightarrow> byte list \<Rightarrow> int list" where
  "ints_of_bytes 0 bs = []"
| "ints_of_bytes (Suc n) bs = int_of_bytes (take 4 bs) # ints_of_bytes n (drop 4 bs)"

subsection \<open>Opcode\<close>

text \<open>
  \<open>show_opcode\<close> reads the opcode (\<open>fetch_opcode\<close>, its first half) and prints the
  position with the mnemonic, or marks the segment as holding an invalid opcode.
\<close>

definition fetch_opcode :: "object \<Rightarrow> pcode_segment \<Rightarrow> error + int \<times> pcode_segment" where
  "fetch_opcode object segment =
     (if small_code object
      then (case fetch (obj_data object) segment 1 of
              Inl e \<Rightarrow> Inl e
            | Inr (temp, segment) \<Rightarrow>
                if le_uint temp \<ge> 240
                then (case fetch (obj_data object) segment 1 of
                        Inl e \<Rightarrow> Inl e
                      | Inr (temp2, segment) \<Rightarrow> Inr (le_uint temp + le_uint temp2, segment))
                else Inr (le_uint temp, segment))
      else (case fetch (obj_data object) segment 4 of
              Inl e \<Rightarrow> Inl e
            | Inr (raw, segment) \<Rightarrow> Inr (int_of_bytes raw, segment)))"

definition show_opcode ::
  "object \<Rightarrow> pcode_segment \<Rightarrow> out list \<Rightarrow> out list \<times> (error + pcode_segment)"
  where
  "show_opcode object segment outs =
     (let pos = to_int (seg_offset segment + to_int (seg_data segment - data_start segment))
      in case fetch_opcode object segment of
           Inl e \<Rightarrow> (outs, Inl e)
         | Inr (op, segment) \<Rightarrow>
             if op \<ge> PCD_NOP \<and> op < PCD_TOTAL
             then (outs @ [Pos_out pos, Name_out op], Inr (segment\<lparr> opcode := op \<rparr>))
             else (outs @ [Pos_out pos, Unknown_pcode_out op],
                   Inr (segment\<lparr> invalid_opcode := True \<rparr>)))"

subsection \<open>Arguments\<close>

definition show_one_arg ::
  "object \<Rightarrow> pcode_segment \<Rightarrow> out list \<Rightarrow> out list \<times> (error + pcode_segment)"
  where
  "show_one_arg object segment outs =
     (case fetch_scaled object segment of
        Inl e \<Rightarrow> (outs, Inl e)
      | Inr (arg, segment) \<Rightarrow> (outs @ [Int_out arg, Newline_out], Inr segment))"

text \<open>\<open>LSPECnDIRECT\<close>: the five branches differ in \<open>n\<close> only.\<close>

definition show_lspec_direct ::
  "nat \<Rightarrow> object \<Rightarrow> pcode_segment \<Rightarrow> out list \<Rightarrow>
   out list \<times> (error + pcode_segment)" where
  "show_lspec_direct n object segment outs =
     (case fetch_scaled object segment of
        Inl e \<Rightarrow> (outs, Inl e)
      | Inr (ident, segment) \<Rightarrow>
          (case fetch (obj_data object) segment (4 * n) of
             Inl e \<Rightarrow> (outs, Inl e)
           | Inr (raw, segment) \<Rightarrow>
               (outs @ Int_out ident # map Int_out (ints_of_bytes n raw) @ [Newline_out],
                Inr segment)))"

text \<open>
  \<open>LSPECnDIRECTB\<close>, \<open>PUSHBYTE\<close>, \<open>DELAYDIRECTB\<close>, \<open>PUSHnBYTES\<close> and \<open>RANDOMDIRECTB\<close>:
  \<open>n\<close> bytes, printed as unsigned.
\<close>

definition show_byte_args ::
  "nat \<Rightarrow> object \<Rightarrow> pcode_segment \<Rightarrow> out list \<Rightarrow>
   out list \<times> (error + pcode_segment)" where
  "show_byte_args n object segment outs =
     (case fetch (obj_data object) segment n of
        Inl e \<Rightarrow> (outs, Inl e)
      | Inr (bs, segment) \<Rightarrow>
          (outs @ map (\<lambda>b. Byte_out (uint b)) bs @ [Newline_out], Inr segment))"

text \<open>The loop of \<open>PUSHBYTES\<close>: \<open>n\<close> bytes read and printed one by one.\<close>

fun show_pushbytes_loop ::
  "byte list \<Rightarrow> pcode_segment \<Rightarrow> nat \<Rightarrow> out list \<Rightarrow>
   out list \<times> (error + pcode_segment)" where
  "show_pushbytes_loop mem segment 0 outs = (outs @ [Newline_out], Inr segment)"
| "show_pushbytes_loop mem segment (Suc n) outs =
     (case memcpy mem (seg_data segment) 1 of
        Inl e \<Rightarrow> (outs, Inl e)
      | Inr b \<Rightarrow>
          show_pushbytes_loop mem (segment\<lparr> seg_data := seg_data segment + 1 \<rparr>) n
            (outs @ [Byte_out (le_uint b)]))"

definition show_pushbytes ::
  "object \<Rightarrow> pcode_segment \<Rightarrow> out list \<Rightarrow> out list \<times> (error + pcode_segment)"
  where
  "show_pushbytes object segment outs =
     (case fetch (obj_data object) segment 1 of
        Inl e \<Rightarrow> (outs, Inl e)
      | Inr (c, segment) \<Rightarrow>
          let count = le_uint c; outs = outs @ [Count_out count]
          in (case expect_pcode_data segment count of
                Inl e \<Rightarrow> (outs, Inl e)
              | Inr _ \<Rightarrow> show_pushbytes_loop (obj_data object) segment (nat count) outs))"

text \<open>
  \<open>CASEGOTOSORTED\<close>. The remainder is taken of \<open>segment->offset\<close> plus the distance of the
  cursor from the start of the segment, that is, of the cursor's offset in the object
  file; the operands are converted to \<open>size_t\<close> for the division.
\<close>

definition casegotosorted_remainder :: "pcode_segment \<Rightarrow> int" where
  "casegotosorted_remainder segment =
     to_int (to_size_t (seg_offset segment + (seg_data segment - data_start segment)) mod 4)"

text \<open>The loop over the cases: \<open>n\<close> cases are left to read.\<close>

fun show_cases_loop ::
  "byte list \<Rightarrow> pcode_segment \<Rightarrow> nat \<Rightarrow> out list \<Rightarrow>
   out list \<times> (error + pcode_segment)" where
  "show_cases_loop mem segment 0 outs = (outs, Inr segment)"
| "show_cases_loop mem segment (Suc n) outs =
     (case fetch mem segment 4 of
        Inl e \<Rightarrow> (outs, Inl e)
      | Inr (v, segment) \<Rightarrow>
          let outs = outs @
                [Case_out
                   (to_int (seg_offset segment + to_int (seg_data segment - data_start segment)))
                   (int_of_bytes v)]
          in (case fetch mem segment 4 of
                Inl e \<Rightarrow> (outs, Inl e)
              | Inr (t, segment) \<Rightarrow>
                  show_cases_loop mem segment n (outs @ [Target_out (int_of_bytes t)])))"

definition show_casegotosorted ::
  "object \<Rightarrow> pcode_segment \<Rightarrow> out list \<Rightarrow> out list \<times> (error + pcode_segment)"
  where
  "show_casegotosorted object segment outs =
     (let remainder = casegotosorted_remainder segment
      in case (if remainder > 0
               then (let padding = to_int (4 - to_size_t remainder)
                     in case expect_pcode_data segment padding of
                          Inl e \<Rightarrow> Inl e
                        | Inr _ \<Rightarrow>
                            Inr (segment\<lparr> seg_data := seg_data segment + padding \<rparr>))
               else Inr segment) of
           Inl e \<Rightarrow> (outs, Inl e)
         | Inr segment \<Rightarrow>
             (case fetch (obj_data object) segment 4 of
                Inl e \<Rightarrow> (outs, Inl e)
              | Inr (c, segment) \<Rightarrow>
                  show_cases_loop (obj_data object) segment (nat (int_of_bytes c))
                    (outs @ [Num_cases_out (int_of_bytes c)])))"

definition show_callfunc ::
  "object \<Rightarrow> pcode_segment \<Rightarrow> out list \<Rightarrow> out list \<times> (error + pcode_segment)"
  where
  "show_callfunc object segment outs =
     (case fetch_scaled object segment of
        Inl e \<Rightarrow> (outs, Inl e)
      | Inr (num_args, segment) \<Rightarrow>
          (case (if small_code object
                 then (case fetch (obj_data object) segment 2 of
                         Inl e \<Rightarrow> Inl e
                       | Inr (temp, segment) \<Rightarrow> Inr (short_of_bytes temp, segment))
                 else (case fetch (obj_data object) segment 4 of
                         Inl e \<Rightarrow> Inl e
                       | Inr (raw, segment) \<Rightarrow> Inr (int_of_bytes raw, segment))) of
             Inl e \<Rightarrow> (outs, Inl e)
           | Inr (index, segment) \<Rightarrow>
               (outs @ [Int_out num_args, Int_out index, Newline_out], Inr segment)))"

text \<open>The default branch: \<open>n\<close> four-byte arguments are left to read.\<close>

fun show_default_loop ::
  "byte list \<Rightarrow> pcode_segment \<Rightarrow> nat \<Rightarrow> out list \<Rightarrow>
   out list \<times> (error + pcode_segment)" where
  "show_default_loop mem segment 0 outs = (outs @ [Newline_out], Inr segment)"
| "show_default_loop mem segment (Suc n) outs =
     (case fetch mem segment 4 of
        Inl e \<Rightarrow> (outs, Inl e)
      | Inr (raw, segment) \<Rightarrow>
          show_default_loop mem segment n (outs @ [Int_out (int_of_bytes raw)]))"

text \<open>
  \<open>show_opcode\<close> stores valid opcodes only, so the index into \<open>g_pcodes\<close> is in range
  whenever \<open>show_instruction\<close> calls \<open>show_args\<close>; an index outside the table would be a
  read outside it.
\<close>

definition show_default ::
  "object \<Rightarrow> pcode_segment \<Rightarrow> out list \<Rightarrow> out list \<times> (error + pcode_segment)"
  where
  "show_default object segment outs =
     (if 0 \<le> opcode segment \<and> opcode segment < int (length g_pcodes)
      then (let num_args = snd (g_pcodes ! nat (opcode segment))
            in if num_args > 0
               then show_default_loop (obj_data object) segment (nat num_args) outs
               else (outs @ [Newline_out], Inr segment))
      else (outs, Inl (Wild_read (opcode segment))))"

definition show_args ::
  "object \<Rightarrow> pcode_segment \<Rightarrow> out list \<Rightarrow> out list \<times> (error + pcode_segment)"
  where
  "show_args object segment outs =
     (let op = opcode segment
      in if op \<in> set one_arg_opcodes then show_one_arg object segment outs
         else if op = PCD_LSPEC1DIRECT then show_lspec_direct 1 object segment outs
         else if op = PCD_LSPEC2DIRECT then show_lspec_direct 2 object segment outs
         else if op = PCD_LSPEC3DIRECT then show_lspec_direct 3 object segment outs
         else if op = PCD_LSPEC4DIRECT then show_lspec_direct 4 object segment outs
         else if op = PCD_LSPEC5DIRECT then show_lspec_direct 5 object segment outs
         else if op = PCD_LSPEC1DIRECTB then show_byte_args 2 object segment outs
         else if op = PCD_LSPEC2DIRECTB then show_byte_args 3 object segment outs
         else if op = PCD_LSPEC3DIRECTB then show_byte_args 4 object segment outs
         else if op = PCD_LSPEC4DIRECTB then show_byte_args 5 object segment outs
         else if op = PCD_LSPEC5DIRECTB then show_byte_args 6 object segment outs
         else if op = PCD_PUSHBYTE \<or> op = PCD_DELAYDIRECTB
         then show_byte_args 1 object segment outs
         else if op = PCD_PUSH2BYTES \<or> op = PCD_RANDOMDIRECTB
         then show_byte_args 2 object segment outs
         else if op = PCD_PUSH3BYTES then show_byte_args 3 object segment outs
         else if op = PCD_PUSH4BYTES then show_byte_args 4 object segment outs
         else if op = PCD_PUSH5BYTES then show_byte_args 5 object segment outs
         else if op = PCD_PUSHBYTES then show_pushbytes object segment outs
         else if op = PCD_CASEGOTOSORTED then show_casegotosorted object segment outs
         else if op = PCD_CALLFUNC then show_callfunc object segment outs
         else show_default object segment outs)"

definition show_instruction ::
  "object \<Rightarrow> pcode_segment \<Rightarrow> out list \<Rightarrow> out list \<times> (error + pcode_segment)"
  where
  "show_instruction object segment outs =
     (case show_opcode object segment outs of
        (outs, Inl e) \<Rightarrow> (outs, Inl e)
      | (outs, Inr segment) \<Rightarrow>
          if \<not> invalid_opcode segment then show_args object segment outs
          else (outs, Inr segment))"

text \<open>
  A segment after some reads: same start, size and offset, the cursor not before where it
  was.
\<close>

definition advanced :: "pcode_segment \<Rightarrow> pcode_segment \<Rightarrow> bool" where
  "advanced s s' =
     (data_start s' = data_start s \<and> code_size s' = code_size s
      \<and> seg_offset s' = seg_offset s \<and> seg_data s \<le> seg_data s')"

text \<open>The offset of the cursor in the object file.\<close>

definition file_position :: "pcode_segment \<Rightarrow> int" where
  "file_position segment = seg_offset segment + (seg_data segment - data_start segment)"

subsection \<open>The loop over the instructions\<close>

text \<open>
  Every instruction moves the cursor forward by at least the byte of its opcode; this is
  why the loop of \<open>show_pcode\<close> ends.
\<close>

lemma advanced_refl: "advanced s s"
  by (simp add: advanced_def)

lemma advanced_trans: "advanced s t \<Longrightarrow> advanced t u \<Longrightarrow> advanced s u"
  by (auto simp: advanced_def)

lemma fetch_Inr:
  assumes "fetch mem s n = Inr (bs, s')"
  shows "s' = s\<lparr> seg_data := seg_data s + int n \<rparr>"
  using assms unfolding fetch_def by (auto split: sum.splits)

lemma fetch_advanced:
  "fetch mem s n = Inr (bs, s') \<Longrightarrow> advanced s s' \<and> seg_data s' = seg_data s + int n"
  by (drule fetch_Inr) (simp add: advanced_def)

lemma fetch_scaled_advanced:
  "fetch_scaled object s = Inr (v, s') \<Longrightarrow> advanced s s'"
  unfolding fetch_scaled_def
  by (auto split: if_splits sum.splits dest!: fetch_advanced)

lemma fetch_opcode_advanced:
  "fetch_opcode object s = Inr (v, s') \<Longrightarrow> advanced s s' \<and> seg_data s < seg_data s'"
  unfolding fetch_opcode_def
  by (auto split: if_splits sum.splits dest!: fetch_advanced simp: advanced_def)

lemma show_opcode_advanced:
  "show_opcode object s outs = (outs', Inr s') \<Longrightarrow> advanced s s' \<and> seg_data s < seg_data s'"
  unfolding show_opcode_def Let_def
  by (auto split: if_splits sum.splits prod.splits dest!: fetch_opcode_advanced simp: advanced_def)

lemma show_one_arg_advanced:
  "show_one_arg object s outs = (outs', Inr s') \<Longrightarrow> advanced s s'"
  unfolding show_one_arg_def
  by (auto split: sum.splits dest!: fetch_scaled_advanced)

lemma show_lspec_direct_advanced:
  "show_lspec_direct n object s outs = (outs', Inr s') \<Longrightarrow> advanced s s'"
  unfolding show_lspec_direct_def
  by (auto split: sum.splits dest!: fetch_scaled_advanced fetch_advanced intro: advanced_trans)

lemma show_byte_args_advanced:
  "show_byte_args n object s outs = (outs', Inr s') \<Longrightarrow> advanced s s'"
  unfolding show_byte_args_def
  by (auto split: sum.splits dest!: fetch_advanced)

lemma show_pushbytes_loop_advanced:
  "show_pushbytes_loop mem s n outs = (outs', Inr s') \<Longrightarrow> advanced s s'"
proof (induction n arbitrary: s outs)
  case 0
  then show ?case by (simp add: advanced_def)
next
  case (Suc n)
  from Suc.prems obtain b where
    "show_pushbytes_loop mem (s\<lparr> seg_data := seg_data s + 1 \<rparr>) n (outs @ [Byte_out (le_uint b)]) = (outs', Inr s')"
    by (auto split: sum.splits)
  from Suc.IH[OF this] show ?case by (simp add: advanced_def)
qed

lemma show_pushbytes_advanced:
  "show_pushbytes object s outs = (outs', Inr s') \<Longrightarrow> advanced s s'"
  unfolding show_pushbytes_def Let_def
  by (auto split: sum.splits dest!: fetch_advanced show_pushbytes_loop_advanced intro: advanced_trans)

lemma show_cases_loop_advanced:
  "show_cases_loop mem s n outs = (outs', Inr s') \<Longrightarrow> advanced s s'"
proof (induction n arbitrary: s outs)
  case 0
  then show ?case by (simp add: advanced_def)
next
  case (Suc n)
  from Suc.prems obtain v s1 t s2 outs2 where
    f1: "fetch mem s 4 = Inr (v, s1)" and f2: "fetch mem s1 4 = Inr (t, s2)"
    and r: "show_cases_loop mem s2 n outs2 = (outs', Inr s')"
    by (auto simp: Let_def split: sum.splits)
  from fetch_advanced[OF f1] fetch_advanced[OF f2] Suc.IH[OF r] show ?case
    by (blast intro: advanced_trans)
qed

lemma show_casegotosorted_advanced:
  assumes "show_casegotosorted object s outs = (outs', Inr s')"
  shows "advanced s s'"
proof -
  define r where "r = casegotosorted_remainder s"
  have r0: "0 \<le> r" unfolding r_def casegotosorted_remainder_def to_size_t_def to_int_def by simp
  have r4: "r < 4" unfolding r_def casegotosorted_remainder_def to_size_t_def to_int_def by simp
  have pad: "to_int (4 - to_size_t r) = 4 - r"
    using r0 r4 by (simp add: to_size_t_def to_int_def)
  define s1 where "s1 = (if r > 0 then s\<lparr> seg_data := seg_data s + (4 - r) \<rparr> else s)"
  have a1: "advanced s s1" using r4 by (simp add: s1_def advanced_def)
  from assms obtain c s2 where f: "fetch (obj_data object) s1 4 = Inr (c, s2)"
    and l: "show_cases_loop (obj_data object) s2 (nat (int_of_bytes c)) (outs @ [Num_cases_out (int_of_bytes c)]) = (outs', Inr s')"
    unfolding show_casegotosorted_def Let_def r_def[symmetric] s1_def pad
    by (auto split: if_splits sum.splits)
  from a1 fetch_advanced[OF f] show_cases_loop_advanced[OF l] show ?thesis
    by (blast intro: advanced_trans)
qed

lemma show_callfunc_advanced:
  "show_callfunc object s outs = (outs', Inr s') \<Longrightarrow> advanced s s'"
  unfolding show_callfunc_def
  by (auto split: sum.splits if_splits dest!: fetch_scaled_advanced fetch_advanced intro: advanced_trans)

lemma show_default_loop_advanced:
  "show_default_loop mem s n outs = (outs', Inr s') \<Longrightarrow> advanced s s'"
proof (induction n arbitrary: s outs)
  case 0
  then show ?case by (simp add: advanced_def)
next
  case (Suc n)
  from Suc.prems obtain raw s1 outs1 where
    f1: "fetch mem s 4 = Inr (raw, s1)"
    and r: "show_default_loop mem s1 n outs1 = (outs', Inr s')"
    by (auto split: sum.splits)
  from fetch_advanced[OF f1] Suc.IH[OF r] show ?case
    by (blast intro: advanced_trans)
qed

lemma show_default_advanced:
  "show_default object s outs = (outs', Inr s') \<Longrightarrow> advanced s s'"
  unfolding show_default_def Let_def
  by (auto split: if_splits dest!: show_default_loop_advanced simp: advanced_refl)

lemma show_args_advanced:
  "show_args object s outs = (outs', Inr s') \<Longrightarrow> advanced s s'"
  unfolding show_args_def Let_def
  by (auto split: if_splits dest: show_one_arg_advanced show_lspec_direct_advanced
      show_byte_args_advanced show_pushbytes_advanced show_casegotosorted_advanced
      show_callfunc_advanced show_default_advanced)

lemma show_instruction_advanced:
  assumes "show_instruction object s outs = (outs', Inr s')"
  shows "advanced s s' \<and> seg_data s < seg_data s'"
proof -
  from assms obtain outs1 s1 where o: "show_opcode object s outs = (outs1, Inr s1)"
    and a: "(if \<not> invalid_opcode s1 then show_args object s1 outs1 else (outs1, Inr s1)) = (outs', Inr s')"
    unfolding show_instruction_def by (auto split: prod.splits sum.splits)
  from a have "advanced s1 s'"
    by (auto split: if_splits dest: show_args_advanced simp: advanced_refl)
  with show_opcode_advanced[OF o] show ?thesis by (auto simp: advanced_def)
qed

definition instructions_left :: "pcode_segment \<Rightarrow> nat" where
  "instructions_left segment =
     (if pcode_segment_end segment then 0
      else nat (code_size segment - (seg_data segment - data_start segment)))"

lemma show_instruction_decreases:
  assumes "\<not> pcode_segment_end s" and "(outs', Inr s') = show_instruction object s outs"
  shows "instructions_left s' < instructions_left s"
proof -
  from assms(2) have "show_instruction object s outs = (outs', Inr s')" by simp
  from show_instruction_advanced[OF this] assms(1) show ?thesis
    by (auto simp: instructions_left_def advanced_def pcode_segment_end_def)
qed

function show_pcode_loop ::
  "object \<Rightarrow> pcode_segment \<Rightarrow> out list \<Rightarrow> out list \<times> (error + unit)" where
  "show_pcode_loop object segment outs =
     (if \<not> pcode_segment_end segment
      then (case show_instruction object segment outs of
              (outs, Inl e) \<Rightarrow> (outs, Inl e)
            | (outs, Inr segment) \<Rightarrow> show_pcode_loop object segment outs)
      else (outs, Inr ()))"
  by pat_completeness auto
termination
  by (relation "measure (\<lambda>(object, segment, outs). instructions_left segment)")
     (auto intro: show_instruction_decreases)

declare show_pcode_loop.simps [simp del]

definition show_pcode ::
  "object \<Rightarrow> int \<Rightarrow> int \<Rightarrow> out list \<Rightarrow> out list \<times> (error + unit)" where
  "show_pcode object offset sz outs =
     show_pcode_loop object (init_pcode_segment object offset sz) outs"

section \<open>Script and function tables\<close>

definition get_script_type_name :: "int \<Rightarrow> string option" where
  "get_script_type_name t =
     map_of
       [ (0, ''closed''), (1, ''open''), (2, ''respawn''), (3, ''death''), (4, ''enter''),
         (5, ''pickup''), (6, ''bluereturn''), (7, ''redreturn''), (8, ''whitereturn''),
         (12, ''lightning''), (13, ''unloading''), (14, ''disconnect''), (15, ''return''),
         (16, ''event''), (17, ''kill''), (18, ''reopen'') ] t"

text \<open>
  The line that \<open>show_sptr\<close> and \<open>show_script_directory\<close> print for an entry, before
  they look at its offset.
\<close>

definition script_line :: "int \<Rightarrow> int \<Rightarrow> int \<Rightarrow> int \<Rightarrow> out list" where
  "script_line number t num_param offset =
     [ Script_number_out number,
       (case get_script_type_name t of
          Some name \<Rightarrow> Type_name_out name
        | None \<Rightarrow> Type_unknown_out t),
       Params_offset_out num_param offset ]"

text \<open>
  The loop of \<open>show_sptr\<close>. It returns \<open>None\<close> when \<open>calc_code_size\<close> does not return.
\<close>

function show_sptr_loop ::
  "object \<Rightarrow> chunk \<Rightarrow> int \<Rightarrow> out list \<Rightarrow> (out list \<times> (error + unit)) option" where
  "show_sptr_loop object chunk p outs =
     (if p < chunk_size chunk
      then (case read_acse_script_entry object chunk (chunk_data chunk + p) of
              Inl e \<Rightarrow> Some (outs, Inl e)
            | Inr entry \<Rightarrow>
                let p = p + real_entry_size entry;
                    outs = outs @ script_line (entry_number entry) (entry_type entry)
                                    (entry_num_param entry) (entry_offset entry)
                in if offset_in_object_file object (entry_offset entry)
                   then (case calc_code_size object (entry_offset entry) of
                           None \<Rightarrow> None
                         | Some (Inl e) \<Rightarrow> Some (outs, Inl e)
                         | Some (Inr sz) \<Rightarrow>
                             (case show_pcode object (entry_offset entry) sz outs of
                                (outs, Inl e) \<Rightarrow> Some (outs, Inl e)
                              | (outs, Inr _) \<Rightarrow> show_sptr_loop object chunk p outs))
                   else show_sptr_loop object chunk p
                          (outs @ [Warning_offset_outside (entry_offset entry)]))
      else Some (outs, Inr ()))"
  by pat_completeness auto
termination
  by (relation "measure (\<lambda>(object, chunk, p, outs). nat (chunk_size chunk - p))")
     (auto dest: read_acse_script_entry_size split: if_splits)

declare show_sptr_loop.simps [simp del]

definition show_sptr ::
  "object \<Rightarrow> chunk \<Rightarrow> out list \<Rightarrow> (out list \<times> (error + unit)) option" where
  "show_sptr object chunk outs = show_sptr_loop object chunk 0 outs"

text \<open>
  The loop of \<open>show_func\<close> over the entries \<open>{unsigned char num_param, size, has_return,
  padding; int offset}\<close>, read without a bounds check.
\<close>

function show_func_loop ::
  "object \<Rightarrow> chunk \<Rightarrow> int \<Rightarrow> int \<Rightarrow> out list \<Rightarrow> (out list \<times> (error + unit)) option"
  where
  "show_func_loop object chunk i total_funcs outs =
     (if i < total_funcs
      then (case memcpy (obj_data object) (chunk_data chunk + i * 8) 8 of
              Inl e \<Rightarrow> Some (outs, Inl e)
            | Inr raw \<Rightarrow>
                let offset = int_of_bytes (take 4 (drop 4 raw));
                    outs = outs @ [Func_line i (le_uint (take 1 raw))
                                     (le_uint (take 1 (drop 1 raw)))
                                     (le_uint (take 1 (drop 2 raw))) offset]
                in if offset_in_object_file object offset
                   then (if offset \<noteq> 0
                         then (case calc_code_size object offset of
                                 None \<Rightarrow> None
                               | Some (Inl e) \<Rightarrow> Some (outs, Inl e)
                               | Some (Inr sz) \<Rightarrow>
                                   (case show_pcode object offset sz outs of
                                      (outs, Inl e) \<Rightarrow> Some (outs, Inl e)
                                    | (outs, Inr _) \<Rightarrow>
                                        show_func_loop object chunk (i + 1) total_funcs outs))
                         else show_func_loop object chunk (i + 1) total_funcs
                                (outs @ [Imported_out]))
                   else show_func_loop object chunk (i + 1) total_funcs
                          (outs @ [Warning_offset_outside offset]))
      else Some (outs, Inr ()))"
  by pat_completeness auto
termination
  by (relation "measure (\<lambda>(object, chunk, i, total_funcs, outs). nat (total_funcs - i))")
     auto

declare show_func_loop.simps [simp del]

definition show_func ::
  "object \<Rightarrow> chunk \<Rightarrow> out list \<Rightarrow> (out list \<times> (error + unit)) option" where
  "show_func object chunk outs =
     show_func_loop object chunk 0 (to_int (to_size_t (chunk_size chunk) div 8)) outs"

section \<open>Script directory and string directory\<close>

text \<open>
  The loop of \<open>show_script_directory\<close> over the entries \<open>{int number; int offset;
  int num_param}\<close>; \<open>data\<close> points to the next entry.
\<close>

function show_script_directory_loop ::
  "object \<Rightarrow> int \<Rightarrow> int \<Rightarrow> int \<Rightarrow> out list \<Rightarrow> (out list \<times> (error + unit)) option"
  where
  "show_script_directory_loop object data i total_scripts outs =
     (if i < total_scripts
      then (case expect_data object data 12 of
              Inl e \<Rightarrow> Some (outs, Inl e)
            | Inr _ \<Rightarrow>
                (case memcpy (obj_data object) data 12 of
                   Inl e \<Rightarrow> Some (outs, Inl e)
                 | Inr raw \<Rightarrow>
                     let entry_number = int_of_bytes (take 4 raw);
                         offset = int_of_bytes (take 4 (drop 4 raw));
                         num_param = int_of_bytes (take 4 (drop 8 raw));
                         data = data + 12;
                         outs = outs @ script_line (entry_number smod 1000)
                                         (entry_number sdiv 1000) num_param offset
                     in if offset_in_object_file object offset
                        then (case calc_code_size object offset of
                                None \<Rightarrow> None
                              | Some (Inl e) \<Rightarrow> Some (outs, Inl e)
                              | Some (Inr sz) \<Rightarrow>
                                  (case show_pcode object offset sz outs of
                                     (outs, Inl e) \<Rightarrow> Some (outs, Inl e)
                                   | (outs, Inr _) \<Rightarrow>
                                       show_script_directory_loop object data (i + 1)
                                         total_scripts outs))
                        else show_script_directory_loop object data (i + 1) total_scripts
                               (outs @ [Warning_offset_outside offset])))
      else Some (outs, Inr ()))"
  by pat_completeness auto
termination
  by (relation "measure (\<lambda>(object, data, i, total_scripts, outs). nat (total_scripts - i))")
     auto

declare show_script_directory_loop.simps [simp del]

definition show_script_directory ::
  "object \<Rightarrow> out list \<Rightarrow> (out list \<times> (error + unit)) option" where
  "show_script_directory object outs =
     (let outs = outs @ [Script_directory_out (directory_offset object)];
          data = directory_offset object
      in case expect_data object data 4 of
           Inl e \<Rightarrow> Some (outs, Inl e)
         | Inr _ \<Rightarrow>
             (case read_int (obj_data object) data of
                Inl e \<Rightarrow> Some (outs, Inl e)
              | Inr total_scripts \<Rightarrow>
                  show_script_directory_loop object (data + 4) 0 total_scripts
                    (outs @ [Total_scripts_out total_scripts])))"

subsection \<open>Strings\<close>

text \<open>
  \<open>decode_ch\<close> computes in \<open>int\<close> and returns a \<open>char\<close>, the low eight bits of the result.
\<close>

definition decode_ch :: "int \<Rightarrow> int \<Rightarrow> byte \<Rightarrow> byte" where
  "decode_ch str_offset offset ch =
     ch XOR word_of_int (to_int (to_int (str_offset * 157135) + offset sdiv 2))"

text \<open>
  The loop of \<open>show_string\<close>: \<open>value\<close> points to the string, \<open>i\<close> is the index of the next
  character. The loop has no bound of its own; it ends at a NUL (a decoded NUL, for an
  encoded string) or reads outside the buffer.
\<close>

function show_string_loop ::
  "byte list \<Rightarrow> int \<Rightarrow> int \<Rightarrow> bool \<Rightarrow> int \<Rightarrow> out list \<Rightarrow> out list \<times> (error + unit)" where
  "show_string_loop mem offset value is_encoded i outs =
     (case memcpy mem (value + i) 1 of
        Inl e \<Rightarrow> (outs, Inl e)
      | Inr raw \<Rightarrow>
          let ch = (if is_encoded then decode_ch offset i (hd raw) else hd raw)
          in if ch = 0 then (outs, Inr ())
             else show_string_loop mem offset value is_encoded (i + 1) (outs @ [Char_out ch]))"
  by pat_completeness auto
termination
  by (relation "measure (\<lambda>(mem, offset, value, is_encoded, i, outs).
        nat (int (length mem) - (value + i)))")
     (auto simp: memcpy_def split: if_splits)

declare show_string_loop.simps [simp del]

definition show_string ::
  "byte list \<Rightarrow> int \<Rightarrow> int \<Rightarrow> int \<Rightarrow> bool \<Rightarrow> out list \<Rightarrow> out list \<times> (error + unit)" where
  "show_string mem index offset value is_encoded outs =
     (case show_string_loop mem offset value is_encoded 0 (outs @ [String_index_out index offset])
      of (outs, Inl e) \<Rightarrow> (outs, Inl e)
       | (outs, Inr _) \<Rightarrow> (outs @ [String_end_out], Inr ()))"

text \<open>The loop of \<open>show_string_directory\<close>; \<open>data\<close> points to the next offset.\<close>

function show_string_directory_loop ::
  "object \<Rightarrow> int \<Rightarrow> int \<Rightarrow> int \<Rightarrow> out list \<Rightarrow> out list \<times> (error + unit)" where
  "show_string_directory_loop object data i total_strings outs =
     (if i < total_strings
      then (case expect_data object data 4 of
              Inl e \<Rightarrow> (outs, Inl e)
            | Inr _ \<Rightarrow>
                (case read_int (obj_data object) data of
                   Inl e \<Rightarrow> (outs, Inl e)
                 | Inr offset \<Rightarrow>
                     (case show_string (obj_data object) i offset offset False outs of
                        (outs, Inl e) \<Rightarrow> (outs, Inl e)
                      | (outs, Inr _) \<Rightarrow>
                          show_string_directory_loop object (data + 4) (i + 1) total_strings
                            outs)))
      else (outs, Inr ()))"
  by pat_completeness auto
termination
  by (relation "measure (\<lambda>(object, data, i, total_strings, outs). nat (total_strings - i))")
     auto

declare show_string_directory_loop.simps [simp del]

definition show_string_directory :: "object \<Rightarrow> out list \<Rightarrow> out list \<times> (error + unit)" where
  "show_string_directory object outs =
     (let outs = outs @ [String_directory_out (string_offset object)];
          data = string_offset object
      in case expect_data object data 4 of
           Inl e \<Rightarrow> (outs, Inl e)
         | Inr _ \<Rightarrow>
             (case read_int (obj_data object) data of
                Inl e \<Rightarrow> (outs, Inl e)
              | Inr total_strings \<Rightarrow>
                  show_string_directory_loop object (data + 4) 0 total_strings
                    (outs @ [Total_strings_out total_strings])))"

subsection \<open>Strings of the STRL and STRE chunks\<close>

text \<open>The loop of \<open>is_strl_stre_string_nul_terminated\<close>, from index \<open>i\<close> on.\<close>

function nul_terminated_loop :: "byte list \<Rightarrow> chunk \<Rightarrow> int \<Rightarrow> int \<Rightarrow> error + bool" where
  "nul_terminated_loop mem chunk offset i =
     (if i < chunk_size chunk
      then (case memcpy mem (chunk_data chunk + i) 1 of
              Inl e \<Rightarrow> Inl e
            | Inr raw \<Rightarrow>
                let ch = (if chunk_type chunk = CHUNK_STRE
                          then decode_ch offset (to_int (i - offset)) (hd raw) else hd raw)
                in if ch = 0 then Inr True
                   else nul_terminated_loop mem chunk offset (i + 1))
      else Inr False)"
  by pat_completeness auto
termination
  by (relation "measure (\<lambda>(mem, chunk, offset, i). nat (chunk_size chunk - i))") auto

declare nul_terminated_loop.simps [simp del]

definition is_strl_stre_string_nul_terminated ::
  "byte list \<Rightarrow> chunk \<Rightarrow> int \<Rightarrow> error + bool" where
  "is_strl_stre_string_nul_terminated mem chunk offset =
     nul_terminated_loop mem chunk offset offset"

text \<open>\<open>read_strl_stre_string\<close> returns the pointer to the string.\<close>

definition read_strl_stre_string :: "byte list \<Rightarrow> chunk \<Rightarrow> int \<Rightarrow> error + int" where
  "read_strl_stre_string mem chunk offset =
     (case is_strl_stre_string_nul_terminated mem chunk offset of
        Inl e \<Rightarrow> Inl e
      | Inr terminated \<Rightarrow>
          if \<not> terminated then Inl (Not_nul_terminated offset)
          else Inr (chunk_data chunk + offset))"

text \<open>
  The body of the loop of \<open>show_strl_stre\<close> once the offset of a string is read: the
  offset is checked against the chunk, the string against its end, then it is shown.
\<close>

definition show_strl_stre_entry ::
  "byte list \<Rightarrow> chunk \<Rightarrow> int \<Rightarrow> int \<Rightarrow> out list \<Rightarrow> out list \<times> (error + unit)" where
  "show_strl_stre_entry mem chunk i offset outs =
     (case expect_chunk_offset_in_chunk chunk offset of
        Inl e \<Rightarrow> (outs, Inl e)
      | Inr _ \<Rightarrow>
          (case read_strl_stre_string mem chunk offset of
             Inl e \<Rightarrow> (outs, Inl e)
           | Inr value \<Rightarrow>
               show_string mem i offset value (chunk_type chunk = CHUNK_STRE) outs))"

section \<open>File loader\<close>

text \<open>
  The \<open>FILE\<close> of \<open>read_object_file_data\<close>, as what the C library answers: the results of
  the two \<open>fseek\<close> calls and of \<open>ftell\<close>, and the bytes \<open>fread\<close> stores (at most the
  \<open>size\<close> it is asked for).
\<close>

record file_handle =
  seek_end_result :: int
  tell_result :: int
  seek_set_result :: int
  fread_bytes :: "byte list"

record viewer =
  object_data :: "byte list"
  object_size :: int

definition INT_MAX :: int where "INT_MAX = 2147483647"

text \<open>
  \<open>allocated\<close> tells whether \<open>malloc\<close> returns a buffer. The function does not test the
  pointer: \<open>fread\<close> and the store of the NUL go through it as it is, so a failed \<open>malloc\<close>
  is the use of a null pointer. Otherwise the buffer has \<open>size + 1\<close> bytes. When \<open>fread\<close>
  stores all \<open>size\<close> bytes, the buffer is these bytes and the NUL written after them;
  when it stores fewer, the function fails, \<open>run\<close> bails out and the buffer is not read.
\<close>

definition read_object_file_data :: "bool \<Rightarrow> file_handle \<Rightarrow> error + viewer" where
  "read_object_file_data allocated fh =
     (if seek_end_result fh \<noteq> 0 then Inl Seek_end_failed
      else if \<not> (tell_result fh \<ge> 0) then Inl Tell_failed
      else if seek_set_result fh \<noteq> 0 then Inl Seek_set_failed
      else if tell_result fh - INT_MAX > 0 then Inl (Too_big (tell_result fh))
      else let sz = to_int (tell_result fh)
           in if \<not> allocated then Inl Null_buffer
              else let d = take (nat sz) (fread_bytes fh)
                   in if int (length d) = sz
                      then Inr \<lparr> object_data = d @ [0], object_size = sz \<rparr>
                      else Inl Read_failed)"

section \<open>The encoder of STRE strings\<close>

text \<open>
  Modelled from the spec: the encoder of the strings of a STRE chunk. It belongs to the
  compilers; this repository holds the decoder only. The spec gives the encoding as the
  inverse of the decoding (section 4.4 and scenario S4): byte \<open>k\<close> of the string stored
  at chunk-local offset \<open>s\<close>, the terminating NUL included, is the character XOR
  \<open>(s \<times> 157135 + \<lfloor>k/2\<rfloor>) mod 256\<close>.
\<close>

definition encode_ch :: "int \<Rightarrow> nat \<Rightarrow> byte \<Rightarrow> byte" where
  "encode_ch str_offset k ch = ch XOR word_of_int ((str_offset * 157135 + int k div 2) mod 256)"

definition stre_encode :: "int \<Rightarrow> byte list \<Rightarrow> byte list" where
  "stre_encode str_offset s =
     map (\<lambda>k. encode_ch str_offset k ((s @ [0]) ! k)) [0 ..< length s + 1]"

section \<open>Concrete object files\<close>

text \<open>
  The object files the theorems below run the viewer on. \<open>le32\<close> writes a 32-bit
  integer as the four bytes an object file stores.
\<close>

definition le32 :: "int \<Rightarrow> byte list" where
  "le32 x = [word_of_int x, word_of_int (x div 256), word_of_int (x div 65536),
             word_of_int (x div 16777216)]"

text \<open>
  An indirect ACSE file of 24 bytes: the ACS0 header with the directory at 16, the real
  header at 8 (chunk-section offset 1000, then the name), an empty script directory at
  16 and an empty string directory at 20.
\<close>

definition wild_chunk_offset_file :: "byte list" where
  "wild_chunk_offset_file =
     cstr ''ACS'' @ [0] @ le32 16 @ le32 1000 @ cstr ''ACSE'' @ le32 0 @ le32 0"

text \<open>
  An indirect ACSE file of 32 bytes whose chunk section (one empty ALIB chunk, at 24)
  comes after the directories, at the end of the file.
\<close>

definition chunks_at_end_file :: "byte list" where
  "chunks_at_end_file =
     cstr ''ACS'' @ [0] @ le32 16 @ le32 24 @ cstr ''ACSE'' @ le32 0 @ le32 0 @
     cstr ''ALIB'' @ le32 0"

definition chunks_at_end_object :: object where
  "chunks_at_end_object =
     \<lparr> obj_data = chunks_at_end_file @ [0], obj_size = 32, format = FORMAT_BIG_E,
       directory_offset = 16, string_offset = 20, real_header_offset = 8,
       chunk_offset = 24, indirect_format = True, small_code = False \<rparr>"

text \<open>
  A direct ACSe file of 64 bytes. Script 1 at offset 8 is one TERMINATE. Script 2 at
  offset 9 is two NOPs, a CASEGOTOSORTED (opcode 256, the two bytes 240 and 16) whose
  operands start at offset 13, three bytes of padding, the count 1 at offset 16, one
  case (7, 9), a TERMINATE and three more bytes. The chunk section at offset 32 holds
  the SPTR chunk with the two scripts.
\<close>

definition casegoto_file :: "byte list" where
  "casegoto_file =
     cstr ''ACSe'' @ le32 32 @ [1] @ [0, 0, 240, 16] @ [0, 0, 0] @ le32 1 @ le32 7 @ le32 9 @
     [1] @ [0, 0, 0] @
     cstr ''SPTR'' @ le32 24 @ [1, 0, 0, 0] @ le32 8 @ le32 0 @ [2, 0, 0, 0] @ le32 9 @ le32 0"

definition casegoto_object :: object where
  "casegoto_object =
     \<lparr> obj_data = casegoto_file @ [0], obj_size = 64, format = FORMAT_LITTLE_E,
       directory_offset = 32, string_offset = 0, real_header_offset = 0,
       chunk_offset = 32, indirect_format = False, small_code = True \<rparr>"

text \<open>
  The segment of script 2 (23 bytes of code from offset 9 on) when \<open>show_opcode\<close> has
  read the CASEGOTOSORTED: the cursor is 4 bytes from the start of the segment, at
  offset 13 of the file.
\<close>

definition casegoto_segment :: pcode_segment where
  "casegoto_segment =
     \<lparr> data_start = 9, seg_data = 13, seg_offset = 9, code_size = 23,
       opcode = PCD_CASEGOTOSORTED, invalid_opcode = False \<rparr>"

text \<open>A small-code object whose buffer holds the code bytes 239, 240, 5.\<close>

definition compact_object :: object where
  "compact_object =
     \<lparr> obj_data = [239, 240, 5, 0], obj_size = 3, format = FORMAT_LITTLE_E,
       directory_offset = 0, string_offset = 0, real_header_offset = 0, chunk_offset = 0,
       indirect_format = False, small_code = True \<rparr>"

text \<open>
  An ACS0 file of 20 bytes: no scripts, and a string directory (at 12) with one string,
  at offset 1000.
\<close>

definition wild_string_file :: "byte list" where
  "wild_string_file = cstr ''ACS'' @ [0] @ le32 8 @ le32 0 @ le32 1 @ le32 1000"

definition wild_string_object :: object where
  "wild_string_object =
     \<lparr> obj_data = wild_string_file @ [0], obj_size = 20, format = FORMAT_ZERO,
       directory_offset = 8, string_offset = 12, real_header_offset = 0,
       chunk_offset = 0, indirect_format = False, small_code = False \<rparr>"

text \<open>
  A direct ACSE file of 32 bytes: the chunk section at offset 8 holds the SPTR chunk
  with one script, whose code (one TERMINATE, at offset 28) follows the chunk section.
\<close>

definition late_script_file :: "byte list" where
  "late_script_file =
     cstr ''ACSE'' @ le32 8 @ cstr ''SPTR'' @ le32 12 @ [1, 0, 0, 0] @ le32 28 @ le32 0 @
     le32 1"

definition late_script_object :: object where
  "late_script_object =
     \<lparr> obj_data = late_script_file @ [0], obj_size = 32, format = FORMAT_BIG_E,
       directory_offset = 8, string_offset = 0, real_header_offset = 0,
       chunk_offset = 8, indirect_format = False, small_code = False \<rparr>"

definition late_script_sptr :: chunk where
  "late_script_sptr =
     \<lparr> chunk_name = cstr ''SPTR'' @ [0], chunk_data = 16, chunk_size = 12,
       chunk_type = CHUNK_SPTR \<rparr>"

text \<open>
  A direct ACSE file of 16 bytes: one chunk, named AAAA, whose size field is -8.
\<close>

definition negative_size_file :: "byte list" where
  "negative_size_file = cstr ''ACSE'' @ le32 8 @ cstr ''AAAA'' @ le32 (- 8)"

definition negative_size_object :: object where
  "negative_size_object =
     \<lparr> obj_data = negative_size_file @ [0], obj_size = 16, format = FORMAT_BIG_E,
       directory_offset = 8, string_offset = 0, real_header_offset = 0,
       chunk_offset = 8, indirect_format = False, small_code = False \<rparr>"

definition negative_size_chunk :: chunk where
  "negative_size_chunk =
     \<lparr> chunk_name = cstr ''AAAA'' @ [0], chunk_data = 16, chunk_size = - 8,
       chunk_type = CHUNK_UNKNOWN \<rparr>"

text \<open>
  The data of a STRE chunk of 25 bytes with two strings: \<open>ABC\<close>, stored encoded at
  chunk offset 20, and the empty string at 24.
\<close>

definition stre_chunk_data :: "byte list" where
  "stre_chunk_data =
     le32 0 @ le32 2 @ le32 0 @ le32 20 @ le32 24 @ stre_encode 20 (cstr ''ABC'') @
     stre_encode 24 []"

definition stre_chunk :: chunk where
  "stre_chunk =
     \<lparr> chunk_name = cstr ''STRE'' @ [0], chunk_data = 0, chunk_size = 25,
       chunk_type = CHUNK_STRE \<rparr>"

text \<open>
  A direct ACSE file of 68 bytes. Its code is one TERMINATE at offset 8. Its SPTR chunk
  has the scripts 1 (offset 1000, outside the file) and 2 (offset 8); its FUNC chunk has
  a function at offset 2000, outside the file, and an imported function.
\<close>

definition tables_file :: "byte list" where
  "tables_file =
     cstr ''ACSE'' @ le32 12 @ le32 1 @
     cstr ''SPTR'' @ le32 24 @
       [1, 0, 0, 0] @ le32 1000 @ le32 0 @
       [2, 0, 1, 0] @ le32 8 @ le32 0 @
     cstr ''FUNC'' @ le32 16 @
       [1, 2, 1, 0] @ le32 2000 @
       [0, 0, 0, 0] @ le32 0"

definition tables_object :: object where
  "tables_object =
     \<lparr> obj_data = tables_file @ [0], obj_size = 68, format = FORMAT_BIG_E,
       directory_offset = 12, string_offset = 0, real_header_offset = 0,
       chunk_offset = 12, indirect_format = False, small_code = False \<rparr>"

definition tables_sptr :: chunk where
  "tables_sptr =
     \<lparr> chunk_name = cstr ''SPTR'' @ [0], chunk_data = 20, chunk_size = 24,
       chunk_type = CHUNK_SPTR \<rparr>"

definition tables_func :: chunk where
  "tables_func =
     \<lparr> chunk_name = cstr ''FUNC'' @ [0], chunk_data = 52, chunk_size = 16,
       chunk_type = CHUNK_FUNC \<rparr>"

definition tables_sptr_entry :: common_acse_script_entry where
  "tables_sptr_entry =
     \<lparr> entry_number = 1, entry_type = 0, entry_num_param = 0, entry_offset = 1000,
       real_entry_size = 12 \<rparr>"

text \<open>
  An ACS0 file of 44 bytes. Its code is one TERMINATE at offset 8. Its script directory
  (at 12) has the scripts 1 (offset 5000, outside the file) and 2 (an OPEN script, at
  offset 8); its string directory (at 40) is empty.
\<close>

definition directory_file :: "byte list" where
  "directory_file =
     cstr ''ACS'' @ [0] @ le32 12 @ le32 1 @
     le32 2 @ le32 1 @ le32 5000 @ le32 0 @ le32 1002 @ le32 8 @ le32 0 @
     le32 0"

definition directory_object :: object where
  "directory_object =
     \<lparr> obj_data = directory_file @ [0], obj_size = 44, format = FORMAT_ZERO,
       directory_offset = 12, string_offset = 40, real_header_offset = 0,
       chunk_offset = 0, indirect_format = False, small_code = False \<rparr>"

text \<open>A file of the two bytes \<open>AB\<close> that is read without an error.\<close>

definition two_byte_file :: file_handle where
  "two_byte_file =
     \<lparr> seek_end_result = 0, tell_result = 2, seek_set_result = 0,
       fread_bytes = [65, 66] \<rparr>"

section \<open>Integer conversions\<close>

lemma to_int_range: "- (2 ^ 31) \<le> to_int x \<and> to_int x < 2 ^ 31"
  unfolding to_int_def by simp

lemma to_int_id: "- (2 ^ 31) \<le> x \<Longrightarrow> x < 2 ^ 31 \<Longrightarrow> to_int x = x"
  unfolding to_int_def by (simp add: mod_pos_pos_trivial)

lemma to_size_t_id: "0 \<le> x \<Longrightarrow> x < 2 ^ 64 \<Longrightarrow> to_size_t x = x"
  unfolding to_size_t_def by simp

lemma int_of_bytes_range: "- (2 ^ 31) \<le> int_of_bytes bs \<and> int_of_bytes bs < 2 ^ 31"
  unfolding int_of_bytes_def by (rule to_int_range)

lemma minus_sizeof_int: "0 \<le> h \<Longrightarrow> h < 2 ^ 31 \<Longrightarrow> to_int (to_size_t h - 4) = h - 4"
  by (simp add: to_size_t_id to_int_id)

section \<open>Format resolver\<close>

lemmas resolver_defs =
  resolve_format_def determine_format_def classify_header_def set_small_code_def
  init_object_def memcpy_def data_left_def to_int_def to_size_t_def int_of_bytes_def
  expect_offset_in_object_file_def offset_in_object_file_def offset_in_range_def cstr_def
  peek_real_id_def determine_format_indirect_def read_int_def determine_object_offsets_def
  script_directory_present_def expect_data_def le32_def

lemma peek_real_id_True:
  assumes "peek_real_id object hdr = Inr True"
    and "0 \<le> header_offset hdr" and "header_offset hdr < 2 ^ 31"
  shows "4 \<le> header_offset hdr"
  using assms
  unfolding peek_real_id_def Let_def offset_in_object_file_def offset_in_range_def
  by (auto simp: minus_sizeof_int split: if_splits sum.splits)

lemma determine_format_indirect_Inr:
  assumes "determine_format_indirect object hdr = Inr object'"
    and "4 \<le> header_offset hdr" and "header_offset hdr < 2 ^ 31"
  shows "real_header_offset object' = header_offset hdr - 8 \<and> 8 \<le> header_offset hdr
     \<and> indirect_format object' \<and> directory_offset object' = directory_offset object
     \<and> obj_size object' = obj_size object \<and> obj_data object' = obj_data object
     \<and> format object' \<in> {FORMAT_BIG_E, FORMAT_LITTLE_E}
     \<and> string_offset object' = string_offset object"
  using assms
  unfolding determine_format_indirect_def Let_def expect_offset_in_object_file_def
    offset_in_object_file_def offset_in_range_def
  by (auto simp: minus_sizeof_int split: if_splits sum.splits)

lemma classify_header_Inr:
  assumes ok: "classify_header object hdr = Inr object'"
    and direct: "\<not> indirect_format object"
    and h: "0 \<le> header_offset hdr" "header_offset hdr < 2 ^ 31"
  shows "obj_size object' = obj_size object \<and> obj_data object' = obj_data object
     \<and> directory_offset object' = directory_offset object
     \<and> string_offset object' = string_offset object
     \<and> (indirect_format object' \<longrightarrow>
           real_header_offset object' = header_offset hdr - 8 \<and> 8 \<le> header_offset hdr)
     \<and> (\<not> indirect_format object' \<and> format object' \<in> {FORMAT_BIG_E, FORMAT_LITTLE_E}
          \<and> format object = FORMAT_UNKNOWN \<longrightarrow>
           chunk_offset object' = directory_offset object')"
proof (cases "header_id hdr = cstr ''ACSE'' \<or> header_id hdr = cstr ''ACSe''")
  case True
  with ok direct show ?thesis unfolding classify_header_def by auto
next
  case no_direct_name: False
  show ?thesis
  proof (cases "header_id hdr = [of_char CHR ''A'', of_char CHR ''C'', of_char CHR ''S'', 0]")
    case False
    with no_direct_name ok direct show ?thesis unfolding classify_header_def by auto
  next
    case zero_name: True
    show ?thesis
    proof (cases "peek_real_id object hdr")
      case (Inl e)
      with no_direct_name zero_name ok show ?thesis unfolding classify_header_def by simp
    next
      case (Inr b)
      show ?thesis
      proof (cases b)
        case False
        with Inr no_direct_name zero_name ok direct show ?thesis
          unfolding classify_header_def by auto
      next
        case True
        with Inr have p: "peek_real_id object hdr = Inr True" by simp
        from peek_real_id_True[OF p h] have h4: "4 \<le> header_offset hdr" .
        from ok no_direct_name zero_name p
        have "determine_format_indirect object hdr = Inr object'"
          unfolding classify_header_def by simp
        from determine_format_indirect_Inr[OF this h4 h(2)] show ?thesis by simp
      qed
    qed
  qed
qed

lemma set_small_code_fields:
  "obj_size (set_small_code object) = obj_size object"
  "obj_data (set_small_code object) = obj_data object"
  "directory_offset (set_small_code object) = directory_offset object"
  "string_offset (set_small_code object) = string_offset object"
  "real_header_offset (set_small_code object) = real_header_offset object"
  "chunk_offset (set_small_code object) = chunk_offset object"
  "indirect_format (set_small_code object) = indirect_format object"
  "format (set_small_code object) = format object"
  by (simp_all add: set_small_code_def)

lemma determine_format_Inr:
  assumes ok: "determine_format object = Inr object'"
    and direct: "\<not> indirect_format object"
  shows "obj_size object' = obj_size object \<and> obj_data object' = obj_data object
     \<and> 0 \<le> directory_offset object' \<and> directory_offset object' < obj_size object
     \<and> string_offset object' = string_offset object
     \<and> (indirect_format object' \<longrightarrow>
           real_header_offset object' = directory_offset object' - 8
           \<and> 8 \<le> directory_offset object')
     \<and> (\<not> indirect_format object' \<and> format object' \<in> {FORMAT_BIG_E, FORMAT_LITTLE_E}
          \<and> format object = FORMAT_UNKNOWN \<longrightarrow>
           chunk_offset object' = directory_offset object')"
proof -
  from ok obtain raw where raw: "memcpy (obj_data object) 0 8 = Inr raw"
    unfolding determine_format_def by (auto split: if_splits sum.splits)
  define hdr where
    "hdr = \<lparr> header_id = take 4 raw, header_offset = int_of_bytes (drop 4 raw) \<rparr>"
  have hr: "header_offset hdr < 2 ^ 31"
    using int_of_bytes_range[of "drop 4 raw"] by (simp add: hdr_def)
  from ok raw have inr: "0 \<le> header_offset hdr \<and> header_offset hdr < obj_size object"
    unfolding determine_format_def Let_def expect_offset_in_object_file_def
      offset_in_object_file_def offset_in_range_def
    by (simp add: hdr_def split: if_splits sum.splits)
  from ok raw obtain o1
    where o1: "classify_header (object\<lparr> directory_offset := header_offset hdr \<rparr>) hdr = Inr o1"
      and o': "object' = set_small_code o1"
    unfolding determine_format_def Let_def
    by (auto simp add: hdr_def split: if_splits sum.splits)
  have "\<not> indirect_format (object\<lparr> directory_offset := header_offset hdr \<rparr>)"
    using direct by simp
  from classify_header_Inr[OF o1 this _ hr] inr
  show ?thesis unfolding o' set_small_code_fields by simp
qed

lemma determine_object_offsets_Inr:
  assumes "determine_object_offsets object = Inr object'"
  shows "obj_size object' = obj_size object \<and> obj_data object' = obj_data object
     \<and> directory_offset object' = directory_offset object
     \<and> real_header_offset object' = real_header_offset object
     \<and> chunk_offset object' = chunk_offset object
     \<and> indirect_format object' = indirect_format object
     \<and> format object' = format object
     \<and> (script_directory_present object \<longrightarrow>
           0 \<le> string_offset object' \<and> string_offset object' < obj_size object)"
  using assms
  unfolding determine_object_offsets_def Let_def expect_offset_in_object_file_def
    offset_in_object_file_def offset_in_range_def
  by (auto split: if_splits sum.splits)

text \<open>
  What the resolver does check: the directory offset, the offset of the hidden real
  header and the string-directory offset of an accepted file lie inside the file, and a
  direct file's chunk section starts at its directory offset.
\<close>

lemma resolver_checked_offsets:
  assumes "resolve_format d sz = Inr object"
  shows "0 \<le> directory_offset object \<and> directory_offset object < sz
     \<and> (indirect_format object \<longrightarrow>
           0 \<le> real_header_offset object \<and> real_header_offset object < sz)
     \<and> (script_directory_present object \<longrightarrow>
           0 \<le> string_offset object \<and> string_offset object < sz)
     \<and> (\<not> indirect_format object \<and> format object \<in> {FORMAT_BIG_E, FORMAT_LITTLE_E} \<longrightarrow>
           chunk_offset object = directory_offset object)"
proof -
  from assms obtain o1 where o1: "determine_format (init_object d sz) = Inr o1"
    and o2: "determine_object_offsets o1 = Inr object"
    unfolding resolve_format_def by (auto split: sum.splits)
  have i: "\<not> indirect_format (init_object d sz)" by (simp add: init_object_def)
  have s: "obj_size (init_object d sz) = sz" "format (init_object d sz) = FORMAT_UNKNOWN"
    by (simp_all add: init_object_def)
  note f1 = determine_format_Inr[OF o1 i] and f2 = determine_object_offsets_Inr[OF o2]
  from f2 have "format object = format o1" "indirect_format object = indirect_format o1"
    by simp_all
  then have "script_directory_present object = script_directory_present o1"
    by (simp add: script_directory_present_def split: format.splits)
  with f1 f2 s show ?thesis by auto
qed

text \<open>
  C1 (code defect). The claim: every offset the resolver populates lies in [0, N), the
  chunk-section offset read from an indirect file's hidden real header included. The
  code checks the place the chunk-section offset is read from, but not the value read:
  it accepts this 24-byte indirect file and sets the chunk-section offset to 1000.
\<close>

theorem resolver_accepts_chunk_offset_outside_file:
  "\<exists>object. resolve_format (wild_chunk_offset_file @ [0]) 24 = Inr object
     \<and> indirect_format object \<and> format object = FORMAT_BIG_E
     \<and> chunk_offset object = 1000
     \<and> \<not> offset_in_object_file object (chunk_offset object)"
  by (simp add: wild_chunk_offset_file_def resolver_defs)

text \<open>
  C2 (as stated, false). The claim: an accepted indirect file has
  \<open>chunk_offset < real_header_offset < directory_offset\<close>. The resolver accepts this
  file, whose chunk section lies after the real header and the directories.
\<close>

theorem indirect_ordering_counterexample:
  "resolve_format (chunks_at_end_file @ [0]) 32 = Inr chunks_at_end_object
   \<and> indirect_format chunks_at_end_object
   \<and> \<not> chunk_offset chunks_at_end_object < real_header_offset chunks_at_end_object"
  by (simp add: chunks_at_end_file_def chunks_at_end_object_def resolver_defs)

text \<open>
  C2 (amended). For every file the resolver accepts as indirect, the real header lies
  eight bytes before the script directory, inside the file:
  \<open>0 \<le> real_header_offset < directory_offset < N\<close>. The resolver puts no order between
  the chunk-section offset and the real header.
\<close>

theorem indirect_real_header_before_directory:
  assumes "resolve_format d sz = Inr object" and "indirect_format object"
  shows "real_header_offset object = directory_offset object - 8
     \<and> 0 \<le> real_header_offset object
     \<and> real_header_offset object < directory_offset object
     \<and> directory_offset object < sz"
proof -
  from assms(1) obtain o1 where o1: "determine_format (init_object d sz) = Inr o1"
    and o2: "determine_object_offsets o1 = Inr object"
    unfolding resolve_format_def by (auto split: sum.splits)
  have i: "\<not> indirect_format (init_object d sz)" by (simp add: init_object_def)
  have s: "obj_size (init_object d sz) = sz" by (simp add: init_object_def)
  from determine_format_Inr[OF o1 i] determine_object_offsets_Inr[OF o2] s assms(2)
  show ?thesis by auto
qed

theorem indirect_real_header_before_directory_witness:
  "resolve_format (chunks_at_end_file @ [0]) 32 = Inr chunks_at_end_object
   \<and> indirect_format chunks_at_end_object
   \<and> real_header_offset chunks_at_end_object = 8
   \<and> directory_offset chunks_at_end_object = 16"
proof -
  have r: "resolve_format (chunks_at_end_file @ [0]) 32 = Inr chunks_at_end_object"
    by (simp add: chunks_at_end_file_def chunks_at_end_object_def resolver_defs)
  have i: "indirect_format chunks_at_end_object"
    by (simp add: chunks_at_end_object_def)
  from indirect_real_header_before_directory[OF r i] r i show ?thesis
    by (simp add: chunks_at_end_object_def)
qed

section \<open>String directory\<close>

text \<open>
  C3 (code defect). The claim: every offset read from the file is checked against the
  buffer before the bytes at it are read, the string offsets of the ACS0 string directory
  in particular. \<open>show_string_directory\<close> hands the offset it reads to \<open>show_string\<close> with
  no check: on this 20-byte ACS0 file, whose one string offset is 1000, the first
  character is read at offset 1000, outside the buffer.
\<close>

theorem string_directory_reads_outside_buffer:
  "resolve_format (wild_string_file @ [0]) 20 = Inr wild_string_object
   \<and> \<not> offset_in_object_file wild_string_object 1000
   \<and> show_string_directory wild_string_object [] =
       ([String_directory_out 12, Total_strings_out 1, String_index_out 0 1000],
        Inl (Wild_read 1000))"
  by code_simp

section \<open>Extent inference\<close>

text \<open>
  C4 (code defect). The claim: \<open>calc_code_size\<close> is never negative, and the chunk-section
  offset lowers the end offset only when it is greater than the offset of the code. The
  code tests \<open>chunk_offset < end_offset\<close> only: for the script at offset 28 of this file,
  whose chunk section starts at 8, it returns 8 - 28, and \<open>show_sptr\<close> prints the line of
  the script but none of its code.
\<close>

theorem calc_code_size_negative:
  "resolve_format (late_script_file @ [0]) 32 = Inr late_script_object
   \<and> find_chunk late_script_object (cstr ''SPTR'') = Some (Inr (Some late_script_sptr))
   \<and> offset_in_object_file late_script_object 28
   \<and> calc_code_size late_script_object 28 = Some (Inr (- 20))
   \<and> show_sptr late_script_object late_script_sptr [] =
       Some ([Script_number_out 1, Type_name_out ''closed'', Params_offset_out 0 28],
             Inr ())"
  by code_simp

section \<open>Chunk walker\<close>

lemma negative_size_read_chunk:
  "read_chunk negative_size_object \<lparr> end_pos = 16, pos = 8 \<rparr> =
     Inr (Some (negative_size_chunk, \<lparr> end_pos = 16, pos = 8 \<rparr>))"
  by code_simp

lemma list_chunks_loop_negative_size:
  assumes "list_chunks_loop object reader outs = Some y"
  shows "\<not> (object = negative_size_object \<and> reader = \<lparr> end_pos = 16, pos = 8 \<rparr>)"
proof (rule list_chunks_loop.raw_induct
    [where P = "\<lambda>object reader outs y.
       \<not> (object = negative_size_object \<and> reader = \<lparr> end_pos = 16, pos = 8 \<rparr>)",
     OF _ assms])
  fix f object reader outs y
  assume IH: "\<And>object reader outs y. f object reader outs = Some y \<Longrightarrow>
      \<not> (object = negative_size_object \<and> reader = \<lparr> end_pos = 16, pos = 8 \<rparr>)"
    and step: "(case read_chunk object reader of
        Inl e \<Rightarrow> Some (outs, Inl e)
      | Inr None \<Rightarrow> Some (outs, Inr ())
      | Inr (Some (chunk, reader')) \<Rightarrow>
          f object reader' (outs @ [show_chunk_line object chunk])) = Some y"
  show "\<not> (object = negative_size_object \<and> reader = \<lparr> end_pos = 16, pos = 8 \<rparr>)"
  proof
    assume "object = negative_size_object \<and> reader = \<lparr> end_pos = 16, pos = 8 \<rparr>"
    with step obtain outs'
      where "f negative_size_object \<lparr> end_pos = 16, pos = 8 \<rparr> outs' = Some y"
      by (simp add: negative_size_read_chunk)
    from IH[OF this] show False by simp
  qed
qed

lemma find_chunk_loop_negative_size:
  assumes "find_chunk_loop object name reader = Some y"
  shows "\<not> (object = negative_size_object \<and> name = cstr ''SPTR''
            \<and> reader = \<lparr> end_pos = 16, pos = 8 \<rparr>)"
proof (rule find_chunk_loop.raw_induct
    [where P = "\<lambda>object name reader y.
       \<not> (object = negative_size_object \<and> name = cstr ''SPTR''
          \<and> reader = \<lparr> end_pos = 16, pos = 8 \<rparr>)",
     OF _ assms])
  fix f object name reader y
  assume IH: "\<And>object name reader y. f object name reader = Some y \<Longrightarrow>
      \<not> (object = negative_size_object \<and> name = cstr ''SPTR''
         \<and> reader = \<lparr> end_pos = 16, pos = 8 \<rparr>)"
    and step: "(case read_chunk object reader of
        Inl e \<Rightarrow> Some (Inl e)
      | Inr None \<Rightarrow> Some (Inr None)
      | Inr (Some (chunk, reader')) \<Rightarrow>
          if c_string name = c_string (chunk_name chunk) then Some (Inr (Some chunk))
          else f object name reader') = Some y"
  show "\<not> (object = negative_size_object \<and> name = cstr ''SPTR''
           \<and> reader = \<lparr> end_pos = 16, pos = 8 \<rparr>)"
  proof
    assume a: "object = negative_size_object \<and> name = cstr ''SPTR''
               \<and> reader = \<lparr> end_pos = 16, pos = 8 \<rparr>"
    have "c_string (cstr ''SPTR'') \<noteq> c_string (chunk_name negative_size_chunk)"
      by (simp add: negative_size_chunk_def c_string_def cstr_def)
    with step a
    have "f negative_size_object (cstr ''SPTR'') \<lparr> end_pos = 16, pos = 8 \<rparr> = Some y"
      by (simp add: negative_size_read_chunk)
    from IH[OF this] show False by simp
  qed
qed

text \<open>
  C5 (code defect). The claim: the cursor of the chunk walker never moves back and the
  walk ends, whatever the size field of a chunk, negative ones included. \<open>init_chunk\<close>
  accepts a negative size (\<open>expect_data\<close> only fails when fewer bytes are left than asked
  for), and \<open>read_chunk\<close> adds 8 plus the size to the cursor: on this file, whose only
  chunk has size -8, the cursor stays at 8, and neither \<open>list_chunks\<close> nor \<open>find_chunk\<close>
  returns.
\<close>

theorem chunk_walk_never_returns:
  "resolve_format (negative_size_file @ [0]) 16 = Inr negative_size_object
   \<and> init_chunk_reader negative_size_object = \<lparr> end_pos = 16, pos = 8 \<rparr>
   \<and> read_chunk negative_size_object (init_chunk_reader negative_size_object) =
       Inr (Some (negative_size_chunk, init_chunk_reader negative_size_object))
   \<and> list_chunks negative_size_object = None
   \<and> find_chunk negative_size_object (cstr ''SPTR'') = None"
proof -
  have r: "resolve_format (negative_size_file @ [0]) 16 = Inr negative_size_object"
    by code_simp
  have i: "init_chunk_reader negative_size_object = \<lparr> end_pos = 16, pos = 8 \<rparr>"
    by (simp add: init_chunk_reader_def negative_size_object_def)
  have l: "list_chunks negative_size_object = None"
    using list_chunks_loop_negative_size
      [of negative_size_object "\<lparr> end_pos = 16, pos = 8 \<rparr>" "[]"]
    unfolding list_chunks_def i
    by (cases "list_chunks_loop negative_size_object \<lparr> end_pos = 16, pos = 8 \<rparr> []") auto
  have f: "find_chunk negative_size_object (cstr ''SPTR'') = None"
    using find_chunk_loop_negative_size
      [of negative_size_object "cstr ''SPTR''" "\<lparr> end_pos = 16, pos = 8 \<rparr>"]
    unfolding find_chunk_def i
    by (cases "find_chunk_loop negative_size_object (cstr ''SPTR'')
                 \<lparr> end_pos = 16, pos = 8 \<rparr>") auto
  from r i l f negative_size_read_chunk show ?thesis by simp
qed

text \<open>
  With the size -16 in place of -8, the cursor moves back, from 8 to 0.
\<close>

lemma chunk_walk_moves_back:
  "read_chunk
     (negative_size_object\<lparr> obj_data := cstr ''ACSE'' @ le32 8 @ cstr ''AAAA'' @
                                         le32 (- 16) @ [0] \<rparr>)
     \<lparr> end_pos = 16, pos = 8 \<rparr> =
   Inr (Some (negative_size_chunk\<lparr> chunk_size := - 16 \<rparr>, \<lparr> end_pos = 16, pos = 0 \<rparr>))"
  by code_simp

section \<open>Bytecode disassembler\<close>

lemma show_args_casegotosorted:
  "opcode segment = PCD_CASEGOTOSORTED \<Longrightarrow>
     show_args object segment outs = show_casegotosorted object segment outs"
  by (simp add: show_args_def one_arg_opcodes_def pcd_defs)

lemma show_cases_loop_cursor:
  "show_cases_loop mem s n outs = (outs', Inr s') \<Longrightarrow>
     seg_data s' = seg_data s + 8 * int n \<and> length outs' = length outs + 2 * n"
proof (induction n arbitrary: s outs)
  case 0
  then show ?case by simp
next
  case (Suc n)
  from Suc.prems obtain v s1 t s2 outs2 where
    f1: "fetch mem s 4 = Inr (v, s1)" and f2: "fetch mem s1 4 = Inr (t, s2)"
    and r: "show_cases_loop mem s2 n outs2 = (outs', Inr s')"
    and l: "length outs2 = length outs + 2"
    by (auto simp: Let_def split: sum.splits)
  from fetch_advanced[OF f1] fetch_advanced[OF f2] Suc.IH[OF r] l show ?case
    by simp
qed

lemma casegotosorted_remainder_eq:
  "casegotosorted_remainder segment = file_position segment mod 4"
proof -
  have "to_size_t x mod 4 = x mod 4" for x
    unfolding to_size_t_def by (simp add: mod_mod_cancel)
  then show ?thesis
    unfolding casegotosorted_remainder_def file_position_def
    by (simp add: to_int_id)
qed

text \<open>
  C6 (as stated, false). The claim: CASEGOTOSORTED pads the cursor to a multiple of 4
  counted from the start of the segment, so a cursor 4 bytes into the segment takes no
  padding. In script 2 of this file the cursor is 4 bytes into the segment (which starts
  at offset 9) and \<open>show_args\<close> skips 3 bytes before it reads the count.
\<close>

theorem casegotosorted_padding_counterexample:
  "opcode casegoto_segment = PCD_CASEGOTOSORTED
   \<and> (seg_data casegoto_segment - data_start casegoto_segment) mod 4 = 0
   \<and> show_args casegoto_object casegoto_segment [] =
       ([Num_cases_out 1, Case_out 24 7, Target_out 9],
        Inr (casegoto_segment\<lparr> seg_data := seg_data casegoto_segment + 3 + 4 + 8 \<rparr>))"
  by code_simp

text \<open>The segment above is the one \<open>show_pcode\<close> reaches in script 2 of the file.\<close>

lemma casegoto_file_disassembly:
  "resolve_format (casegoto_file @ [0]) 64 = Inr casegoto_object
   \<and> calc_code_size casegoto_object 9 = Some (Inr 23)
   \<and> show_pcode casegoto_object 9 23 [] =
       ([Pos_out 9, Name_out 0, Newline_out, Pos_out 10, Name_out 0, Newline_out,
         Pos_out 11, Name_out 256, Num_cases_out 1, Case_out 24 7, Target_out 9,
         Pos_out 28, Name_out 1, Newline_out, Pos_out 29, Name_out 0, Newline_out,
         Pos_out 30, Name_out 0, Newline_out, Pos_out 31, Name_out 0, Newline_out],
        Inr ())"
  by code_simp

text \<open>
  C6 (amended). When the disassembler decodes a CASEGOTOSORTED, it pads the cursor to
  a multiple of 4 of its offset in the object file (the offset of the segment plus the
  distance of the cursor from the start of the segment), then reads a 4-byte count and
  count pairs of 4-byte value and target; when the offset of the cursor in the file is
  a multiple of 4 already, it skips nothing.
\<close>

theorem casegotosorted_alignment:
  assumes op: "opcode segment = PCD_CASEGOTOSORTED"
    and ok: "show_args object segment outs = (outs', Inr segment')"
  shows "\<exists>padding count.
           padding = (- file_position segment) mod 4
         \<and> (file_position segment mod 4 = 0 \<longrightarrow> padding = 0)
         \<and> (file_position segment + padding) mod 4 = 0
         \<and> read_int (obj_data object) (seg_data segment + padding) = Inr count
         \<and> seg_data segment' = seg_data segment + padding + 4 + 8 * int (nat count)
         \<and> length outs' = length outs + 1 + 2 * nat count"
proof -
  define r where "r = file_position segment mod 4"
  define padding where "padding = (- file_position segment) mod 4"
  have r0: "0 \<le> r" and r4: "r < 4" unfolding r_def by simp_all
  have pad: "to_int (4 - to_size_t r) = 4 - r"
    using r0 r4 by (simp add: to_size_t_def to_int_def)
  have padding: "padding = (if r > 0 then 4 - r else 0)"
    unfolding padding_def r_def by presburger
  have aligned: "(file_position segment + padding) mod 4 = 0"
    unfolding padding_def by presburger
  define s1 where
    "s1 = (if r > 0 then segment\<lparr> seg_data := seg_data segment + (4 - r) \<rparr> else segment)"
  have s1: "seg_data s1 = seg_data segment + padding"
    by (simp add: s1_def padding)
  from ok op have "show_casegotosorted object segment outs = (outs', Inr segment')"
    by (simp add: show_args_casegotosorted)
  then obtain c s2 where f: "fetch (obj_data object) s1 4 = Inr (c, s2)"
    and l: "show_cases_loop (obj_data object) s2 (nat (int_of_bytes c))
              (outs @ [Num_cases_out (int_of_bytes c)]) = (outs', Inr segment')"
    unfolding show_casegotosorted_def Let_def casegotosorted_remainder_eq
      r_def[symmetric] s1_def pad
    by (auto split: if_splits sum.splits)
  from f have rd: "read_int (obj_data object) (seg_data s1) = Inr (int_of_bytes c)"
    unfolding fetch_def read_int_def by (auto split: sum.splits)
  from fetch_advanced[OF f] show_cases_loop_cursor[OF l] s1 rd aligned padding
  show ?thesis
    by (intro exI[of _ padding] exI[of _ "int_of_bytes c"]) (auto simp: padding_def r_def)
qed

theorem casegotosorted_alignment_witness:
  "opcode casegoto_segment = PCD_CASEGOTOSORTED
   \<and> show_args casegoto_object casegoto_segment [] =
       ([Num_cases_out 1, Case_out 24 7, Target_out 9],
        Inr (casegoto_segment\<lparr> seg_data := 28 \<rparr>))
   \<and> (\<exists>padding count.
         padding = (- file_position casegoto_segment) mod 4
       \<and> read_int (obj_data casegoto_object) (seg_data casegoto_segment + padding) = Inr count
       \<and> (28 :: int) = seg_data casegoto_segment + padding + 4 + 8 * int (nat count))"
proof -
  have op: "opcode casegoto_segment = PCD_CASEGOTOSORTED"
    by (simp add: casegoto_segment_def)
  have ok: "show_args casegoto_object casegoto_segment [] =
       ([Num_cases_out 1, Case_out 24 7, Target_out 9],
        Inr (casegoto_segment\<lparr> seg_data := 28 \<rparr>))"
    by code_simp
  from casegotosorted_alignment[OF op ok] op ok show ?thesis by auto
qed

text \<open>
  C7. In small code the opcode decoder reads one byte \<open>b\<close>. If \<open>b < 240\<close> the opcode is
  \<open>b\<close> and one byte is consumed; otherwise a second byte \<open>c\<close> is read, the opcode is
  \<open>b + c\<close> and two bytes are consumed.
\<close>

theorem small_code_opcode_fetch:
  assumes sc: "small_code object"
    and f1: "fetch (obj_data object) segment 1 = Inr ([b], s1)"
  shows "(uint b < 240 \<longrightarrow>
            fetch_opcode object segment = Inr (uint b, s1)
            \<and> seg_data s1 = seg_data segment + 1
            \<and> show_opcode object segment outs =
                (outs @ [Pos_out (to_int (seg_offset segment +
                                   to_int (seg_data segment - data_start segment))),
                         Name_out (uint b)],
                 Inr (s1\<lparr> opcode := uint b \<rparr>)))
       \<and> (240 \<le> uint b \<longrightarrow>
            (\<forall>c s2. fetch (obj_data object) s1 1 = Inr ([c], s2) \<longrightarrow>
               fetch_opcode object segment = Inr (uint b + uint c, s2)
               \<and> seg_data s2 = seg_data segment + 2
               \<and> show_opcode object segment outs =
                   (if uint b + uint c < PCD_TOTAL
                    then (outs @ [Pos_out (to_int (seg_offset segment +
                                     to_int (seg_data segment - data_start segment))),
                                  Name_out (uint b + uint c)],
                          Inr (s2\<lparr> opcode := uint b + uint c \<rparr>))
                    else (outs @ [Pos_out (to_int (seg_offset segment +
                                     to_int (seg_data segment - data_start segment))),
                                  Unknown_pcode_out (uint b + uint c)],
                          Inr (s2\<lparr> invalid_opcode := True \<rparr>)))))"
proof (intro conjI impI allI)
  assume lt: "uint b < 240"
  from sc f1 lt show one: "fetch_opcode object segment = Inr (uint b, s1)"
    by (simp add: fetch_opcode_def)
  from fetch_advanced[OF f1] show "seg_data s1 = seg_data segment + 1" by simp
  have "0 \<le> uint b" by simp
  with one lt show "show_opcode object segment outs =
                (outs @ [Pos_out (to_int (seg_offset segment +
                                   to_int (seg_data segment - data_start segment))),
                         Name_out (uint b)],
                 Inr (s1\<lparr> opcode := uint b \<rparr>))"
    by (simp add: show_opcode_def PCD_NOP_def PCD_TOTAL_def)
next
  fix c s2
  assume ge: "240 \<le> uint b" and f2: "fetch (obj_data object) s1 1 = Inr ([c], s2)"
  from sc f1 f2 ge show two: "fetch_opcode object segment = Inr (uint b + uint c, s2)"
    by (simp add: fetch_opcode_def)
  from fetch_advanced[OF f1] fetch_advanced[OF f2]
  show "seg_data s2 = seg_data segment + 2" by simp
  have "0 \<le> uint b + uint c" by simp
  with two show "show_opcode object segment outs =
                   (if uint b + uint c < PCD_TOTAL
                    then (outs @ [Pos_out (to_int (seg_offset segment +
                                     to_int (seg_data segment - data_start segment))),
                                  Name_out (uint b + uint c)],
                          Inr (s2\<lparr> opcode := uint b + uint c \<rparr>))
                    else (outs @ [Pos_out (to_int (seg_offset segment +
                                     to_int (seg_data segment - data_start segment))),
                                  Unknown_pcode_out (uint b + uint c)],
                          Inr (s2\<lparr> invalid_opcode := True \<rparr>)))"
    by (simp add: show_opcode_def PCD_NOP_def)
qed

theorem small_code_opcode_fetch_witness:
  "show_opcode compact_object (init_pcode_segment compact_object 0 3) [] =
     ([Pos_out 0, Name_out 239],
      Inr ((init_pcode_segment compact_object 0 3)\<lparr> seg_data := 1, opcode := 239 \<rparr>))
   \<and> show_opcode compact_object (init_pcode_segment compact_object 1 2) [] =
     ([Pos_out 1, Name_out 245],
      Inr ((init_pcode_segment compact_object 1 2)\<lparr> seg_data := 3, opcode := 245 \<rparr>))"
proof -
  define seg0 where "seg0 = init_pcode_segment compact_object 0 3"
  define seg1 where "seg1 = init_pcode_segment compact_object 1 2"
  have sc: "small_code compact_object" by (simp add: compact_object_def)
  have a: "fetch (obj_data compact_object) seg0 1 = Inr ([239], seg0\<lparr> seg_data := 1 \<rparr>)"
    unfolding seg0_def by code_simp
  have b: "fetch (obj_data compact_object) seg1 1 = Inr ([240], seg1\<lparr> seg_data := 2 \<rparr>)"
    unfolding seg1_def by code_simp
  have c: "fetch (obj_data compact_object) (seg1\<lparr> seg_data := 2 \<rparr>) 1 =
             Inr ([5], seg1\<lparr> seg_data := 3 \<rparr>)"
    unfolding seg1_def by code_simp
  have p: "to_int (seg_offset seg0 + to_int (seg_data seg0 - data_start seg0)) = 0"
      "to_int (seg_offset seg1 + to_int (seg_data seg1 - data_start seg1)) = 1"
    by (simp_all add: seg0_def seg1_def init_pcode_segment_def to_int_def)
  have u: "uint (239 :: byte) < 240" "240 \<le> uint (240 :: byte)"
      "uint (240 :: byte) + uint (5 :: byte) = 245" "(245 :: int) < PCD_TOTAL"
    by (simp_all add: PCD_TOTAL_def)
  from small_code_opcode_fetch[OF sc a, of "[]"] u(1)
  have one: "show_opcode compact_object seg0 [] =
      ([] @ [Pos_out (to_int (seg_offset seg0 + to_int (seg_data seg0 - data_start seg0))),
             Name_out (uint (239 :: byte))],
       Inr (seg0\<lparr> seg_data := 1, opcode := uint (239 :: byte) \<rparr>))"
    by blast
  from small_code_opcode_fetch[OF sc b, of "[]"] u(2) c
  have two: "show_opcode compact_object seg1 [] =
      (if uint (240 :: byte) + uint (5 :: byte) < PCD_TOTAL
       then ([] @ [Pos_out (to_int (seg_offset seg1 + to_int (seg_data seg1 - data_start seg1))),
                   Name_out (uint (240 :: byte) + uint (5 :: byte))],
             Inr (seg1\<lparr> seg_data := 3, opcode := uint (240 :: byte) + uint (5 :: byte) \<rparr>))
       else ([] @ [Pos_out (to_int (seg_offset seg1 + to_int (seg_data seg1 - data_start seg1))),
                   Unknown_pcode_out (uint (240 :: byte) + uint (5 :: byte))],
             Inr (seg1\<lparr> seg_data := 3, invalid_opcode := True \<rparr>)))"
    by blast
  have one': "show_opcode compact_object seg0 [] =
      ([Pos_out 0, Name_out 239], Inr (seg0\<lparr> seg_data := 1, opcode := 239 \<rparr>))"
    unfolding one p by simp
  have two': "show_opcode compact_object seg1 [] =
      ([Pos_out 1, Name_out 245], Inr (seg1\<lparr> seg_data := 3, opcode := 245 \<rparr>))"
    unfolding two p u(3) using u(4) by simp
  from one' two' show ?thesis unfolding seg0_def seg1_def by (rule conjI)
qed

section \<open>Output of the printing functions\<close>

text \<open>
  The printing functions only append to the output they are given: a run that starts with
  the output \<open>a @ b\<close> returns what the run that starts with \<open>b\<close> returns, after \<open>a\<close>.
\<close>

lemma show_opcode_acc:
  "show_opcode object s (a @ b) = apfst ((@) a) (show_opcode object s b)"
  unfolding show_opcode_def Let_def by (auto split: sum.splits prod.splits)

lemma show_one_arg_acc:
  "show_one_arg object s (a @ b) = apfst ((@) a) (show_one_arg object s b)"
  unfolding show_one_arg_def by (simp split: sum.splits prod.splits)

lemma show_lspec_direct_acc:
  "show_lspec_direct n object s (a @ b) = apfst ((@) a) (show_lspec_direct n object s b)"
  unfolding show_lspec_direct_def by (simp split: sum.splits prod.splits)

lemma show_byte_args_acc:
  "show_byte_args n object s (a @ b) = apfst ((@) a) (show_byte_args n object s b)"
  unfolding show_byte_args_def by (simp split: sum.splits prod.splits)

lemma show_pushbytes_loop_acc:
  "show_pushbytes_loop mem s n (a @ b) = apfst ((@) a) (show_pushbytes_loop mem s n b)"
  by (induction n arbitrary: s b) (simp_all split: sum.splits)

lemma show_pushbytes_acc:
  "show_pushbytes object s (a @ b) = apfst ((@) a) (show_pushbytes object s b)"
  unfolding show_pushbytes_def Let_def
  by (simp add: show_pushbytes_loop_acc split: sum.splits prod.splits)

lemma show_cases_loop_acc:
  "show_cases_loop mem s n (a @ b) = apfst ((@) a) (show_cases_loop mem s n b)"
  by (induction n arbitrary: s b) (simp_all add: Let_def split: sum.splits prod.splits)

lemma show_casegotosorted_acc:
  "show_casegotosorted object s (a @ b) = apfst ((@) a) (show_casegotosorted object s b)"
  unfolding show_casegotosorted_def Let_def
  by (simp add: show_cases_loop_acc split: sum.splits prod.splits)

lemma show_callfunc_acc:
  "show_callfunc object s (a @ b) = apfst ((@) a) (show_callfunc object s b)"
  unfolding show_callfunc_def by (simp split: sum.splits prod.splits)

lemma show_default_loop_acc:
  "show_default_loop mem s n (a @ b) = apfst ((@) a) (show_default_loop mem s n b)"
  by (induction n arbitrary: s b) (simp_all split: sum.splits prod.splits)

lemma show_default_acc:
  "show_default object s (a @ b) = apfst ((@) a) (show_default object s b)"
  unfolding show_default_def Let_def by (simp add: show_default_loop_acc)

lemma show_args_acc:
  "show_args object s (a @ b) = apfst ((@) a) (show_args object s b)"
  unfolding show_args_def Let_def
  by (simp only: show_one_arg_acc show_lspec_direct_acc show_byte_args_acc show_pushbytes_acc
      show_casegotosorted_acc show_callfunc_acc show_default_acc if_distrib[of "apfst ((@) a)"])

lemma show_instruction_acc:
  "show_instruction object s (a @ b) = apfst ((@) a) (show_instruction object s b)"
  unfolding show_instruction_def
  by (simp add: show_opcode_acc show_args_acc split: sum.splits prod.splits)

lemma show_pcode_loop_acc:
  "show_pcode_loop object s (a @ b) = apfst ((@) a) (show_pcode_loop object s b)"
proof (induction object s b rule: show_pcode_loop.induct)
  case (1 object segment outs)
  show ?case
  proof (cases "pcode_segment_end segment")
    case True
    then show ?thesis by (simp add: show_pcode_loop.simps)
  next
    case False
    obtain o1 r where i: "show_instruction object segment outs = (o1, r)" by (cases "show_instruction object segment outs")
    show ?thesis
    proof (cases r)
      case (Inl e)
      with i False show ?thesis
        by (subst show_pcode_loop.simps, subst (2) show_pcode_loop.simps)
           (simp add: show_instruction_acc)
    next
      case (Inr s')
      from 1[OF False i[symmetric] Inr]
      have "show_pcode_loop object s' (a @ o1) = apfst ((@) a) (show_pcode_loop object s' o1)" .
      with i Inr False show ?thesis
        by (subst show_pcode_loop.simps, subst (2) show_pcode_loop.simps)
           (simp add: show_instruction_acc)
    qed
  qed
qed

lemma show_pcode_acc:
  "show_pcode object offset sz (a @ b) = apfst ((@) a) (show_pcode object offset sz b)"
  by (simp add: show_pcode_def show_pcode_loop_acc)

lemma show_sptr_loop_acc:
  "show_sptr_loop object chunk p (a @ b) =
     map_option (apfst ((@) a)) (show_sptr_loop object chunk p b)"
proof (induction object chunk p b rule: show_sptr_loop.induct)
  case (1 object chunk p outs)
  note unf = show_sptr_loop.simps[of object chunk p "a @ outs"]
    show_sptr_loop.simps[of object chunk p outs]
  show ?case
  proof (cases "p < chunk_size chunk")
    case False
    then show ?thesis by (simp add: unf)
  next
    case lt: True
    show ?thesis
    proof (cases "read_acse_script_entry object chunk (chunk_data chunk + p)")
      case (Inl e)
      with lt show ?thesis by (simp add: unf)
    next
      case (Inr entry)
      define line where "line = script_line (entry_number entry) (entry_type entry)
                                    (entry_num_param entry) (entry_offset entry)"
      show ?thesis
      proof (cases "offset_in_object_file object (entry_offset entry)")
        case False
        from 1(2)[OF lt Inr refl refl False]
        have "show_sptr_loop object chunk (p + real_entry_size entry)
                (a @ (outs @ line) @ [Warning_offset_outside (entry_offset entry)]) =
              map_option (apfst ((@) a))
                (show_sptr_loop object chunk (p + real_entry_size entry)
                   ((outs @ line) @ [Warning_offset_outside (entry_offset entry)]))"
          by (simp add: line_def)
        with lt Inr False show ?thesis by (simp add: unf Let_def line_def)
      next
        case inside: True
        show ?thesis
        proof (cases "calc_code_size object (entry_offset entry)")
          case None
          with lt Inr inside show ?thesis by (simp add: unf Let_def)
        next
          case (Some r)
          show ?thesis
          proof (cases r)
            case (Inl e)
            with lt Inr inside Some show ?thesis by (simp add: unf Let_def)
          next
            case sz: (Inr sz)
            obtain o1 r1 where sp: "show_pcode object (entry_offset entry) sz (outs @ line) = (o1, r1)"
              by (cases "show_pcode object (entry_offset entry) sz (outs @ line)")
            have sp': "show_pcode object (entry_offset entry) sz (a @ outs @ line) = (a @ o1, r1)"
              using sp by (simp add: show_pcode_acc)
            show ?thesis
            proof (cases r1)
              case (Inl e)
              with lt Inr inside Some sz sp sp' show ?thesis
                by (simp add: unf Let_def line_def[symmetric])
            next
              case ok: (Inr u)
              from 1(1)[OF lt Inr refl refl inside Some sz sp[unfolded line_def, symmetric] ok]
              have "show_sptr_loop object chunk (p + real_entry_size entry) (a @ o1) =
                    map_option (apfst ((@) a))
                      (show_sptr_loop object chunk (p + real_entry_size entry) o1)" .
              with lt Inr inside Some sz sp sp' ok show ?thesis
                by (simp add: unf Let_def line_def[symmetric])
            qed
          qed
        qed
      qed
    qed
  qed
qed

lemma show_func_loop_acc:
  "show_func_loop object chunk i total_funcs (a @ b) =
     map_option (apfst ((@) a)) (show_func_loop object chunk i total_funcs b)"
proof (induction object chunk i total_funcs b rule: show_func_loop.induct)
  case (1 object chunk i total_funcs outs)
  note unf = show_func_loop.simps[of object chunk i total_funcs "a @ outs"]
    show_func_loop.simps[of object chunk i total_funcs outs]
  show ?case
  proof (cases "i < total_funcs")
    case False
    then show ?thesis by (simp add: unf)
  next
    case lt: True
    show ?thesis
    proof (cases "memcpy (obj_data object) (chunk_data chunk + i * 8) 8")
      case (Inl e)
      with lt show ?thesis by (simp add: unf)
    next
      case (Inr raw)
      define offset where "offset = int_of_bytes (take 4 (drop 4 raw))"
      define line where "line = [Func_line i (le_uint (take 1 raw))
                                     (le_uint (take 1 (drop 1 raw)))
                                     (le_uint (take 1 (drop 2 raw))) offset]"
      show ?thesis
      proof (cases "offset_in_object_file object offset")
        case False
        from 1(3)[OF lt Inr refl refl False[unfolded offset_def]]
        have "show_func_loop object chunk (i + 1) total_funcs
                (a @ (outs @ line) @ [Warning_offset_outside offset]) =
              map_option (apfst ((@) a))
                (show_func_loop object chunk (i + 1) total_funcs
                   ((outs @ line) @ [Warning_offset_outside offset]))"
          by (simp add: line_def offset_def)
        with lt Inr False show ?thesis
          by (simp add: unf Let_def line_def offset_def)
      next
        case inside: True
        show ?thesis
        proof (cases "offset = 0")
          case True
          from 1(2)[OF lt Inr refl refl inside[unfolded offset_def]] True
          have "show_func_loop object chunk (i + 1) total_funcs
                  (a @ (outs @ line) @ [Imported_out]) =
                map_option (apfst ((@) a))
                  (show_func_loop object chunk (i + 1) total_funcs
                     ((outs @ line) @ [Imported_out]))"
            by (simp add: line_def offset_def)
          with lt Inr inside True show ?thesis
            by (simp add: unf Let_def line_def offset_def)
        next
          case nz: False
          show ?thesis
          proof (cases "calc_code_size object offset")
            case None
            with lt Inr inside nz show ?thesis by (simp add: unf Let_def offset_def)
          next
            case (Some r)
            show ?thesis
            proof (cases r)
              case (Inl e)
              with lt Inr inside nz Some show ?thesis by (simp add: unf Let_def offset_def)
            next
              case sz: (Inr sz)
              obtain o1 r1 where sp: "show_pcode object offset sz (outs @ line) = (o1, r1)"
                by (cases "show_pcode object offset sz (outs @ line)")
              have sp': "show_pcode object offset sz (a @ outs @ line) = (a @ o1, r1)"
                using sp by (simp add: show_pcode_acc)
              show ?thesis
              proof (cases r1)
                case (Inl e)
                with lt Inr inside nz Some sz sp sp' show ?thesis
                  by (simp add: unf Let_def line_def offset_def[symmetric])
              next
                case ok: (Inr u)
                from 1(1)[OF lt Inr refl refl inside[unfolded offset_def] nz[unfolded offset_def]
                            Some[unfolded offset_def] sz
                            sp[unfolded line_def offset_def, symmetric] ok]
                have "show_func_loop object chunk (i + 1) total_funcs (a @ o1) =
                      map_option (apfst ((@) a))
                        (show_func_loop object chunk (i + 1) total_funcs o1)" .
                with lt Inr inside nz Some sz sp sp' ok show ?thesis
                  by (simp add: unf Let_def line_def offset_def[symmetric])
              qed
            qed
          qed
        qed
      qed
    qed
  qed
qed

lemma show_script_directory_loop_acc:
  "show_script_directory_loop object data i total_scripts (a @ b) =
     map_option (apfst ((@) a)) (show_script_directory_loop object data i total_scripts b)"
proof (induction object data i total_scripts b rule: show_script_directory_loop.induct)
  case (1 object data i total_scripts outs)
  note unf = show_script_directory_loop.simps[of object data i total_scripts "a @ outs"]
    show_script_directory_loop.simps[of object data i total_scripts outs]
  show ?case
  proof (cases "i < total_scripts")
    case False
    then show ?thesis by (simp add: unf)
  next
    case lt: True
    show ?thesis
    proof (cases "expect_data object data 12")
      case (Inl e)
      with lt show ?thesis by (simp add: unf)
    next
      case ex: (Inr u0)
      show ?thesis
      proof (cases "memcpy (obj_data object) data 12")
        case (Inl e)
        with lt ex show ?thesis by (simp add: unf)
      next
        case (Inr raw)
        define offset where "offset = int_of_bytes (take 4 (drop 4 raw))"
        define line where "line = script_line (int_of_bytes (take 4 raw) smod 1000)
                                         (int_of_bytes (take 4 raw) sdiv 1000)
                                         (int_of_bytes (take 4 (drop 8 raw))) offset"
        show ?thesis
        proof (cases "offset_in_object_file object offset")
          case False
          from 1(2)[OF lt ex Inr refl refl refl refl refl False[unfolded offset_def]]
          have "show_script_directory_loop object (data + 12) (i + 1) total_scripts
                  (a @ (outs @ line) @ [Warning_offset_outside offset]) =
                map_option (apfst ((@) a))
                  (show_script_directory_loop object (data + 12) (i + 1) total_scripts
                     ((outs @ line) @ [Warning_offset_outside offset]))"
            by (simp add: line_def offset_def)
          with lt ex Inr False show ?thesis
            by (simp add: unf Let_def line_def offset_def)
        next
          case inside: True
          show ?thesis
          proof (cases "calc_code_size object offset")
            case None
            with lt ex Inr inside show ?thesis by (simp add: unf Let_def offset_def)
          next
            case (Some r)
            show ?thesis
            proof (cases r)
              case (Inl e)
              with lt ex Inr inside Some show ?thesis by (simp add: unf Let_def offset_def)
            next
              case sz: (Inr sz)
              obtain o1 r1 where sp: "show_pcode object offset sz (outs @ line) = (o1, r1)"
                by (cases "show_pcode object offset sz (outs @ line)")
              have sp': "show_pcode object offset sz (a @ outs @ line) = (a @ o1, r1)"
                using sp by (simp add: show_pcode_acc)
              show ?thesis
              proof (cases r1)
                case (Inl e)
                with lt ex Inr inside Some sz sp sp' show ?thesis
                  by (simp add: unf Let_def line_def[symmetric] offset_def[symmetric])
              next
                case ok: (Inr u)
                from 1(1)[OF lt ex Inr refl refl refl refl refl inside[unfolded offset_def]
                            Some[unfolded offset_def] sz
                            sp[unfolded line_def offset_def, symmetric] ok]
                have "show_script_directory_loop object (data + 12) (i + 1) total_scripts
                        (a @ o1) =
                      map_option (apfst ((@) a))
                        (show_script_directory_loop object (data + 12) (i + 1) total_scripts o1)" .
                with lt ex Inr inside Some sz sp sp' ok show ?thesis
                  by (simp add: unf Let_def line_def[symmetric] offset_def[symmetric])
              qed
            qed
          qed
        qed
      qed
    qed
  qed
qed

section \<open>Script and function tables\<close>

text \<open>
  C9. When a script entry (of the SPTR chunk or of the ACS0 script directory) or a
  function entry (of the FUNC chunk) has an offset outside the file, the run of the loop
  from this entry returns what the run over the remaining entries of the table returns,
  with the same final result, and its output is the output so far, the line of the entry,
  the warning, and then the output of the remaining entries: nothing of the entry's code is
  printed, and the viewer does not bail out. When the entry is the last of its table, the
  run returns without an error, the warning being the last thing printed.
\<close>

theorem entry_outside_file_is_skipped:
  "(p < chunk_size chunk
      \<and> read_acse_script_entry object chunk (chunk_data chunk + p) = Inr entry
      \<and> \<not> offset_in_object_file object (entry_offset entry)
    \<longrightarrow> show_sptr_loop object chunk p outs =
          map_option
            (apfst (\<lambda>rest. outs @ script_line (entry_number entry) (entry_type entry)
                                     (entry_num_param entry) (entry_offset entry) @
                            Warning_offset_outside (entry_offset entry) # rest))
            (show_sptr_loop object chunk (p + real_entry_size entry) [])
        \<and> (chunk_size chunk \<le> p + real_entry_size entry
           \<longrightarrow> show_sptr_loop object chunk p outs =
                 Some (outs @ script_line (entry_number entry) (entry_type entry)
                                 (entry_num_param entry) (entry_offset entry) @
                       [Warning_offset_outside (entry_offset entry)], Inr ())))
   \<and> (i < total_funcs
      \<and> memcpy (obj_data object) (chunk_data chunk + i * 8) 8 = Inr raw
      \<and> \<not> offset_in_object_file object (int_of_bytes (take 4 (drop 4 raw)))
    \<longrightarrow> show_func_loop object chunk i total_funcs outs =
          map_option
            (apfst (\<lambda>rest. outs @
                      Func_line i (le_uint (take 1 raw)) (le_uint (take 1 (drop 1 raw)))
                        (le_uint (take 1 (drop 2 raw))) (int_of_bytes (take 4 (drop 4 raw))) #
                      Warning_offset_outside (int_of_bytes (take 4 (drop 4 raw))) # rest))
            (show_func_loop object chunk (i + 1) total_funcs [])
        \<and> (total_funcs \<le> i + 1
           \<longrightarrow> show_func_loop object chunk i total_funcs outs =
                 Some (outs @
                       [Func_line i (le_uint (take 1 raw)) (le_uint (take 1 (drop 1 raw)))
                          (le_uint (take 1 (drop 2 raw))) (int_of_bytes (take 4 (drop 4 raw))),
                        Warning_offset_outside (int_of_bytes (take 4 (drop 4 raw)))], Inr ())))
   \<and> (j < total_scripts
      \<and> expect_data object data 12 = Inr ()
      \<and> memcpy (obj_data object) data 12 = Inr raw'
      \<and> \<not> offset_in_object_file object (int_of_bytes (take 4 (drop 4 raw')))
    \<longrightarrow> show_script_directory_loop object data j total_scripts outs =
          map_option
            (apfst (\<lambda>rest. outs @ script_line (int_of_bytes (take 4 raw') smod 1000)
                                     (int_of_bytes (take 4 raw') sdiv 1000)
                                     (int_of_bytes (take 4 (drop 8 raw')))
                                     (int_of_bytes (take 4 (drop 4 raw'))) @
                            Warning_offset_outside (int_of_bytes (take 4 (drop 4 raw'))) # rest))
            (show_script_directory_loop object (data + 12) (j + 1) total_scripts [])
        \<and> (total_scripts \<le> j + 1
           \<longrightarrow> show_script_directory_loop object data j total_scripts outs =
                 Some (outs @ script_line (int_of_bytes (take 4 raw') smod 1000)
                                 (int_of_bytes (take 4 raw') sdiv 1000)
                                 (int_of_bytes (take 4 (drop 8 raw')))
                                 (int_of_bytes (take 4 (drop 4 raw'))) @
                       [Warning_offset_outside (int_of_bytes (take 4 (drop 4 raw')))], Inr ())))"
proof (intro conjI impI)
  assume h: "p < chunk_size chunk
      \<and> read_acse_script_entry object chunk (chunk_data chunk + p) = Inr entry
      \<and> \<not> offset_in_object_file object (entry_offset entry)"
  define line where "line = script_line (entry_number entry) (entry_type entry)
                              (entry_num_param entry) (entry_offset entry)"
  define w where "w = Warning_offset_outside (entry_offset entry)"
  have step: "show_sptr_loop object chunk p outs =
                show_sptr_loop object chunk (p + real_entry_size entry) ((outs @ line @ [w]) @ [])"
    using h by (subst show_sptr_loop.simps) (simp add: Let_def line_def w_def)
  show eq: "show_sptr_loop object chunk p outs =
          map_option (apfst (\<lambda>rest. outs @ line @ w # rest))
            (show_sptr_loop object chunk (p + real_entry_size entry) [])"
    unfolding step show_sptr_loop_acc
    by (cases "show_sptr_loop object chunk (p + real_entry_size entry) []") auto
  assume "chunk_size chunk \<le> p + real_entry_size entry"
  then have "show_sptr_loop object chunk (p + real_entry_size entry) [] = Some ([], Inr ())"
    by (subst show_sptr_loop.simps) simp
  then show "show_sptr_loop object chunk p outs = Some (outs @ line @ [w], Inr ())"
    unfolding eq by simp
next
  assume h: "i < total_funcs
      \<and> memcpy (obj_data object) (chunk_data chunk + i * 8) 8 = Inr raw
      \<and> \<not> offset_in_object_file object (int_of_bytes (take 4 (drop 4 raw)))"
  define line where "line = Func_line i (le_uint (take 1 raw)) (le_uint (take 1 (drop 1 raw)))
                        (le_uint (take 1 (drop 2 raw))) (int_of_bytes (take 4 (drop 4 raw)))"
  define w where "w = Warning_offset_outside (int_of_bytes (take 4 (drop 4 raw)))"
  have step: "show_func_loop object chunk i total_funcs outs =
                show_func_loop object chunk (i + 1) total_funcs ((outs @ [line, w]) @ [])"
    using h by (subst show_func_loop.simps) (simp add: Let_def line_def w_def)
  show eq: "show_func_loop object chunk i total_funcs outs =
          map_option (apfst (\<lambda>rest. outs @ line # w # rest))
            (show_func_loop object chunk (i + 1) total_funcs [])"
    unfolding step show_func_loop_acc
    by (cases "show_func_loop object chunk (i + 1) total_funcs []") auto
  assume "total_funcs \<le> i + 1"
  then have "show_func_loop object chunk (i + 1) total_funcs [] = Some ([], Inr ())"
    by (subst show_func_loop.simps) simp
  then show "show_func_loop object chunk i total_funcs outs = Some (outs @ [line, w], Inr ())"
    unfolding eq by simp
next
  assume h: "j < total_scripts
      \<and> expect_data object data 12 = Inr ()
      \<and> memcpy (obj_data object) data 12 = Inr raw'
      \<and> \<not> offset_in_object_file object (int_of_bytes (take 4 (drop 4 raw')))"
  define line where "line = script_line (int_of_bytes (take 4 raw') smod 1000)
                                     (int_of_bytes (take 4 raw') sdiv 1000)
                                     (int_of_bytes (take 4 (drop 8 raw')))
                                     (int_of_bytes (take 4 (drop 4 raw')))"
  define w where "w = Warning_offset_outside (int_of_bytes (take 4 (drop 4 raw')))"
  have step: "show_script_directory_loop object data j total_scripts outs =
                show_script_directory_loop object (data + 12) (j + 1) total_scripts
                  ((outs @ line @ [w]) @ [])"
    using h by (subst show_script_directory_loop.simps) (simp add: Let_def line_def w_def)
  show eq: "show_script_directory_loop object data j total_scripts outs =
          map_option (apfst (\<lambda>rest. outs @ line @ w # rest))
            (show_script_directory_loop object (data + 12) (j + 1) total_scripts [])"
    unfolding step show_script_directory_loop_acc
    by (cases "show_script_directory_loop object (data + 12) (j + 1) total_scripts []") auto
  assume "total_scripts \<le> j + 1"
  then have "show_script_directory_loop object (data + 12) (j + 1) total_scripts [] =
               Some ([], Inr ())"
    by (subst show_script_directory_loop.simps) simp
  then show "show_script_directory_loop object data j total_scripts outs =
               Some (outs @ line @ [w], Inr ())"
    unfolding eq by simp
qed

theorem entry_outside_file_is_skipped_witness:
  "show_sptr tables_object tables_sptr [] =
     Some ([Script_number_out 1, Type_name_out ''closed'', Params_offset_out 0 1000,
            Warning_offset_outside 1000,
            Script_number_out 2, Type_name_out ''open'', Params_offset_out 0 8,
            Pos_out 8, Name_out 1, Newline_out],
           Inr ())
   \<and> show_func tables_object tables_func [] =
     Some ([Func_line 0 1 2 1 2000, Warning_offset_outside 2000,
            Func_line 1 0 0 0 0, Imported_out],
           Inr ())
   \<and> show_script_directory directory_object [] =
     Some ([Script_directory_out 12, Total_scripts_out 2,
            Script_number_out 1, Type_name_out ''closed'', Params_offset_out 0 5000,
            Warning_offset_outside 5000,
            Script_number_out 2, Type_name_out ''open'', Params_offset_out 0 8,
            Pos_out 8, Name_out 1, Newline_out],
           Inr ())
   \<and> show_sptr tables_object (tables_sptr\<lparr> chunk_size := 12 \<rparr>) [] =
     Some ([Script_number_out 1, Type_name_out ''closed'', Params_offset_out 0 1000,
            Warning_offset_outside 1000],
           Inr ())
   \<and> show_func tables_object (tables_func\<lparr> chunk_size := 8 \<rparr>) [] =
     Some ([Func_line 0 1 2 1 2000, Warning_offset_outside 2000], Inr ())
   \<and> show_script_directory_loop directory_object 16 0 1
        [Script_directory_out 12, Total_scripts_out 1] =
     Some ([Script_directory_out 12, Total_scripts_out 1,
            Script_number_out 1, Type_name_out ''closed'', Params_offset_out 0 5000,
            Warning_offset_outside 5000],
           Inr ())"
proof -
  define sptr1 where "sptr1 = tables_sptr\<lparr> chunk_size := 12 \<rparr>"
  define func1 where "func1 = tables_func\<lparr> chunk_size := 8 \<rparr>"
  define raw :: "byte list" where "raw = [1, 2, 1, 0, 208, 7, 0, 0]"
  define raw' :: "byte list" where "raw' = [1, 0, 0, 0, 136, 19, 0, 0, 0, 0, 0, 0]"
  note sptr_part = entry_outside_file_is_skipped
    [where p = 0 and object = tables_object and entry = tables_sptr_entry and outs = "[]",
     THEN conjunct1, THEN mp]
  note func_part = entry_outside_file_is_skipped
    [where i = 0 and object = tables_object and raw = raw and outs = "[]",
     THEN conjunct2, THEN conjunct1, THEN mp]
  note dir_part = entry_outside_file_is_skipped
    [where j = 0 and data = 16 and object = directory_object and raw' = raw',
     THEN conjunct2, THEN conjunct2, THEN mp]
  have s1: "0 < chunk_size tables_sptr
      \<and> read_acse_script_entry tables_object tables_sptr (chunk_data tables_sptr + 0) =
          Inr tables_sptr_entry
      \<and> \<not> offset_in_object_file tables_object (entry_offset tables_sptr_entry)"
    by code_simp
  have s2: "show_sptr_loop tables_object tables_sptr (0 + real_entry_size tables_sptr_entry) [] =
     Some ([Script_number_out 2, Type_name_out ''open'', Params_offset_out 0 8,
            Pos_out 8, Name_out 1, Newline_out],
           Inr ())"
    by code_simp
  have s3: "entry_offset tables_sptr_entry = 1000"
    "script_line (entry_number tables_sptr_entry) (entry_type tables_sptr_entry)
       (entry_num_param tables_sptr_entry) 1000 =
     [Script_number_out 1, Type_name_out ''closed'', Params_offset_out 0 1000]"
    by code_simp+
  have s4: "0 < chunk_size sptr1
      \<and> read_acse_script_entry tables_object sptr1 (chunk_data sptr1 + 0) =
          Inr tables_sptr_entry
      \<and> \<not> offset_in_object_file tables_object (entry_offset tables_sptr_entry)"
    unfolding sptr1_def by code_simp
  have s5: "chunk_size sptr1 \<le> 0 + real_entry_size tables_sptr_entry"
    unfolding sptr1_def by code_simp
  have sptr: "show_sptr_loop tables_object tables_sptr 0 [] =
     Some ([Script_number_out 1, Type_name_out ''closed'', Params_offset_out 0 1000,
            Warning_offset_outside 1000,
            Script_number_out 2, Type_name_out ''open'', Params_offset_out 0 8,
            Pos_out 8, Name_out 1, Newline_out],
           Inr ())"
    using sptr_part[OF s1, THEN conjunct1] unfolding s2 s3 by simp
  have sptr_last: "show_sptr_loop tables_object sptr1 0 [] =
     Some ([Script_number_out 1, Type_name_out ''closed'', Params_offset_out 0 1000,
            Warning_offset_outside 1000],
           Inr ())"
    using sptr_part[OF s4, THEN conjunct2, THEN mp, OF s5] unfolding s3 by simp
  have f0: "to_int (to_size_t (chunk_size tables_func) div 8) = 2"
    "to_int (to_size_t (chunk_size func1) div 8) = 1"
    unfolding func1_def by code_simp+
  have f1: "(0 :: int) < 2
      \<and> memcpy (obj_data tables_object) (chunk_data tables_func + 0 * 8) 8 = Inr raw
      \<and> \<not> offset_in_object_file tables_object (int_of_bytes (take 4 (drop 4 raw)))"
    unfolding raw_def by code_simp
  have f2: "show_func_loop tables_object tables_func (0 + 1) 2 [] =
              Some ([Func_line 1 0 0 0 0, Imported_out], Inr ())"
    by code_simp
  have f3: "le_uint (take 1 raw) = 1" "le_uint (take 1 (drop 1 raw)) = 2"
    "le_uint (take 1 (drop 2 raw)) = 1" "int_of_bytes (take 4 (drop 4 raw)) = 2000"
    unfolding raw_def by code_simp+
  have f4: "(0 :: int) < 1
      \<and> memcpy (obj_data tables_object) (chunk_data func1 + 0 * 8) 8 = Inr raw
      \<and> \<not> offset_in_object_file tables_object (int_of_bytes (take 4 (drop 4 raw)))"
    unfolding raw_def func1_def by code_simp
  have f5: "(1 :: int) \<le> 0 + 1" by simp
  have func: "show_func_loop tables_object tables_func 0 2 [] =
     Some ([Func_line 0 1 2 1 2000, Warning_offset_outside 2000,
            Func_line 1 0 0 0 0, Imported_out],
           Inr ())"
    using func_part[OF f1, THEN conjunct1] unfolding f2 f3 by simp
  have func_last: "show_func_loop tables_object func1 0 1 [] =
     Some ([Func_line 0 1 2 1 2000, Warning_offset_outside 2000], Inr ())"
    using func_part[OF f4, THEN conjunct2, THEN mp, OF f5] unfolding f3 by simp
  have d0: "expect_data directory_object (directory_offset directory_object) 4 = Inr ()
      \<and> read_int (obj_data directory_object) (directory_offset directory_object) = Inr 2
      \<and> directory_offset directory_object + 4 = 16"
    by code_simp
  have d1: "(0 :: int) < 2
      \<and> expect_data directory_object 16 12 = Inr ()
      \<and> memcpy (obj_data directory_object) 16 12 = Inr raw'
      \<and> \<not> offset_in_object_file directory_object (int_of_bytes (take 4 (drop 4 raw')))"
    unfolding raw'_def by code_simp
  have d2: "show_script_directory_loop directory_object (16 + 12) (0 + 1) 2 [] =
     Some ([Script_number_out 2, Type_name_out ''open'', Params_offset_out 0 8,
            Pos_out 8, Name_out 1, Newline_out],
           Inr ())"
    by code_simp
  have d3: "int_of_bytes (take 4 (drop 4 raw')) = 5000"
    "script_line (int_of_bytes (take 4 raw') smod 1000) (int_of_bytes (take 4 raw') sdiv 1000)
       (int_of_bytes (take 4 (drop 8 raw'))) 5000 =
     [Script_number_out 1, Type_name_out ''closed'', Params_offset_out 0 5000]"
    unfolding raw'_def by code_simp+
  have d4: "(0 :: int) < 1
      \<and> expect_data directory_object 16 12 = Inr ()
      \<and> memcpy (obj_data directory_object) 16 12 = Inr raw'
      \<and> \<not> offset_in_object_file directory_object (int_of_bytes (take 4 (drop 4 raw')))"
    unfolding raw'_def by code_simp
  have dir: "show_script_directory_loop directory_object 16 0 2
               [Script_directory_out 12, Total_scripts_out 2] =
     Some ([Script_directory_out 12, Total_scripts_out 2,
            Script_number_out 1, Type_name_out ''closed'', Params_offset_out 0 5000,
            Warning_offset_outside 5000,
            Script_number_out 2, Type_name_out ''open'', Params_offset_out 0 8,
            Pos_out 8, Name_out 1, Newline_out],
           Inr ())"
    using dir_part[OF d1, THEN conjunct1] unfolding d2 d3 by simp
  have dir_last: "show_script_directory_loop directory_object 16 0 1
               [Script_directory_out 12, Total_scripts_out 1] =
     Some ([Script_directory_out 12, Total_scripts_out 1,
            Script_number_out 1, Type_name_out ''closed'', Params_offset_out 0 5000,
            Warning_offset_outside 5000],
           Inr ())"
    using dir_part[OF d4, THEN conjunct2, THEN mp, OF f5] unfolding d3 by simp
  have o: "directory_offset directory_object = 12" by (simp add: directory_object_def)
  from sptr sptr_last func func_last dir dir_last d0 show ?thesis
    by (simp add: show_sptr_def show_func_def f0 show_script_directory_def o
        sptr1_def[symmetric] func1_def[symmetric])
qed

section \<open>Encoded strings\<close>

lemma xor_twice: "(c XOR k) XOR k = (c :: byte)"
  by (simp add: xor.assoc)

lemma to_int_mod_256: "to_int x mod 256 = x mod 256"
proof -
  have "(256 :: int) dvd 2 ^ 32" by simp
  then have "((x + 2 ^ 31) mod 2 ^ 32 - 2 ^ 31) mod 256 = ((x + 2 ^ 31) - 2 ^ 31) mod 256"
    by (metis mod_diff_left_eq mod_mod_cancel)
  then show ?thesis by (simp add: to_int_def)
qed

lemma key_mod_256:
  "to_int (to_int (off * 157135) + int k sdiv 2) mod 256 = (off * 157135 + int k div 2) mod 256"
proof -
  have s: "int k sdiv 2 = int k div 2"
    by (simp add: signed_divide_int_def sgn_if)
  have "to_int (to_int (off * 157135) + int k div 2) mod 256
          = (to_int (off * 157135) + int k div 2) mod 256"
    by (rule to_int_mod_256)
  also have "\<dots> = (to_int (off * 157135) mod 256 + int k div 2) mod 256"
    by (simp only: mod_add_left_eq)
  also have "\<dots> = ((off * 157135) mod 256 + int k div 2) mod 256"
    by (simp only: to_int_mod_256)
  also have "\<dots> = (off * 157135 + int k div 2) mod 256"
    by (simp only: mod_add_left_eq)
  finally show ?thesis by (simp only: s)
qed

lemma key_eq:
  "(word_of_int (to_int (to_int (off * 157135) + int k sdiv 2)) :: byte) =
     word_of_int ((off * 157135 + int k div 2) mod 256)"
  by (rule iffD2[OF word_of_int_eq_iff]) (simp add: take_bit_eq_mod key_mod_256)

lemma decode_encode_ch: "decode_ch off (int k) (encode_ch off k ch) = ch"
  by (simp only: decode_ch_def encode_ch_def key_eq xor_twice)


lemma memcpy_byte:
  assumes "memcpy mem p n = Inr bs" and "k < n"
  shows "memcpy mem (p + int k) 1 = Inr [bs ! k]"
proof -
  from assms(1) have r: "0 \<le> p" "p + int n \<le> int (length mem)"
    and bs: "bs = take n (drop (nat p) mem)"
    unfolding memcpy_def by (auto split: if_splits)
  from r assms(2) have "nat p + k < length mem" by linarith
  then have "drop (nat p + k) mem = mem ! (nat p + k) # drop (Suc (nat p + k)) mem"
    by (simp add: Cons_nth_drop_Suc)
  then have "take 1 (drop (nat (p + int k)) mem) = [mem ! (nat p + k)]"
    using r(1) by (simp add: nat_add_distrib)
  moreover have "bs ! k = mem ! (nat p + k)"
    using assms(2) r by (simp add: bs)
  ultimately show ?thesis
    using r assms(2) by (simp add: memcpy_def)
qed

lemma stre_encode_nth:
  "k \<le> length s \<Longrightarrow> stre_encode off s ! k = encode_ch off k ((s @ [0]) ! k)"
  unfolding stre_encode_def by (simp add: nth_map_upt del: upt_Suc)

lemma stre_encode_length: "length (stre_encode off s) = length s + 1"
  by (simp add: stre_encode_def)

lemma show_string_loop_decodes:
  assumes stored: "memcpy mem value (length s + 1) = Inr (stre_encode off s)"
    and nonul: "0 \<notin> set s"
    and j: "j \<le> length s"
  shows "show_string_loop mem off value True (int j) outs =
           (outs @ map Char_out (drop j s), Inr ())"
  using j
proof (induction "length s - j" arbitrary: j outs)
  case 0
  then have j: "j = length s" by simp
  have b: "memcpy mem (value + int j) 1 = Inr [encode_ch off j 0]"
    using memcpy_byte[OF stored, of j] stre_encode_nth[of j s off] j by simp
  have e: "drop j s = []" using j by simp
  show ?case
    by (subst show_string_loop.simps) (simp add: b[simplified] decode_encode_ch e)
next
  case (Suc n)
  then have lt: "j < length s" by simp
  have b: "memcpy mem (value + int j) 1 = Inr [encode_ch off j (s ! j)]"
    using memcpy_byte[OF stored, of j] stre_encode_nth[of j s off] lt by (simp add: nth_append)
  from lt nonul have nz: "s ! j \<noteq> 0" by (metis nth_mem)
  have IH: "show_string_loop mem off value True (int (Suc j)) (outs @ [Char_out (s ! j)]) =
              ((outs @ [Char_out (s ! j)]) @ map Char_out (drop (Suc j) s), Inr ())"
    using Suc.hyps(1)[of "Suc j"] Suc.hyps(2) lt by simp
  have d: "drop j s = s ! j # drop (Suc j) s" using lt by (simp add: Cons_nth_drop_Suc)
  show ?case
    by (subst show_string_loop.simps)
       (simp add: b[simplified] decode_encode_ch nz IH[simplified] d add.commute)
qed


lemma nul_terminated_loop_encoded:
  assumes stored: "memcpy mem (chunk_data chunk + offset) (length s + 1) = Inr (stre_encode offset s)"
    and stre: "chunk_type chunk = CHUNK_STRE"
    and inchunk: "offset + int (length s) < chunk_size chunk"
    and bounds: "0 \<le> offset" "chunk_size chunk < 2 ^ 31"
    and j: "j \<le> length s"
  shows "nul_terminated_loop mem chunk offset (offset + int j) = Inr True"
  using j
proof (induction "length s - j" arbitrary: j)
  case 0
  then have j: "j = length s" by simp
  have b: "memcpy mem (chunk_data chunk + (offset + int j)) 1 = Inr [encode_ch offset j 0]"
    using memcpy_byte[OF stored, of j] stre_encode_nth[of j s offset] j
    by (simp add: add.assoc)
  have t: "to_int (int j) = int j"
    using inchunk bounds j by (simp add: to_int_id)
  have i: "offset + int j < chunk_size chunk" using inchunk j by simp
  show ?case
    by (subst nul_terminated_loop.simps) (simp add: b[simplified] stre t i decode_encode_ch)
next
  case (Suc n)
  then have lt: "j < length s" by simp
  have b: "memcpy mem (chunk_data chunk + (offset + int j)) 1 = Inr [encode_ch offset j (s ! j)]"
    using memcpy_byte[OF stored, of j] stre_encode_nth[of j s offset] lt
    by (simp add: nth_append add.assoc)
  have t: "to_int (int j) = int j"
    using inchunk bounds lt by (simp add: to_int_id)
  have i: "offset + int j < chunk_size chunk" using inchunk lt by simp
  have IH: "nul_terminated_loop mem chunk offset (offset + int j + 1) = Inr True"
    using Suc.hyps(1)[of "Suc j"] Suc.hyps(2) lt by (simp add: ac_simps)
  show ?case
    by (subst nul_terminated_loop.simps)
       (simp add: b[simplified] stre t i decode_encode_ch IH)
qed

text \<open>
  C8. Decoding the encoding of a string gives the string back, for every string and
  every chunk-local offset: character by character for any bytes, and through the
  viewer's own path (offset check, search for the decoded NUL, \<open>show_string\<close>) for a
  string as a STRE chunk stores it, that is, with no NUL before its end and inside the
  chunk.
\<close>

theorem stre_decode_encode:
  "(\<forall>k ch. decode_ch offset (int k) (encode_ch offset k ch) = ch)
   \<and> map (\<lambda>k. decode_ch offset (int k) (stre_encode offset s ! k)) [0 ..< length s] = s
   \<and> (chunk_type chunk = CHUNK_STRE \<and> 0 \<notin> set s
        \<and> 0 \<le> offset \<and> offset + int (length s) < chunk_size chunk
        \<and> chunk_size chunk < 2 ^ 31
        \<and> memcpy mem (chunk_data chunk + offset) (length s + 1) = Inr (stre_encode offset s)
      \<longrightarrow> show_strl_stre_entry mem chunk index offset outs =
            (outs @ String_index_out index offset # map Char_out s @ [String_end_out], Inr ()))"
proof (intro conjI allI impI)
  fix k ch
  show "decode_ch offset (int k) (encode_ch offset k ch) = ch" by (rule decode_encode_ch)
next
  show "map (\<lambda>k. decode_ch offset (int k) (stre_encode offset s ! k)) [0 ..< length s] = s"
    by (rule nth_equalityI) (simp_all add: stre_encode_nth decode_encode_ch nth_append)
next
  assume h: "chunk_type chunk = CHUNK_STRE \<and> 0 \<notin> set s
        \<and> 0 \<le> offset \<and> offset + int (length s) < chunk_size chunk
        \<and> chunk_size chunk < 2 ^ 31
        \<and> memcpy mem (chunk_data chunk + offset) (length s + 1) = Inr (stre_encode offset s)"
  then have stored: "memcpy mem (chunk_data chunk + offset) (length s + 1) = Inr (stre_encode offset s)"
    and stre: "chunk_type chunk = CHUNK_STRE" and nonul: "0 \<notin> set s"
    and inchunk: "offset + int (length s) < chunk_size chunk"
    and bounds: "0 \<le> offset" "chunk_size chunk < 2 ^ 31"
    by simp_all
  have e: "expect_chunk_offset_in_chunk chunk offset = Inr ()"
    using inchunk bounds
    by (simp add: expect_chunk_offset_in_chunk_def chunk_offset_in_chunk_def
        chunk_offset_in_range_def)
  have t: "is_strl_stre_string_nul_terminated mem chunk offset = Inr True"
    using nul_terminated_loop_encoded[OF stored stre inchunk bounds, of 0]
    by (simp add: is_strl_stre_string_nul_terminated_def)
  have r: "read_strl_stre_string mem chunk offset = Inr (chunk_data chunk + offset)"
    by (simp add: read_strl_stre_string_def t)
  have l: "show_string_loop mem offset (chunk_data chunk + offset) True 0 outs' =
             (outs' @ map Char_out s, Inr ())" for outs'
    using show_string_loop_decodes[OF stored nonul, of 0 outs'] by simp
  show "show_strl_stre_entry mem chunk index offset outs =
            (outs @ String_index_out index offset # map Char_out s @ [String_end_out], Inr ())"
    by (simp add: show_strl_stre_entry_def e r stre show_string_def l)
qed

theorem stre_decode_encode_witness:
  "stre_encode 20 (cstr ''ABC'') = [109, 110, 110, 45]
   \<and> show_strl_stre_entry (stre_chunk_data @ [0]) stre_chunk 0 20 [] =
       ([String_index_out 0 20, Char_out 65, Char_out 66, Char_out 67, String_end_out],
        Inr ())"
proof -
  have enc: "stre_encode 20 (cstr ''ABC'') = [109, 110, 110, 45]" by code_simp
  have h: "chunk_type stre_chunk = CHUNK_STRE \<and> 0 \<notin> set (cstr ''ABC'')
        \<and> (0 :: int) \<le> 20 \<and> 20 + int (length (cstr ''ABC'')) < chunk_size stre_chunk
        \<and> chunk_size stre_chunk < 2 ^ 31
        \<and> memcpy (stre_chunk_data @ [0]) (chunk_data stre_chunk + 20)
              (length (cstr ''ABC'') + 1) = Inr (stre_encode 20 (cstr ''ABC''))"
    by code_simp
  from stre_decode_encode[of 20 "cstr ''ABC''" stre_chunk "stre_chunk_data @ [0]" 0 "[]"] h
  have "show_strl_stre_entry (stre_chunk_data @ [0]) stre_chunk 0 20 [] =
          ([] @ String_index_out 0 20 # map Char_out (cstr ''ABC'') @ [String_end_out], Inr ())"
    by blast
  with enc show ?thesis by (simp add: cstr_def)
qed

section \<open>File loader\<close>

lemma show_string_loop_sentinel:
  assumes z: "mem ! n = 0" and len: "length mem = Suc n"
    and p: "0 \<le> value + i" "value + i \<le> int n"
  shows "\<exists>m. value + i + int m \<le> int n
           \<and> mem ! (nat (value + i) + m) = 0
           \<and> 0 \<notin> set (take m (drop (nat (value + i)) mem))
           \<and> show_string_loop mem offset value False i outs =
               (outs @ map Char_out (take m (drop (nat (value + i)) mem)), Inr ())"
  using p
proof (induction "n - nat (value + i)" arbitrary: i outs)
  case 0
  then have q: "nat (value + i) = n" by simp
  have b: "memcpy mem (value + i) 1 = Inr [0]"
    using 0 len z q
    by (simp add: memcpy_def Cons_nth_drop_Suc[symmetric])
  show ?case
    by (rule exI[of _ 0], subst show_string_loop.simps) (use 0 z q in \<open>simp add: b[simplified]\<close>)
next
  case (Suc k)
  define q where "q = nat (value + i)"
  from Suc have q: "q < n" "int q = value + i" by (simp_all add: q_def)
  have d: "drop q mem = mem ! q # drop (Suc q) mem"
    using q len by (simp add: Cons_nth_drop_Suc)
  have b: "memcpy mem (value + i) 1 = Inr [mem ! q]"
    using q len d Suc.prems by (simp add: memcpy_def q_def)
  show ?case
  proof (cases "mem ! q = 0")
    case True
    show ?thesis
      by (rule exI[of _ 0], subst show_string_loop.simps)
         (use Suc.prems True in \<open>simp add: b[simplified] q_def[symmetric]\<close>)
  next
    case False
    have n1: "nat (value + (i + 1)) = Suc q" using Suc.prems by (simp add: q_def)
    have "k = n - nat (value + (i + 1))" using Suc.hyps(2) by (simp add: n1 q_def)
    moreover have "0 \<le> value + (i + 1)" "value + (i + 1) \<le> int n" using q by simp_all
    ultimately obtain m where m: "value + (i + 1) + int m \<le> int n"
      and z': "mem ! (nat (value + (i + 1)) + m) = 0"
      and nz: "0 \<notin> set (take m (drop (nat (value + (i + 1))) mem))"
      and r: "show_string_loop mem offset value False (i + 1) (outs @ [Char_out (mem ! q)]) =
               ((outs @ [Char_out (mem ! q)]) @ map Char_out (take m (drop (nat (value + (i + 1))) mem)), Inr ())"
      using Suc.hyps(1)[of "i + 1" "outs @ [Char_out (mem ! q)]"] by blast
    show ?thesis
      by (rule exI[of _ "Suc m"], subst show_string_loop.simps)
         (use m r z' nz False in \<open>simp add: b[simplified] n1 q_def[symmetric] d\<close>)
  qed
qed

text \<open>
  C10. The loader returns a buffer exactly when the two seeks and \<open>ftell\<close> succeed, the
  file has at most \<open>INT_MAX\<close> bytes, \<open>malloc\<close> returns a buffer and \<open>fread\<close> stores all
  \<open>N\<close> bytes of the file, \<open>N\<close> being the answer of \<open>ftell\<close>. Then the recorded size is \<open>N\<close>,
  the buffer has \<open>N + 1\<close> bytes, its first \<open>N\<close> bytes are the bytes read and the byte at
  index \<open>N\<close> is NUL. So the unchecked scan of \<open>show_string\<close> for the end of a plain
  string, started anywhere from 0 to \<open>N\<close>, stops at a NUL at index \<open>N\<close> at the latest,
  prints the bytes before it and never reads outside the buffer.
\<close>

theorem loader_appends_nul_sentinel:
  "(read_object_file_data allocated fh = Inr viewer \<longleftrightarrow>
      seek_end_result fh = 0 \<and> 0 \<le> tell_result fh \<and> seek_set_result fh = 0
      \<and> tell_result fh \<le> INT_MAX \<and> allocated
      \<and> nat (tell_result fh) \<le> length (fread_bytes fh)
      \<and> viewer = \<lparr> object_data = take (nat (tell_result fh)) (fread_bytes fh) @ [0],
                    object_size = tell_result fh \<rparr>)
   \<and> (read_object_file_data allocated fh = Inr viewer \<longrightarrow>
        object_size viewer = tell_result fh
      \<and> int (length (object_data viewer)) = tell_result fh + 1
      \<and> take (nat (tell_result fh)) (object_data viewer) =
          take (nat (tell_result fh)) (fread_bytes fh)
      \<and> object_data viewer ! nat (tell_result fh) = 0
      \<and> (\<forall>value. 0 \<le> value \<and> value \<le> tell_result fh \<longrightarrow>
            (\<exists>m. value + int m \<le> tell_result fh
               \<and> object_data viewer ! (nat value + m) = 0
               \<and> 0 \<notin> set (take m (drop (nat value) (object_data viewer)))
               \<and> show_string (object_data viewer) index offset value False outs =
                   (outs @ String_index_out index offset #
                      map Char_out (take m (drop (nat value) (object_data viewer))) @
                      [String_end_out],
                    Inr ()))))"
proof (intro conjI impI)
  define N where "N = tell_result fh"
  define d where "d = take (nat N) (fread_bytes fh)"
  define mem where "mem = d @ [0]"
  have sz: "to_int N = N" if "0 \<le> N" "N \<le> INT_MAX"
    using that by (intro to_int_id) (simp_all add: INT_MAX_def)
  show char: "read_object_file_data allocated fh = Inr viewer \<longleftrightarrow>
      seek_end_result fh = 0 \<and> 0 \<le> tell_result fh \<and> seek_set_result fh = 0
      \<and> tell_result fh \<le> INT_MAX \<and> allocated
      \<and> nat (tell_result fh) \<le> length (fread_bytes fh)
      \<and> viewer = \<lparr> object_data = take (nat (tell_result fh)) (fread_bytes fh) @ [0],
                    object_size = tell_result fh \<rparr>"
  proof (cases "0 \<le> N \<and> N \<le> INT_MAX")
    case True
    then have "to_int N = N" using sz by simp
    with True show ?thesis
      unfolding read_object_file_data_def Let_def N_def[symmetric]
      by (auto simp: min_def)
  next
    case False
    then show ?thesis
      unfolding read_object_file_data_def Let_def N_def[symmetric]
      by auto
  qed
  assume "read_object_file_data allocated fh = Inr viewer"
  with char have v: "viewer = \<lparr> object_data = mem, object_size = N \<rparr>"
    and N0: "0 \<le> N" and l: "nat N \<le> length (fread_bytes fh)"
    by (simp_all add: N_def mem_def d_def)
  from l have n: "length d = nat N" by (simp add: d_def)
  have z: "mem ! nat N = 0" using n by (simp add: mem_def nth_append)
  have len: "length mem = Suc (nat N)" using n by (simp add: mem_def)
  show "object_size viewer = tell_result fh" by (simp add: v N_def)
  show "int (length (object_data viewer)) = tell_result fh + 1"
    using len N0 by (simp add: v N_def)
  show "take (nat (tell_result fh)) (object_data viewer) =
          take (nat (tell_result fh)) (fread_bytes fh)"
    using n by (simp add: v N_def[symmetric] mem_def d_def[symmetric])
  show "object_data viewer ! nat (tell_result fh) = 0"
    using z by (simp add: v N_def)
  show "\<forall>value. 0 \<le> value \<and> value \<le> tell_result fh \<longrightarrow>
            (\<exists>m. value + int m \<le> tell_result fh
               \<and> object_data viewer ! (nat value + m) = 0
               \<and> 0 \<notin> set (take m (drop (nat value) (object_data viewer)))
               \<and> show_string (object_data viewer) index offset value False outs =
                   (outs @ String_index_out index offset #
                      map Char_out (take m (drop (nat value) (object_data viewer))) @
                      [String_end_out],
                    Inr ()))"
  proof (intro allI impI)
    fix "value" assume "0 \<le> value \<and> value \<le> tell_result fh"
    then have r: "0 \<le> value + 0" "value + 0 \<le> int (nat N)" using N0 by (simp_all add: N_def)
    from show_string_loop_sentinel
           [OF z len r, of offset "outs @ [String_index_out index offset]"] N0
    obtain m where "value + int m \<le> N" "mem ! (nat value + m) = 0"
      "0 \<notin> set (take m (drop (nat value) mem))"
      and "show_string_loop mem offset value False 0 (outs @ [String_index_out index offset]) =
              ((outs @ [String_index_out index offset]) @
                 map Char_out (take m (drop (nat value) mem)), Inr ())"
      by auto
    then show "\<exists>m. value + int m \<le> tell_result fh
               \<and> object_data viewer ! (nat value + m) = 0
               \<and> 0 \<notin> set (take m (drop (nat value) (object_data viewer)))
               \<and> show_string (object_data viewer) index offset value False outs =
                   (outs @ String_index_out index offset #
                      map Char_out (take m (drop (nat value) (object_data viewer))) @
                      [String_end_out],
                    Inr ())"
      unfolding v N_def[symmetric] by (intro exI[of _ m]) (simp add: show_string_def)
  qed
qed

theorem loader_appends_nul_sentinel_witness:
  "read_object_file_data True two_byte_file =
     Inr \<lparr> object_data = [65, 66, 0], object_size = 2 \<rparr>
   \<and> read_object_file_data False two_byte_file = Inl Null_buffer
   \<and> (\<exists>m. 1 + int m \<le> 2
          \<and> [65, 66, 0 :: byte] ! (nat 1 + m) = 0
          \<and> 0 \<notin> set (take m (drop (nat 1) [65, 66, 0 :: byte]))
          \<and> show_string [65, 66, 0] 0 1 1 False [] =
              ([] @ String_index_out 0 1 #
                 map Char_out (take m (drop (nat 1) [65, 66, 0])) @ [String_end_out],
               Inr ()))
   \<and> show_string [65, 66, 0] 0 1 1 False [] =
       ([String_index_out 0 1, Char_out 66, String_end_out], Inr ())"
proof -
  define v where "v = \<lparr> object_data = [65, 66, 0 :: byte], object_size = 2 \<rparr>"
  note loader = loader_appends_nul_sentinel
    [where allocated = True and fh = two_byte_file and viewer = v and index = 0
       and offset = 1 and outs = "[]"]
  have c: "seek_end_result two_byte_file = 0 \<and> 0 \<le> tell_result two_byte_file
      \<and> seek_set_result two_byte_file = 0
      \<and> tell_result two_byte_file \<le> INT_MAX \<and> True
      \<and> nat (tell_result two_byte_file) \<le> length (fread_bytes two_byte_file)
      \<and> v = \<lparr> object_data = take (nat (tell_result two_byte_file))
                               (fread_bytes two_byte_file) @ [0],
               object_size = tell_result two_byte_file \<rparr>"
    unfolding v_def by code_simp
  have r: "read_object_file_data True two_byte_file = Inr v"
    by (rule loader[THEN conjunct1, THEN iffD2, OF c])
  have t: "tell_result two_byte_file = 2" by code_simp
  have f: "read_object_file_data False two_byte_file = Inl Null_buffer" by code_simp
  have e: "show_string [65, 66, 0] 0 1 1 False [] =
       ([String_index_out 0 1, Char_out 66, String_end_out], Inr ())"
    by code_simp
  from loader[THEN conjunct2, THEN mp, OF r]
  have "\<forall>value. 0 \<le> value \<and> value \<le> tell_result two_byte_file \<longrightarrow>
            (\<exists>m. value + int m \<le> tell_result two_byte_file
               \<and> object_data v ! (nat value + m) = 0
               \<and> 0 \<notin> set (take m (drop (nat value) (object_data v)))
               \<and> show_string (object_data v) 0 1 value False [] =
                   ([] @ String_index_out 0 1 #
                      map Char_out (take m (drop (nat value) (object_data v))) @
                      [String_end_out],
                    Inr ()))"
    by blast
  then have "\<exists>m. 1 + int m \<le> tell_result two_byte_file
               \<and> object_data v ! (nat 1 + m) = 0
               \<and> 0 \<notin> set (take m (drop (nat 1) (object_data v)))
               \<and> show_string (object_data v) 0 1 1 False [] =
                   ([] @ String_index_out 0 1 #
                      map Char_out (take m (drop (nat 1) (object_data v))) @
                      [String_end_out],
                    Inr ())"
    by (elim allE[of _ 1]) (simp add: t)
  then have s: "\<exists>m. 1 + int m \<le> 2
          \<and> [65, 66, 0 :: byte] ! (nat 1 + m) = 0
          \<and> 0 \<notin> set (take m (drop (nat 1) [65, 66, 0 :: byte]))
          \<and> show_string [65, 66, 0] 0 1 1 False [] =
              ([] @ String_index_out 0 1 #
                 map Char_out (take m (drop (nat 1) [65, 66, 0])) @ [String_end_out],
               Inr ())"
    unfolding t v_def by simp
  from r f s e show ?thesis unfolding v_def by blast
qed
end
